theory Spec2Isabelle
  imports Main
begin

section \<open>JavaScript values\<close>

text \<open>
  The scheduling grid is a browser script (three overlapping revisions of one
  \<^verbatim>\<open>main.js\<close>). Its slot, resource and response objects are duck-typed, and
  the code branches on truthiness, on strict equality and on the conversions
  \<^verbatim>\<open>String(..)\<close> and \<^verbatim>\<open>Number(..)\<close>. The primitive values that
  reach those tests are modelled by one datatype. Numbers are the integers (appointment
  ids, status codes, customer ids, \<^verbatim>\<open>Date.now()\<close>) plus \<^verbatim>\<open>NaN\<close>;
  fractional numbers are not modelled. An absent property reads \<^verbatim>\<open>undefined\<close>.
\<close>

datatype jsval = JUndefined | JNull | JBool bool | JNum int | JNaN | JStr string

text \<open>Truthiness, as tested by \<^verbatim>\<open>if (v)\<close>, \<^verbatim>\<open>!v\<close>, \<^verbatim>\<open>a && b\<close>, \<^verbatim>\<open>a || b\<close>.\<close>

fun truthy :: "jsval \<Rightarrow> bool" where
  "truthy JUndefined = False"
| "truthy JNull = False"
| "truthy (JBool b) = b"
| "truthy (JNum n) = (n \<noteq> 0)"
| "truthy JNaN = False"
| "truthy (JStr s) = (s \<noteq> [])"

text \<open>\<^verbatim>\<open>a || b\<close> and \<^verbatim>\<open>a ?? b\<close> on values.\<close>

definition js_or :: "jsval \<Rightarrow> jsval \<Rightarrow> jsval" where
  "js_or a b = (if truthy a then a else b)"

definition js_nullish :: "jsval \<Rightarrow> jsval \<Rightarrow> jsval" where
  "js_nullish a b = (if a = JUndefined \<or> a = JNull then b else a)"

text \<open>Strict equality \<^verbatim>\<open>a === b\<close>: same type and same value; \<^verbatim>\<open>NaN\<close> equals nothing.\<close>

definition strict_eq :: "jsval \<Rightarrow> jsval \<Rightarrow> bool" where
  "strict_eq a b = (a \<noteq> JNaN \<and> a = b)"

subsection \<open>Decimal numerals\<close>

definition digit_char :: "nat \<Rightarrow> char" where
  "digit_char n = ''0123456789'' ! (n mod 10)"

fun string_of_nat :: "nat \<Rightarrow> string" where
  "string_of_nat n =
     (if n < 10 then [digit_char n] else string_of_nat (n div 10) @ [digit_char (n mod 10)])"

declare string_of_nat.simps [simp del]

definition string_of_int :: "int \<Rightarrow> string" where
  "string_of_int i =
     (if i < 0 then CHR ''-'' # string_of_nat (nat (- i)) else string_of_nat (nat i))"

definition is_digit :: "char \<Rightarrow> bool" where
  "is_digit c = (c \<in> set ''0123456789'')"

definition digit_val :: "char \<Rightarrow> int" where
  "digit_val c = int (of_char c) - 48"

definition digits_val :: "string \<Rightarrow> int" where
  "digits_val ds = foldl (\<lambda>acc c. 10 * acc + digit_val c) 0 ds"

definition is_space :: "char \<Rightarrow> bool" where
  "is_space c = (c \<in> set [CHR '' '', CHR 0x09, CHR 0x0A, CHR 0x0B, CHR 0x0C, CHR 0x0D])"

text \<open>
  An optionally signed run of decimal digits, the shape both \<^verbatim>\<open>parseInt(s, 10)\<close>
  and \<^verbatim>\<open>Number(s)\<close> read integers in.
\<close>

definition strip_sign :: "string \<Rightarrow> bool \<times> string" where
  "strip_sign t =
     (case t of
        [] \<Rightarrow> (False, [])
      | c # r \<Rightarrow> if c = CHR ''-'' then (True, r) else if c = CHR ''+'' then (False, r) else (False, t))"

text \<open>
  \<^verbatim>\<open>parseInt(s, 10)\<close>: leading white space is skipped, a sign is read, then the
  longest prefix of digits; no digit at all gives \<^verbatim>\<open>NaN\<close> (here \<open>None\<close>).
\<close>

definition parseInt :: "string \<Rightarrow> int option" where
  "parseInt s =
     (let (neg, u) = strip_sign (dropWhile is_space s);
          ds = takeWhile is_digit u
      in if ds = [] then None else Some (if neg then - digits_val ds else digits_val ds))"

text \<open>\<^verbatim>\<open>String(v)\<close>, also what a template literal does to an interpolated value.\<close>

fun js_String :: "jsval \<Rightarrow> string" where
  "js_String JUndefined = ''undefined''"
| "js_String JNull = ''null''"
| "js_String (JBool b) = (if b then ''true'' else ''false'')"
| "js_String (JNum n) = string_of_int n"
| "js_String JNaN = ''NaN''"
| "js_String (JStr s) = s"

text \<open>
  \<^verbatim>\<open>Number(v)\<close>. A string is trimmed; the empty string is 0; a signed run of
  digits is its value; every other string is taken as \<^verbatim>\<open>NaN\<close> (fractions,
  exponents and hexadecimal literals are outside the integer model).
\<close>

definition trim :: "string \<Rightarrow> string" where
  "trim s = rev (dropWhile is_space (rev (dropWhile is_space s)))"

definition Number_of_string :: "string \<Rightarrow> jsval" where
  "Number_of_string s =
     (let t = trim s; (neg, u) = strip_sign t
      in if t = [] then JNum 0
         else if u \<noteq> [] \<and> list_all is_digit u
              then JNum (if neg then - digits_val u else digits_val u)
         else JNaN)"

fun js_Number :: "jsval \<Rightarrow> jsval" where
  "js_Number JUndefined = JNaN"
| "js_Number JNull = JNum 0"
| "js_Number (JBool b) = JNum (if b then 1 else 0)"
| "js_Number (JNum n) = JNum n"
| "js_Number JNaN = JNaN"
| "js_Number (JStr s) = Number_of_string s"

text \<open>\<^verbatim>\<open>s.toLowerCase()\<close> and the \<^verbatim>\<open>i\<close> flag of a regular expression, on ASCII letters.\<close>

definition lower_char :: "char \<Rightarrow> char" where
  "lower_char c =
     (let n = (of_char c :: nat) in if 65 \<le> n \<and> n \<le> 90 then char_of (n + 32) else c)"

definition toLowerCase :: "string \<Rightarrow> string" where
  "toLowerCase s = map lower_char s"

text \<open>\<^verbatim>\<open>s.split(sep)\<close> for a one-character separator.\<close>

fun split_on :: "char \<Rightarrow> string \<Rightarrow> string list" where
  "split_on sep [] = [[]]"
| "split_on sep (c # cs) =
     (if c = sep then [] # split_on sep cs
      else (case split_on sep cs of [] \<Rightarrow> [[c]] | p # ps \<Rightarrow> (c # p) # ps))"

text \<open>\<^verbatim>\<open>/needle/.test(s)\<close> for a literal pattern: does \<open>needle\<close> occur in \<open>s\<close>?\<close>

fun contains :: "string \<Rightarrow> string \<Rightarrow> bool" where
  "contains needle [] = (needle = [])"
| "contains needle (c # cs) = (take (length needle) (c # cs) = needle \<or> contains needle cs)"

section \<open>Dates\<close>

text \<open>
  A \<^verbatim>\<open>Date\<close> is either invalid or a point in time. The script only ever
  reads a date down to the minute (\<^verbatim>\<open>getFullYear\<close>, \<^verbatim>\<open>getMonth\<close>,
  \<^verbatim>\<open>getDate\<close>, \<^verbatim>\<open>getHours\<close>, \<^verbatim>\<open>getMinutes\<close>), so a valid date
  is the number of minutes since 1970-01-01 00:00 of the local time zone, which is taken to
  have a fixed offset on the days at hand (no daylight-saving change inside the grid).
  \<open>days_from_civil\<close> and \<open>civil_from_days\<close> are the proleptic Gregorian day
  number and its inverse; \<open>MakeDay\<close> is ECMAScript's operation of that name, which
  lets months and days overflow into the next year or month.
\<close>

datatype jsdate = Invalid_Date | Date_at int

definition days_from_civil :: "int \<Rightarrow> int \<Rightarrow> int \<Rightarrow> int" where
  "days_from_civil y m d =
     (let y' = (if m \<le> 2 then y - 1 else y);
          era = y' div 400;
          yoe = y' - era * 400;
          doy = (153 * (if m > 2 then m - 3 else m + 9) + 2) div 5 + d - 1;
          doe = yoe * 365 + yoe div 4 - yoe div 100 + doy
      in era * 146097 + doe - 719468)"

definition civil_from_days :: "int \<Rightarrow> int \<times> int \<times> int" where
  "civil_from_days z =
     (let z' = z + 719468;
          era = z' div 146097;
          doe = z' - era * 146097;
          yoe = (doe - doe div 1460 + doe div 36524 - doe div 146096) div 365;
          doy = doe - (365 * yoe + yoe div 4 - yoe div 100);
          mp = (5 * doy + 2) div 153;
          d = doy - (153 * mp + 2) div 5 + 1;
          m = (if mp < 10 then mp + 3 else mp - 9)
      in (yoe + era * 400 + (if m \<le> 2 then 1 else 0), m, d))"

definition MakeDay :: "int \<Rightarrow> int \<Rightarrow> int \<Rightarrow> int" where
  "MakeDay year month date =
     days_from_civil (year + month div 12) (month mod 12 + 1) 1 + date - 1"

text \<open>
  \<^verbatim>\<open>new Date(y, m, d, h, mins, 0)\<close>. The first three arguments come out of
  \<^verbatim>\<open>parseInt\<close> and may be \<^verbatim>\<open>NaN\<close> (\<open>None\<close>), which makes the date
  invalid. A year from 0 to 99 means 1900 + year.
\<close>

definition new_Date :: "int option \<Rightarrow> int option \<Rightarrow> int option \<Rightarrow> int \<Rightarrow> int \<Rightarrow> jsdate" where
  "new_Date y m d h mins =
     (case (y, m, d) of
        (Some yv, Some mv, Some dv) \<Rightarrow>
          Date_at (MakeDay (if 0 \<le> yv \<and> yv \<le> 99 then 1900 + yv else yv) mv dv * 1440
                   + h * 60 + mins)
      | _ \<Rightarrow> Invalid_Date)"

fun getFullYear :: "jsdate \<Rightarrow> jsval" where
  "getFullYear Invalid_Date = JNaN"
| "getFullYear (Date_at t) = JNum (fst (civil_from_days (t div 1440)))"

fun getMonth :: "jsdate \<Rightarrow> jsval" where
  "getMonth Invalid_Date = JNaN"
| "getMonth (Date_at t) = JNum (fst (snd (civil_from_days (t div 1440))) - 1)"

fun getDate :: "jsdate \<Rightarrow> jsval" where
  "getDate Invalid_Date = JNaN"
| "getDate (Date_at t) = JNum (snd (snd (civil_from_days (t div 1440))))"

fun getHours :: "jsdate \<Rightarrow> jsval" where
  "getHours Invalid_Date = JNaN"
| "getHours (Date_at t) = JNum ((t mod 1440) div 60)"

fun getMinutes :: "jsdate \<Rightarrow> jsval" where
  "getMinutes Invalid_Date = JNaN"
| "getMinutes (Date_at t) = JNum (t mod 60)"

text \<open>
  \<^verbatim>\<open>new Date(s.TimeFrom)\<close>: the slots carry local date-times written
  \<^verbatim>\<open>yyyy-mm-ddThh:mm:ss\<close>; that form is parsed, the seconds are dropped (nothing
  reads them), and any other value is taken as an invalid date.
\<close>

definition Date_parse :: "jsval \<Rightarrow> jsdate" where
  "Date_parse v =
     (case v of
        JStr s \<Rightarrow>
          (if length s = 19 \<and> s ! 4 = CHR ''-'' \<and> s ! 7 = CHR ''-'' \<and> s ! 10 = CHR ''T''
              \<and> s ! 13 = CHR '':'' \<and> s ! 16 = CHR '':''
              \<and> list_all is_digit (take 4 s @ take 2 (drop 5 s) @ take 2 (drop 8 s)
                    @ take 2 (drop 11 s) @ take 2 (drop 14 s) @ take 2 (drop 17 s))
           then (let y = digits_val (take 4 s); m = digits_val (take 2 (drop 5 s));
                     d = digits_val (take 2 (drop 8 s)); h = digits_val (take 2 (drop 11 s));
                     mi = digits_val (take 2 (drop 14 s)); sec = digits_val (take 2 (drop 17 s))
                 in if 1 \<le> m \<and> m \<le> 12 \<and> 1 \<le> d \<and> d \<le> 31 \<and> h \<le> 23 \<and> mi \<le> 59 \<and> sec \<le> 59
                    then Date_at (MakeDay y (m - 1) d * 1440 + h * 60 + mi)
                    else Invalid_Date)
           else Invalid_Date)
      | _ \<Rightarrow> Invalid_Date)"

text \<open>Earlier-than on dates, by their time value; an invalid date is not ordered.\<close>

fun date_less :: "jsdate \<Rightarrow> jsdate \<Rightarrow> bool" where
  "date_less (Date_at a) (Date_at b) = (a < b)"
| "date_less _ _ = False"

section \<open>Configuration\<close>

record config =
  CUSTOMER_ID :: int
  SLOT_MIN_TIME :: int
  SLOT_MAX_TIME :: int
  SLOT_DURATION_MIN :: int
  RESPECT_SERVER_REGISTERED :: bool

definition CONFIG :: config where
  "CONFIG = \<lparr> CUSTOMER_ID = 1, SLOT_MIN_TIME = 8, SLOT_MAX_TIME = 17,
              SLOT_DURATION_MIN = 30, RESPECT_SERVER_REGISTERED = False \<rparr>"

section \<open>The time grid generator\<close>

text \<open>
  \<^verbatim>\<open>for (let mins = 0; mins < 60; mins += step) rows.push(new Date(y, m-1, d, h, mins, 0))\<close>.
  With a step that is not positive the loop never ends, so the loop is a partial function.
\<close>

partial_function (option) minutes_loop ::
  "(int \<Rightarrow> jsdate) \<Rightarrow> int \<Rightarrow> int \<Rightarrow> jsdate list \<Rightarrow> jsdate list option" where
  "minutes_loop mk step mins rows =
     (if mins < 60 then minutes_loop mk step (mins + step) (rows @ [mk mins]) else Some rows)"

declare minutes_loop.simps [code]

text \<open>\<^verbatim>\<open>for (let h = SLOT_MIN_TIME; h <= SLOT_MAX_TIME; h++) { ... }\<close>\<close>

function hours_loop ::
  "(int \<Rightarrow> int \<Rightarrow> jsdate) \<Rightarrow> int \<Rightarrow> int \<Rightarrow> int \<Rightarrow> jsdate list \<Rightarrow> jsdate list option" where
  "hours_loop mk step hmax h rows =
     (if h \<le> hmax
      then (case minutes_loop (mk h) step 0 rows of
              None \<Rightarrow> None
            | Some rows' \<Rightarrow> hours_loop mk step hmax (h + 1) rows')
      else Some rows)"
  by pat_completeness auto
termination
  by (relation "measure (\<lambda>(mk, step, hmax, h, rows). nat (hmax + 1 - h))") auto

declare hours_loop.simps [simp del]

text \<open>
  \<^verbatim>\<open>const [y,m,d] = dateStr.split('-').map(s => parseInt(s,10))\<close>: a missing part
  is \<^verbatim>\<open>undefined\<close>, which behaves like \<^verbatim>\<open>NaN\<close> in the arithmetic that follows.
\<close>

definition part_at :: "int option list \<Rightarrow> nat \<Rightarrow> int option" where
  "part_at ps i = (if i < length ps then ps ! i else None)"

definition generateRowTimes :: "config \<Rightarrow> string \<Rightarrow> jsdate list option" where
  "generateRowTimes cfg dateStr =
     (let ps = map parseInt (split_on CHR ''-'' dateStr);
          y = part_at ps 0; m = part_at ps 1; d = part_at ps 2
      in hours_loop (\<lambda>h mins. new_Date y (map_option (\<lambda>mv. mv - 1) m) d h mins)
           (SLOT_DURATION_MIN cfg) (SLOT_MAX_TIME cfg) (SLOT_MIN_TIME cfg) [])"

section \<open>Slots, resources and the session's registration\<close>

text \<open>
  A slot object as the appointment endpoint (or the fixture) delivers it and as the
  script extends it. Every field is a property that may be absent
  (\<^verbatim>\<open>undefined\<close>). The attributes that are only printed in the detail view
  (\<^verbatim>\<open>Date\<close>, \<^verbatim>\<open>Full_Name\<close>, \<^verbatim>\<open>Phone\<close>, ...) are left out.
  The misspelling \<^verbatim>\<open>Appoitment_Id\<close> is the source's.
\<close>

record slot =
  Appoitment_Id :: jsval
  Resource_Id :: jsval
  ResourceId :: jsval
  TimeFrom :: jsval
  TimeTo :: jsval
  Status :: jsval
  Description_En :: jsval
  Description_Ar :: jsval
  Notes :: jsval
  Register_Id :: jsval
  ResourceName :: jsval

definition no_slot :: slot where
  "no_slot = \<lparr> Appoitment_Id = JUndefined, Resource_Id = JUndefined, ResourceId = JUndefined,
               TimeFrom = JUndefined, TimeTo = JUndefined, Status = JUndefined,
               Description_En = JUndefined, Description_Ar = JUndefined, Notes = JUndefined,
               Register_Id = JUndefined, ResourceName = JUndefined \<rparr>"

record resource =
  ID :: jsval
  Name_En :: jsval
  Name :: jsval

text \<open>
  \<^verbatim>\<open>registeredSlot = { Appoitment_Id, Resource_Id, TimeFrom, TimeTo }\<close>, the
  Registration Tracker's content.
\<close>

record registration =
  reg_Appoitment_Id :: jsval
  reg_Resource_Id :: jsval
  reg_TimeFrom :: jsval
  reg_TimeTo :: jsval

text \<open>
  Slot objects are shared: the object the grid hands to a click handler is the object in
  \<^verbatim>\<open>slotsMap\<close>, and the handlers write to it. So slot objects live in a store,
  and \<^verbatim>\<open>slotsMap\<close>, the dialogs and the handlers hold addresses.
\<close>

type_synonym addr = nat

datatype modal_mode = Register | Update

text \<open>The \<^verbatim>\<open>ctx\<close> object of a dialog: \<^verbatim>\<open>{ old, slot, resource, customerId }\<close>.\<close>

record ctx =
  ctx_old :: "registration option"
  ctx_slot :: addr
  ctx_resource :: resource
  ctx_customerId :: jsval

text \<open>
  A slot-like object handed to the view dialog is one the script already holds, or one
  taken from a freshly fetched list.
\<close>

datatype slot_result = Held addr | Fetched slot

text \<open>
  The view dialog: the slot it shows (\<^verbatim>\<open>null\<close> when no detail was found),
  whether it is the editable form, and the \<^verbatim>\<open>onUpdated\<close> callback, which in
  the source is a closure over the update dialog's \<^verbatim>\<open>ctx\<close> and is kept here
  as that \<^verbatim>\<open>ctx\<close>.
\<close>

record view =
  view_slot :: "slot_result option"
  view_editable :: bool
  view_onUpdated :: "ctx option"

text \<open>The body of the update request.\<close>

record update_body =
  body_Appointment_Id :: string
  body_Notes :: jsval
  body_Status :: string

text \<open>What the user and the network see, in order.\<close>

datatype event =
    Alert string
  | Set_Status string bool
  | Render_Grid string
  | Http_Get string
  | Http_Post string update_body

record app_state =
  MODE :: string
  localStorage_mode :: "string option"
  resources :: "resource list"
  slotsMap :: "string \<Rightarrow> addr list option"
  registeredSlot :: "registration option"
  heap :: "addr \<Rightarrow> slot"
  next_addr :: addr
  modalContext :: "(modal_mode \<times> ctx) option"
  viewModal :: "view option"
  datePicker :: string
  customerInput :: string
  today :: string
  trace :: "event list"

definition emit :: "event \<Rightarrow> app_state \<Rightarrow> app_state" where
  "emit e st = st\<lparr>trace := trace st @ [e]\<rparr>"

text \<open>\<^verbatim>\<open>setStatus(msg, isError = false)\<close> and \<^verbatim>\<open>alert(msg)\<close>.\<close>

definition setStatus :: "string \<Rightarrow> bool \<Rightarrow> app_state \<Rightarrow> app_state" where
  "setStatus msg isError st = emit (Set_Status msg isError) st"

definition alert :: "string \<Rightarrow> app_state \<Rightarrow> app_state" where
  "alert msg st = emit (Alert msg) st"

text \<open>\<^verbatim>\<open>$('#datePicker').value || isoDateString(new Date())\<close>\<close>

definition current_date :: "app_state \<Rightarrow> string" where
  "current_date st = (if datePicker st \<noteq> [] then datePicker st else today st)"

text \<open>
  The two revisions that the claims cite differ in a few places: \<^verbatim>\<open>src/main.js\<close>
  (the older \<^verbatim>\<open>part_001\<close> agrees with it on everything modelled here) and
  \<^verbatim>\<open>src/unnamed/part_000\<close>, which adds the update endpoint.
\<close>

datatype revision = Rev_main | Rev_update

section \<open>Mock data\<close>

definition MOCK_resources :: "resource list" where
  "MOCK_resources =
     [\<lparr> ID = JStr ''1'', Name_En = JStr ''Conference Rooms'', Name = JUndefined \<rparr>,
      \<lparr> ID = JStr ''2'', Name_En = JStr ''Board Room A'', Name = JUndefined \<rparr>,
      \<lparr> ID = JStr ''3'', Name_En = JStr ''Meeting Room B'', Name = JUndefined \<rparr>,
      \<lparr> ID = JStr ''4'', Name_En = JStr ''Personnel'', Name = JUndefined \<rparr>]"

definition mock_slot :: "int \<Rightarrow> string \<Rightarrow> string \<Rightarrow> int \<Rightarrow> jsval \<Rightarrow> slot" where
  "mock_slot appId tfrom tto status reg =
     no_slot\<lparr> Appoitment_Id := JNum appId, TimeFrom := JStr tfrom, TimeTo := JStr tto,
              Status := JNum status, Description_En := JStr ''Available'', Register_Id := reg \<rparr>"

text \<open>\<^verbatim>\<open>MOCK.slots[key]\<close>, with \<open>None\<close> for a key the fixture does not have.\<close>

definition MOCK_slots :: "config \<Rightarrow> string \<Rightarrow> slot list option" where
  "MOCK_slots cfg key =
     (if key = ''1|2025-11-03|1'' then
        Some [mock_slot 7909 ''2025-11-03T09:00:00'' ''2025-11-03T09:30:00'' 1 JUndefined,
              mock_slot 7910 ''2025-11-03T10:00:00'' ''2025-11-03T10:30:00'' 2 JUndefined]
      else if key = ''1|2025-11-03|2'' then
        Some [mock_slot 7920 ''2025-11-03T09:00:00'' ''2025-11-03T09:30:00'' 1 JUndefined,
              mock_slot 7921 ''2025-11-03T11:00:00'' ''2025-11-03T11:30:00'' 1
                (JNum (CUSTOMER_ID cfg))]
      else None)"

section \<open>The remote gateway\<close>

text \<open>
  What a request meets is an input of the model. A parsed JSON body is an array, a falsy
  value (\<^verbatim>\<open>null\<close>, \<^verbatim>\<open>0\<close>, \<^verbatim>\<open>""\<close>, \<^verbatim>\<open>false\<close>), or another
  truthy value, of which \<open>Obj\<close> keeps the properties \<^verbatim>\<open>result\<close> and
  \<^verbatim>\<open>msg_en\<close> (both \<^verbatim>\<open>undefined\<close> on a value that has none). Only
  \<^verbatim>\<open>fetchAppointmentDetails\<close> reads more of such a value, its
  \<^verbatim>\<open>length\<close> and its element \<^verbatim>\<open>0\<close>, and takes what these reads give as
  an input of its own. The elements of an array are taken to be objects. A response is a
  transport failure, or a status code with a body that parses or does not.
\<close>

datatype 'a payload = Arr "'a list" | Falsy | Obj jsval jsval

fun payload_truthy :: "'a payload \<Rightarrow> bool" where
  "payload_truthy Falsy = False"
| "payload_truthy _ = True"

fun payload_result :: "'a payload \<Rightarrow> jsval" where
  "payload_result (Obj r m) = r"
| "payload_result _ = JUndefined"

fun payload_msg_en :: "'a payload \<Rightarrow> jsval" where
  "payload_msg_en (Obj r m) = m"
| "payload_msg_en _ = JUndefined"

datatype 'a fetch_outcome = Network_Error | Response nat "'a payload option"

datatype error =
    Mock_Mode
  | Network_Failure
  | Http_Error nat
  | Json_Syntax_Error
  | Server_Failed jsval
  | Missing_Appointment_Id
  | Type_Error

text \<open>\<^verbatim>\<open>r.ok\<close>\<close>

definition ok :: "nat \<Rightarrow> bool" where
  "ok status = (200 \<le> status \<and> status \<le> 299)"

text \<open>
  \<^verbatim>\<open>apiGet(path)\<close>, cut at its \<^verbatim>\<open>await fetch(url)\<close>. Up to there:
  \<^verbatim>\<open>main.js\<close> throws in mock mode without sending anything; \<^verbatim>\<open>part_000\<close>
  first sets \<^verbatim>\<open>MODE = 'live'\<close>, so its mock-mode test never fires. The flag says
  whether the request went out.
\<close>

definition apiGet_send :: "revision \<Rightarrow> string \<Rightarrow> app_state \<Rightarrow> app_state \<times> bool" where
  "apiGet_send rv path st =
     (case rv of
        Rev_main \<Rightarrow> if MODE st = ''mock'' then (st, False) else (emit (Http_Get path) st, True)
      | Rev_update \<Rightarrow> (emit (Http_Get path) (st\<lparr>MODE := ''live''\<rparr>), True))"

text \<open>From the response on: \<^verbatim>\<open>if (!r.ok) throw ...; return r.json()\<close>.\<close>

definition read_response :: "'a fetch_outcome \<Rightarrow> error + 'a payload" where
  "read_response outcome =
     (case outcome of
        Network_Error \<Rightarrow> Inl Network_Failure
      | Response status body \<Rightarrow>
          if \<not> ok status then Inl (Http_Error status)
          else (case body of None \<Rightarrow> Inl Json_Syntax_Error | Some data \<Rightarrow> Inr data))"

definition apiGet_receive :: "bool \<Rightarrow> 'a fetch_outcome \<Rightarrow> error + 'a payload" where
  "apiGet_receive sent outcome = (if \<not> sent then Inl Mock_Mode else read_response outcome)"

definition apiGet ::
  "revision \<Rightarrow> string \<Rightarrow> 'a fetch_outcome \<Rightarrow> app_state \<Rightarrow> app_state \<times> (error + 'a payload)" where
  "apiGet rv path outcome st =
     (let (st1, sent) = apiGet_send rv path st in (st1, apiGet_receive sent outcome))"

text \<open>\<^verbatim>\<open>apiPostJson(path, bodyObj)\<close> (\<^verbatim>\<open>part_000\<close> only).\<close>

definition apiPostJson ::
  "string \<Rightarrow> update_body \<Rightarrow> 'a fetch_outcome \<Rightarrow> app_state \<Rightarrow> app_state \<times> (error + 'a payload)" where
  "apiPostJson path bodyObj outcome st =
     (emit (Http_Post path bodyObj) (st\<lparr>MODE := ''live''\<rparr>), read_response outcome)"

text \<open>The fallback of both read wrappers: \<^verbatim>\<open>MODE = 'mock'; localStorage.setItem('mode', MODE)\<close>.\<close>

definition fall_back_to_mock :: "app_state \<Rightarrow> app_state" where
  "fall_back_to_mock st = st\<lparr>MODE := ''mock'', localStorage_mode := Some ''mock''\<rparr>"

definition resources_path :: "jsval \<Rightarrow> string" where
  "resources_path customerId =
     ''/MasterFit_Calender_Get_Appt_Resource_Nutration?Customer_Id='' @ js_String customerId"

definition fetchResources_receive ::
  "bool \<Rightarrow> resource fetch_outcome \<Rightarrow> app_state \<Rightarrow> app_state \<times> (error + resource payload)" where
  "fetchResources_receive sent outcome st =
     (case apiGet_receive sent outcome of
        Inr data \<Rightarrow> (st, Inr data)
      | Inl err \<Rightarrow> (fall_back_to_mock st, Inr (Arr MOCK_resources)))"

definition fetchResources ::
  "revision \<Rightarrow> jsval \<Rightarrow> resource fetch_outcome \<Rightarrow> app_state
     \<Rightarrow> app_state \<times> (error + resource payload)" where
  "fetchResources rv customerId outcome st =
     (let (st1, sent) = apiGet_send rv (resources_path customerId) st
      in fetchResources_receive sent outcome st1)"

definition slots_path :: "jsval \<Rightarrow> string \<Rightarrow> jsval \<Rightarrow> string" where
  "slots_path customerId dateStr resourceId =
     ''/MasterFit_APP_GetAppointment/Calender?Customer_Id='' @ js_String customerId
       @ ''&Date='' @ dateStr @ ''&Resource_Id='' @ js_String resourceId"

text \<open>\<^verbatim>\<open>`${customerId}|${dateStr}|${resourceId}`\<close>\<close>

definition mock_key :: "jsval \<Rightarrow> string \<Rightarrow> jsval \<Rightarrow> string" where
  "mock_key customerId dateStr resourceId =
     js_String customerId @ ''|'' @ dateStr @ ''|'' @ js_String resourceId"

text \<open>\<^verbatim>\<open>MOCK.slots[key] || []\<close>\<close>

definition mock_slots_or_empty :: "config \<Rightarrow> string \<Rightarrow> slot list" where
  "mock_slots_or_empty cfg key = (case MOCK_slots cfg key of Some l \<Rightarrow> l | None \<Rightarrow> [])"

text \<open>
  \<^verbatim>\<open>fetchSlotsForResource\<close> from the response on: the \<^verbatim>\<open>try\<close> block
  returns the data unless it is a truthy value whose \<^verbatim>\<open>result\<close> is
  \<^verbatim>\<open>'failed'\<close>; that case and every error of \<^verbatim>\<open>apiGet\<close> end in the
  \<^verbatim>\<open>catch\<close> block.
\<close>

definition fetchSlots_try :: "bool \<Rightarrow> slot fetch_outcome \<Rightarrow> error + slot payload" where
  "fetchSlots_try sent outcome =
     (case apiGet_receive sent outcome of
        Inl err \<Rightarrow> Inl err
      | Inr data \<Rightarrow>
          if payload_truthy data \<and> strict_eq (payload_result data) (JStr ''failed'')
          then Inl (Server_Failed (js_or (payload_msg_en data) (JStr ''Invalid Data'')))
          else Inr data)"

definition fetchSlots_receive ::
  "config \<Rightarrow> jsval \<Rightarrow> string \<Rightarrow> jsval \<Rightarrow> bool \<Rightarrow> slot fetch_outcome \<Rightarrow> app_state
     \<Rightarrow> app_state \<times> (error + slot payload)" where
  "fetchSlots_receive cfg customerId dateStr resourceId sent outcome st =
     (case fetchSlots_try sent outcome of
        Inr data \<Rightarrow> (st, Inr data)
      | Inl err \<Rightarrow>
          (fall_back_to_mock st,
           Inr (Arr (mock_slots_or_empty cfg (mock_key customerId dateStr resourceId)))))"

definition fetchSlotsForResource ::
  "config \<Rightarrow> revision \<Rightarrow> jsval \<Rightarrow> string \<Rightarrow> jsval \<Rightarrow> slot fetch_outcome \<Rightarrow> app_state
     \<Rightarrow> app_state \<times> (error + slot payload)" where
  "fetchSlotsForResource cfg rv customerId dateStr resourceId outcome st =
     (let (st1, sent) = apiGet_send rv (slots_path customerId dateStr resourceId) st
      in fetchSlots_receive cfg customerId dateStr resourceId sent outcome st1)"

text \<open>\<^verbatim>\<open>updateAppointmentAPI(appointmentId, statusValue, notesValue)\<close> (\<^verbatim>\<open>part_000\<close>).\<close>

definition UPDATE_ENDPOINT :: string where
  "UPDATE_ENDPOINT = ''/Masterfit_Calender_Nutation_Update''"

definition updateAppointmentAPI ::
  "jsval \<Rightarrow> jsval \<Rightarrow> jsval \<Rightarrow> 'a fetch_outcome \<Rightarrow> app_state \<Rightarrow> app_state \<times> (error + 'a payload)" where
  "updateAppointmentAPI appointmentId statusValue notesValue outcome st =
     (if \<not> truthy appointmentId then (st, Inl Missing_Appointment_Id)
      else apiPostJson UPDATE_ENDPOINT
             \<lparr> body_Appointment_Id = js_String appointmentId,
               body_Notes = js_nullish notesValue (JStr ''''),
               body_Status = js_String (js_nullish statusValue (JStr '''')) \<rparr>
             outcome st)"

section \<open>The script's state at start-up\<close>

text \<open>
  \<^verbatim>\<open>let MODE = localStorage.getItem('mode') || 'live'; let resources = [];
  let slotsMap = {}; let registeredSlot = null;\<close> with nothing stored, no dialog open
  and the inputs as \<^verbatim>\<open>DOMContentLoaded\<close> fills them for the clock's date.
\<close>

definition initial_state :: "string \<Rightarrow> app_state" where
  "initial_state date =
     \<lparr> MODE = ''live'', localStorage_mode = None, resources = [], slotsMap = Map.empty,
       registeredSlot = None, heap = (\<lambda>a. no_slot), next_addr = 0, modalContext = None,
       viewModal = None, datePicker = date, customerInput = ''1'', today = date, trace = [] \<rparr>"

text \<open>\<^verbatim>\<open>slotsMap[key] || []\<close>\<close>

definition slots_of :: "app_state \<Rightarrow> string \<Rightarrow> addr list" where
  "slots_of st key = (case slotsMap st key of Some l \<Rightarrow> l | None \<Rightarrow> [])"

text \<open>A write to one or more properties of the slot object at an address.\<close>

definition update_slot :: "addr \<Rightarrow> (slot \<Rightarrow> slot) \<Rightarrow> app_state \<Rightarrow> app_state" where
  "update_slot a f st = st\<lparr>heap := (heap st)(a := f (heap st a))\<rparr>"

section \<open>The Slot Repository as an object\<close>

text \<open>
  \<^verbatim>\<open>slotsMap\<close> is created as \<^verbatim>\<open>{}\<close>, and the field \<open>slotsMap\<close> of the
  state holds the lists stored in it. A read \<^verbatim>\<open>slotsMap[k]\<close> of a key under
  which nothing is stored still finds the properties that every object inherits from
  \<^verbatim>\<open>Object.prototype\<close>: functions, and under \<^verbatim>\<open>__proto__\<close> the prototype
  itself. All of them are truthy and none has a function \<^verbatim>\<open>find\<close>.
  \<open>repository_read\<close> is the read that knows these names; \<open>slots_of\<close> above is the
  read under a key that is none of them. The prototype is taken to be the original one:
  an assignment \<^verbatim>\<open>slotsMap['__proto__'] = list\<close> would replace it, so what is
  said of reads supposes that no list is stored under that key.
\<close>

definition Object_prototype_names :: "string list" where
  "Object_prototype_names =
     [''constructor'', ''__defineGetter__'', ''__defineSetter__'', ''hasOwnProperty'',
      ''__lookupGetter__'', ''__lookupSetter__'', ''isPrototypeOf'', ''propertyIsEnumerable'',
      ''toString'', ''valueOf'', ''__proto__'', ''toLocaleString'']"

datatype repository_entry = Listed "addr list" | Inherited | Nothing

definition repository_read :: "app_state \<Rightarrow> string \<Rightarrow> repository_entry" where
  "repository_read st k =
     (case slotsMap st k of
        Some l \<Rightarrow> Listed l
      | None \<Rightarrow> if k \<in> set Object_prototype_names then Inherited else Nothing)"

section \<open>Appointment details\<close>

text \<open>
  The search of \<^verbatim>\<open>fetchAppointmentDetails\<close> in the Slot Repository, which stands
  before the \<^verbatim>\<open>try\<close> block:
  \<^verbatim>\<open>if (slotsMap[String(resourceId)]) { const found = (slotsMap[String(resourceId)]
  || []).find(s => { if (appId && s.Appoitment_Id) return String(s.Appoitment_Id) ===
  String(appId); return false; }); if (found) return found; }\<close>. On an inherited
  property the call of \<^verbatim>\<open>find\<close> raises a \<^verbatim>\<open>TypeError\<close>.
\<close>

definition repository_find :: "app_state \<Rightarrow> jsval \<Rightarrow> jsval \<Rightarrow> error + addr option" where
  "repository_find st resourceId appId =
     (case repository_read st (js_String resourceId) of
        Nothing \<Rightarrow> Inr None
      | Inherited \<Rightarrow> Inl Type_Error
      | Listed l \<Rightarrow>
          Inr (find (\<lambda>a. truthy appId \<and> truthy (Appoitment_Id (heap st a))
                         \<and> js_String (Appoitment_Id (heap st a)) = js_String appId) l))"

text \<open>
  What the \<^verbatim>\<open>try\<close> block makes of the fetched value \<^verbatim>\<open>arr\<close>:
  \<^verbatim>\<open>if (!arr || arr.length === 0) return null; if (appId) { const f = arr.find(s =>
  String(s.Appoitment_Id) === String(appId)); if (f) return f; } return arr[0] ||
  null;\<close>. A truthy value that is no array (a JSON string, number or object) has no
  function \<^verbatim>\<open>find\<close>, so that call raises a \<^verbatim>\<open>TypeError\<close>; but it may have a
  \<^verbatim>\<open>length\<close> and an element \<^verbatim>\<open>0\<close> (a string has both). Of such a value
  \<open>Obj\<close> keeps neither. What the two reads give is therefore an input, \<open>rd\<close>:
  whether \<^verbatim>\<open>arr.length === 0\<close> holds, and the value of \<^verbatim>\<open>arr[0] || null\<close>,
  seen like every slot through the properties that the code reads.
\<close>

record readings =
  length_zero :: bool
  first_element :: "slot option"

definition detail_from_list ::
  "jsval \<Rightarrow> slot payload \<Rightarrow> readings \<Rightarrow> error + slot_result option" where
  "detail_from_list appId arr rd =
     (case arr of
        Falsy \<Rightarrow> Inr None
      | Arr [] \<Rightarrow> Inr None
      | Arr (x # xs) \<Rightarrow>
          (if truthy appId
           then (case find (\<lambda>s. js_String (Appoitment_Id s) = js_String appId) (x # xs) of
                   Some f \<Rightarrow> Inr (Some (Fetched f))
                 | None \<Rightarrow> Inr (Some (Fetched x)))
           else Inr (Some (Fetched x)))
      | Obj r m \<Rightarrow>
          (if length_zero rd then Inr None
           else if truthy appId then Inl Type_Error
           else Inr (map_option Fetched (first_element rd))))"

text \<open>
  \<^verbatim>\<open>fetchAppointmentDetails({ customerId, dateStr, resourceId, appId, slotObj })\<close>.
  The result \<open>Inl\<close> is an error that leaves the function (the promise is rejected): only
  the search in the repository can raise one, what the \<^verbatim>\<open>try\<close> block raises is
  caught and gives \<^verbatim>\<open>null\<close>.
\<close>

definition fetchAppointmentDetails ::
  "config \<Rightarrow> revision \<Rightarrow> jsval \<Rightarrow> string \<Rightarrow> jsval \<Rightarrow> jsval \<Rightarrow> slot_result option
     \<Rightarrow> readings \<Rightarrow> slot fetch_outcome \<Rightarrow> app_state
     \<Rightarrow> app_state \<times> (error + slot_result option)" where
  "fetchAppointmentDetails cfg rv customerId dateStr resourceId appId slotObj rd outcome st =
     (case slotObj of
        Some obj \<Rightarrow> (st, Inr (Some obj))
      | None \<Rightarrow>
          (case repository_find st resourceId appId of
             Inl err \<Rightarrow> (st, Inl err)
           | Inr (Some found) \<Rightarrow> (st, Inr (Some (Held found)))
           | Inr None \<Rightarrow>
               (case fetchSlotsForResource cfg rv customerId dateStr resourceId outcome st of
                  (st1, Inl err) \<Rightarrow> (st1, Inr None)
                | (st1, Inr arr) \<Rightarrow>
                    (case detail_from_list appId arr rd of
                       Inl err \<Rightarrow> (st1, Inr None)
                     | Inr res \<Rightarrow> (st1, Inr res)))))"

section \<open>The grid renderer\<close>

datatype slot_class = Registered | Available | Booked

text \<open>
  \<^verbatim>\<open>custId\<close>: \<^verbatim>\<open>Number($('#customerInput').value || CONFIG.CUSTOMER_ID)\<close>
  in \<^verbatim>\<open>main.js\<close>, \<^verbatim>\<open>Number(CONFIG.CUSTOMER_ID)\<close> in \<^verbatim>\<open>part_000\<close>.
\<close>

definition cust_id :: "config \<Rightarrow> revision \<Rightarrow> app_state \<Rightarrow> jsval" where
  "cust_id cfg rv st =
     (case rv of
        Rev_main \<Rightarrow> js_Number (js_or (JStr (customerInput st)) (JNum (CUSTOMER_ID cfg)))
      | Rev_update \<Rightarrow> js_Number (JNum (CUSTOMER_ID cfg)))"

text \<open>\<^verbatim>\<open>s.Register_Id && Number(s.Register_Id) === custId\<close>\<close>

definition serverRegistered :: "slot \<Rightarrow> jsval \<Rightarrow> bool" where
  "serverRegistered s custId =
     (truthy (Register_Id s) \<and> strict_eq (js_Number (Register_Id s)) custId)"

text \<open>
  \<^verbatim>\<open>isRegistered\<close> as \<^verbatim>\<open>renderGrid\<close> computes it:
  \<^verbatim>\<open>(registeredSlot && registeredSlot.Appoitment_Id &&
  registeredSlot.Appoitment_Id === matched.Appoitment_Id) ||
  (CONFIG.RESPECT_SERVER_REGISTERED && serverRegistered)\<close>.
\<close>

definition render_isRegistered :: "config \<Rightarrow> app_state \<Rightarrow> slot \<Rightarrow> jsval \<Rightarrow> bool" where
  "render_isRegistered cfg st matched custId =
     ((case registeredSlot st of
         None \<Rightarrow> False
       | Some reg \<Rightarrow> truthy (reg_Appoitment_Id reg)
                     \<and> strict_eq (reg_Appoitment_Id reg) (Appoitment_Id matched))
      \<or> (RESPECT_SERVER_REGISTERED cfg \<and> serverRegistered matched custId))"

text \<open>The class the renderer gives a matched slot.\<close>

definition slot_className :: "config \<Rightarrow> app_state \<Rightarrow> slot \<Rightarrow> jsval \<Rightarrow> slot_class" where
  "slot_className cfg st matched custId =
     (if render_isRegistered cfg st matched custId then Registered
      else if strict_eq (Status matched) (JNum 1)
              \<or> contains ''available''
                   (toLowerCase (js_String (js_or (Description_En matched) (JStr ''''))))
           then Available
      else Booked)"

text \<open>The comparison by minute of a slot's start with a row's time.\<close>

definition same_minute :: "jsdate \<Rightarrow> jsdate \<Rightarrow> bool" where
  "same_minute sDT dt =
     (strict_eq (getFullYear sDT) (getFullYear dt)
      \<and> strict_eq (getMonth sDT) (getMonth dt)
      \<and> strict_eq (getDate sDT) (getDate dt)
      \<and> strict_eq (getHours sDT) (getHours dt)
      \<and> strict_eq (getMinutes sDT) (getMinutes dt))"

text \<open>One cell: the first slot of the resource that starts in the row's minute, classified.\<close>

definition render_cell ::
  "config \<Rightarrow> revision \<Rightarrow> app_state \<Rightarrow> jsdate \<Rightarrow> resource \<Rightarrow> (addr \<times> slot_class) option" where
  "render_cell cfg rv st dt r =
     (case find (\<lambda>a. same_minute (Date_parse (TimeFrom (heap st a))) dt)
             (slots_of st (js_String (ID r))) of
        None \<Rightarrow> None
      | Some matched \<Rightarrow>
          Some (matched, slot_className cfg st (heap st matched) (cust_id cfg rv st)))"

datatype grid = No_Data | Grid "(jsdate \<times> (addr \<times> slot_class) option list) list"

text \<open>
  What \<^verbatim>\<open>renderGrid(dateStr)\<close> draws: the empty state when no resources are
  loaded, else one row per generated time with one cell per resource. \<open>None\<close>: the row
  generator does not return.
\<close>

definition renderGrid :: "config \<Rightarrow> revision \<Rightarrow> app_state \<Rightarrow> string \<Rightarrow> grid option" where
  "renderGrid cfg rv st dateStr =
     (if resources st = [] then Some No_Data
      else (case generateRowTimes cfg dateStr of
              None \<Rightarrow> None
            | Some rows \<Rightarrow>
                Some (Grid (map (\<lambda>dt. (dt, map (render_cell cfg rv st dt) (resources st))) rows))))"

definition em_dash :: string where
  "em_dash = [CHR 0xE2, CHR 0x80, CHR 0x94]"

text \<open>
  The status line \<^verbatim>\<open>renderGrid\<close> leaves: the empty-state message when no
  resources are loaded, else \<^verbatim>\<open>`Grid loaded - ${resources.length} resources`\<close>.
\<close>

definition grid_status :: "app_state \<Rightarrow> event" where
  "grid_status st =
     (if resources st = [] then Set_Status ''No resources available'' True
      else Set_Status (''Grid loaded '' @ em_dash @ '' ''
                         @ string_of_nat (length (resources st)) @ '' resources'') False)"

text \<open>
  A call of \<^verbatim>\<open>renderGrid\<close> inside a handler: it changes only what is shown,
  and it returns only if the row generator does.
\<close>

definition renderGrid_run :: "config \<Rightarrow> revision \<Rightarrow> string \<Rightarrow> app_state \<Rightarrow> app_state option" where
  "renderGrid_run cfg rv dateStr st =
     (case renderGrid cfg rv st dateStr of
        None \<Rightarrow> None
      | Some g \<Rightarrow> Some (emit (grid_status st) (emit (Render_Grid dateStr) st)))"

section \<open>Slot click and the dialogs\<close>

text \<open>
  \<^verbatim>\<open>isRegistered\<close> as \<^verbatim>\<open>onSlotClick\<close> computes it (no truthiness test
  on the tracker's id here).
\<close>

definition click_isRegistered :: "config \<Rightarrow> app_state \<Rightarrow> slot \<Rightarrow> jsval \<Rightarrow> bool" where
  "click_isRegistered cfg st slotObj custId =
     ((case registeredSlot st of
         None \<Rightarrow> False
       | Some reg \<Rightarrow> strict_eq (reg_Appoitment_Id reg) (Appoitment_Id slotObj))
      \<or> (RESPECT_SERVER_REGISTERED cfg \<and> serverRegistered slotObj custId))"

definition openModal :: "modal_mode \<Rightarrow> ctx \<Rightarrow> app_state \<Rightarrow> app_state" where
  "openModal mode c st = st\<lparr>modalContext := Some (mode, c)\<rparr>"

definition closeModal :: "app_state \<Rightarrow> app_state" where
  "closeModal st = st\<lparr>modalContext := None\<rparr>"

definition openViewModal :: "slot_result option \<Rightarrow> bool \<Rightarrow> ctx option \<Rightarrow> app_state \<Rightarrow> app_state" where
  "openViewModal slotObj editable onUpdated st =
     st\<lparr>viewModal := Some \<lparr> view_slot = slotObj, view_editable = editable,
                             view_onUpdated = onUpdated \<rparr>\<rparr>"

definition closeViewModal :: "app_state \<Rightarrow> app_state" where
  "closeViewModal st = st\<lparr>viewModal := None\<rparr>"

definition onSlotClick :: "config \<Rightarrow> revision \<Rightarrow> addr \<Rightarrow> resource \<Rightarrow> app_state \<Rightarrow> app_state" where
  "onSlotClick cfg rv slotObj res st =
     (let custId = cust_id cfg rv st in
      if click_isRegistered cfg st (heap st slotObj) custId
      then alert ''This slot is already registered for you.'' st
      else if registeredSlot st = None
      then openModal Register
             \<lparr> ctx_old = None, ctx_slot = slotObj, ctx_resource = res, ctx_customerId = custId \<rparr> st
      else openModal Update
             \<lparr> ctx_old = registeredSlot st, ctx_slot = slotObj, ctx_resource = res,
               ctx_customerId = custId \<rparr> st)"

text \<open>
  The un-registering of the previous slot, the same code in the mock update of
  \<^verbatim>\<open>main.js\<close> and in the \<^verbatim>\<open>onUpdated\<close> callbacks of \<^verbatim>\<open>part_000\<close>:
  \<^verbatim>\<open>if (old && old.Appoitment_Id) { const prevObj = (slotsMap[String(old.Resource_Id)]
  || []).find(s => s.Appoitment_Id === old.Appoitment_Id); if (prevObj) delete
  prevObj.Register_Id; }\<close>
\<close>

definition previous_slot :: "app_state \<Rightarrow> registration option \<Rightarrow> addr option" where
  "previous_slot st old =
     (case old of
        None \<Rightarrow> None
      | Some oldReg \<Rightarrow>
          if truthy (reg_Appoitment_Id oldReg)
          then find (\<lambda>a. strict_eq (Appoitment_Id (heap st a)) (reg_Appoitment_Id oldReg))
                 (slots_of st (js_String (reg_Resource_Id oldReg)))
          else None)"

definition unregister_previous :: "registration option \<Rightarrow> app_state \<Rightarrow> app_state" where
  "unregister_previous old st =
     (case previous_slot st old of
        None \<Rightarrow> st
      | Some prevObj \<Rightarrow> update_slot prevObj (\<lambda>s. s\<lparr>Register_Id := JUndefined\<rparr>) st)"

text \<open>
  \<^verbatim>\<open>handleModalConfirm(mode, ctx)\<close>; \<open>now\<close> is what \<^verbatim>\<open>Date.now()\<close>
  returns. The \<^verbatim>\<open>'update'\<close> branch exists in \<^verbatim>\<open>main.js\<close> only.
\<close>

definition handleModalConfirm ::
  "config \<Rightarrow> revision \<Rightarrow> modal_mode \<Rightarrow> ctx \<Rightarrow> int \<Rightarrow> app_state \<Rightarrow> app_state option" where
  "handleModalConfirm cfg rv mode c now st =
     (case mode of
        Register \<Rightarrow>
          (let newId = JNum now;
               slotObj = heap st (ctx_slot c);
               st1 = st\<lparr>registeredSlot := Some
                        \<lparr> reg_Appoitment_Id = newId, reg_Resource_Id = ID (ctx_resource c),
                          reg_TimeFrom = TimeFrom slotObj, reg_TimeTo = TimeTo slotObj \<rparr>\<rparr>;
               st2 = update_slot (ctx_slot c)
                       (\<lambda>s. s\<lparr>Register_Id := ctx_customerId c, Appoitment_Id := newId\<rparr>) st1;
               st3 = closeModal
                       (setStatus ''Registered (mock): slot marked as dark green'' False st2)
           in map_option (alert ''Appointment registered (mock).'')
                (renderGrid_run cfg rv (current_date st3) st3))
      | Update \<Rightarrow>
          (case rv of
             Rev_update \<Rightarrow> Some st
           | Rev_main \<Rightarrow>
               (let st1 = unregister_previous (ctx_old c) st;
                    st2 = update_slot (ctx_slot c) (\<lambda>s. s\<lparr>Register_Id := ctx_customerId c\<rparr>) st1;
                    newSlot = heap st2 (ctx_slot c);
                    st3 = st2\<lparr>registeredSlot := Some
                             \<lparr> reg_Appoitment_Id = Appoitment_Id newSlot,
                               reg_Resource_Id = ID (ctx_resource c),
                               reg_TimeFrom = TimeFrom newSlot, reg_TimeTo = TimeTo newSlot \<rparr>\<rparr>;
                    st4 = closeModal
                            (setStatus ''Updated (mock): registration moved to new slot'' False st3)
                in map_option (alert ''Appointment updated (mock).'')
                     (renderGrid_run cfg rv (current_date st4) st4))))"

text \<open>
  The \<^verbatim>\<open>onUpdated\<close> callback that the update dialog of \<^verbatim>\<open>part_000\<close>
  passes to the editable view (the buttons \<^verbatim>\<open>View Updating\<close> and
  \<^verbatim>\<open>Go to View (finalize)\<close> pass the same one).
\<close>

definition onUpdated_callback :: "config \<Rightarrow> ctx \<Rightarrow> addr \<Rightarrow> app_state \<Rightarrow> app_state option" where
  "onUpdated_callback cfg c updatedSlot st =
     (let st1 = unregister_previous (ctx_old c) st;
          st2 = update_slot updatedSlot (\<lambda>s. s\<lparr>Register_Id := ctx_customerId c\<rparr>) st1;
          u = heap st2 updatedSlot;
          st3 = st2\<lparr>registeredSlot := Some
                   \<lparr> reg_Appoitment_Id = Appoitment_Id u, reg_Resource_Id = ID (ctx_resource c),
                     reg_TimeFrom = TimeFrom u, reg_TimeTo = TimeTo u \<rparr>\<rparr>
      in renderGrid_run cfg Rev_update (current_date st3) st3)"

text \<open>
  The click on \<^verbatim>\<open>Go to View (finalize)\<close> (or \<^verbatim>\<open>View Updating\<close>) in the
  update dialog: the clicked slot is handed to \<^verbatim>\<open>fetchAppointmentDetails\<close> as
  \<^verbatim>\<open>slotObj\<close> and the editable view opens on what comes back.
\<close>

definition finalize_click ::
  "config \<Rightarrow> ctx \<Rightarrow> readings \<Rightarrow> slot fetch_outcome \<Rightarrow> app_state \<Rightarrow> app_state" where
  "finalize_click cfg c rd outcome st =
     (case fetchAppointmentDetails cfg Rev_update (ctx_customerId c) (datePicker st)
             (ID (ctx_resource c)) JNull (Some (Held (ctx_slot c))) rd outcome st of
        (st1, Inr slot) \<Rightarrow> openViewModal slot True (Some c) st1
      | (st1, Inl err) \<Rightarrow> st1)"

section \<open>Loading\<close>

text \<open>
  \<^verbatim>\<open>loadAndRender(dateStr, customerId)\<close> up to its first suspension: the status
  line, and \<^verbatim>\<open>apiGet\<close> for the resources up to its \<^verbatim>\<open>fetch\<close>.
\<close>

definition loadAndRender_begin :: "revision \<Rightarrow> jsval \<Rightarrow> app_state \<Rightarrow> app_state \<times> bool" where
  "loadAndRender_begin rv customerId st =
     apiGet_send rv (resources_path customerId) (setStatus ''Loading resources...'' False st)"

text \<open>\<^verbatim>\<open>(resources || []).map(r => ({ ...r, ID: String(r.ID) }))\<close>\<close>

definition normalize_resources :: "resource list \<Rightarrow> resource list" where
  "normalize_resources rs = map (\<lambda>r. r\<lparr>ID := JStr (js_String (ID r))\<rparr>) rs"

text \<open>The copies \<^verbatim>\<open>({ ...s })\<close> are new objects: they get the next free addresses.\<close>

fun alloc_all :: "slot list \<Rightarrow> app_state \<Rightarrow> addr list \<times> app_state" where
  "alloc_all [] st = ([], st)"
| "alloc_all (s # ss) st =
     (let a = next_addr st;
          (as, st') = alloc_all ss (st\<lparr>heap := (heap st)(a := s), next_addr := Suc a\<rparr>)
      in (a # as, st'))"

text \<open>
  The seeding under \<^verbatim>\<open>RESPECT_SERVER_REGISTERED\<close>:
  \<^verbatim>\<open>slotsMap[String(r.ID)].forEach(s => { if (s.Register_Id && Number(s.Register_Id)
  === Number(customerId)) registeredSlot = { ... }; })\<close>.
\<close>

definition seed_step :: "resource \<Rightarrow> jsval \<Rightarrow> addr \<Rightarrow> app_state \<Rightarrow> app_state" where
  "seed_step r customerId a st =
     (let s = heap st a in
      if serverRegistered s (js_Number customerId)
      then st\<lparr>registeredSlot := Some
                \<lparr> reg_Appoitment_Id = Appoitment_Id s, reg_Resource_Id = ID r,
                  reg_TimeFrom = TimeFrom s, reg_TimeTo = TimeTo s \<rparr>\<rparr>
      else st)"

definition seed_registered :: "resource \<Rightarrow> jsval \<Rightarrow> addr list \<Rightarrow> app_state \<Rightarrow> app_state" where
  "seed_registered r customerId as st = fold (seed_step r customerId) as st"

text \<open>
  The body of \<^verbatim>\<open>resources.map(async (r) => { ... })\<close> after its
  \<^verbatim>\<open>await\<close>: the answer for resource \<open>r\<close> has come. \<^verbatim>\<open>part_000\<close>
  attaches the resource's name to each copy. A truthy answer that is no array has no
  \<^verbatim>\<open>map\<close>: the promise of this resource is rejected (the flag is \<open>False\<close>).
\<close>

definition copy_slot :: "revision \<Rightarrow> resource \<Rightarrow> slot \<Rightarrow> slot" where
  "copy_slot rv r s =
     (case rv of
        Rev_main \<Rightarrow> s
      | Rev_update \<Rightarrow> s\<lparr>ResourceName := js_or (Name_En r) (Name r)\<rparr>)"

definition store_slots ::
  "config \<Rightarrow> revision \<Rightarrow> jsval \<Rightarrow> resource \<Rightarrow> slot list \<Rightarrow> app_state \<Rightarrow> app_state" where
  "store_slots cfg rv customerId r l st =
     (let (as, st1) = alloc_all (map (copy_slot rv r) l) st;
          st2 = st1\<lparr>slotsMap := (slotsMap st1)(js_String (ID r) \<mapsto> as)\<rparr>
      in if RESPECT_SERVER_REGISTERED cfg then seed_registered r customerId as st2 else st2)"

definition slots_arrived ::
  "config \<Rightarrow> revision \<Rightarrow> jsval \<Rightarrow> string \<Rightarrow> resource \<Rightarrow> bool \<Rightarrow> slot fetch_outcome
     \<Rightarrow> app_state \<Rightarrow> app_state \<times> bool" where
  "slots_arrived cfg rv customerId dateStr r sent outcome st =
     (case fetchSlots_receive cfg customerId dateStr (ID r) sent outcome st of
        (st1, Inl err) \<Rightarrow> (st1, False)
      | (st1, Inr (Obj x y)) \<Rightarrow> (st1, False)
      | (st1, Inr Falsy) \<Rightarrow> (store_slots cfg rv customerId r [] st1, True)
      | (st1, Inr (Arr l)) \<Rightarrow> (store_slots cfg rv customerId r l st1, True))"

text \<open>
  All slot requests are started one after the other, before any answer is looked at; each
  passes through \<^verbatim>\<open>apiGet\<close> up to its \<^verbatim>\<open>fetch\<close>.
\<close>

fun send_all ::
  "revision \<Rightarrow> jsval \<Rightarrow> string \<Rightarrow> resource list \<Rightarrow> app_state \<Rightarrow> bool list \<times> app_state" where
  "send_all rv customerId dateStr [] st = ([], st)"
| "send_all rv customerId dateStr (r # rs) st =
     (let (st1, sent) = apiGet_send rv (slots_path customerId dateStr (ID r)) st;
          (flags, st2) = send_all rv customerId dateStr rs st1
      in (sent # flags, st2))"

text \<open>
  The answers are handled in the order in which they arrive, which is an input: \<open>order\<close>
  lists positions in \<^verbatim>\<open>resources\<close>, and \<open>outcome_for i\<close> is what the request
  for the resource at position \<open>i\<close> meets. A position counts once.
\<close>

definition settle_order :: "nat \<Rightarrow> nat list \<Rightarrow> nat list" where
  "settle_order n order = remdups (filter (\<lambda>i. i < n) order)"

fun receive_all ::
  "config \<Rightarrow> revision \<Rightarrow> jsval \<Rightarrow> string \<Rightarrow> resource list \<Rightarrow> bool list
     \<Rightarrow> (nat \<Rightarrow> slot fetch_outcome) \<Rightarrow> nat list \<Rightarrow> app_state \<Rightarrow> app_state \<times> bool" where
  "receive_all cfg rv customerId dateStr rs flags outcome_for [] st = (st, True)"
| "receive_all cfg rv customerId dateStr rs flags outcome_for (i # is) st =
     (let (st1, fulfilled) = slots_arrived cfg rv customerId dateStr (rs ! i) (flags ! i)
                               (outcome_for i) st;
          (st2, rest) = receive_all cfg rv customerId dateStr rs flags outcome_for is st1
      in (st2, fulfilled \<and> rest))"

datatype load_result = Rendered | No_Resources | Load_Failed | Still_Pending

text \<open>
  \<^verbatim>\<open>loadAndRender\<close> from the answer of the resources endpoint on. A truthy answer
  that is no array makes \<^verbatim>\<open>.map\<close> throw: the load fails before anything else is
  touched (the variable \<^verbatim>\<open>resources\<close> then holds that answer, which the
  list-typed field cannot; the field is set to the empty list). With no resources the
  function returns before the tracker is cleared. \<^verbatim>\<open>Promise.all\<close> rejects when
  one of the promises is rejected and is fulfilled when all are; until then nothing is
  drawn.
\<close>

definition loadAndRender_resume ::
  "config \<Rightarrow> revision \<Rightarrow> string \<Rightarrow> jsval \<Rightarrow> bool \<Rightarrow> resource fetch_outcome
     \<Rightarrow> (nat \<Rightarrow> slot fetch_outcome) \<Rightarrow> nat list \<Rightarrow> app_state
     \<Rightarrow> (app_state \<times> load_result) option" where
  "loadAndRender_resume cfg rv dateStr customerId sent res_outcome outcome_for order st =
     (let load_failed = (\<lambda>s. setStatus ''Failed to load grid'' True s) in
      case fetchResources_receive sent res_outcome st of
        (st1, Inl err) \<Rightarrow> Some (load_failed st1, Load_Failed)
      | (st1, Inr (Obj x y)) \<Rightarrow> Some (load_failed (st1\<lparr>resources := []\<rparr>), Load_Failed)
      | (st1, Inr data) \<Rightarrow>
          (let rs = normalize_resources (case data of Arr l \<Rightarrow> l | _ \<Rightarrow> []);
               st2 = st1\<lparr>resources := rs\<rparr>
           in if rs = [] then Some (setStatus ''No resources returned'' True st2, No_Resources)
              else
                (let st3 = st2\<lparr>registeredSlot := None\<rparr>;
                     st4 = setStatus ''Loading slots for all resources...'' False st3;
                     st5 = st4\<lparr>slotsMap := Map.empty\<rparr>;
                     (flags, st6) = send_all rv customerId dateStr rs st5;
                     settled = settle_order (length rs) order;
                     (st7, fulfilled) =
                        receive_all cfg rv customerId dateStr rs flags outcome_for settled st6
                 in if \<not> fulfilled then Some (load_failed st7, Load_Failed)
                    else if length settled < length rs then Some (st7, Still_Pending)
                    else map_option (\<lambda>s. (s, Rendered)) (renderGrid_run cfg rv dateStr st7))))"

definition loadAndRender ::
  "config \<Rightarrow> revision \<Rightarrow> string \<Rightarrow> jsval \<Rightarrow> resource fetch_outcome
     \<Rightarrow> (nat \<Rightarrow> slot fetch_outcome) \<Rightarrow> nat list \<Rightarrow> app_state
     \<Rightarrow> (app_state \<times> load_result) option" where
  "loadAndRender cfg rv dateStr customerId res_outcome outcome_for order st =
     (let (st1, sent) = loadAndRender_begin rv customerId st
      in loadAndRender_resume cfg rv dateStr customerId sent res_outcome outcome_for order st1)"

text \<open>
  \<^verbatim>\<open>gridLoaderCaller()\<close> of \<^verbatim>\<open>part_000\<close>, called without
  \<^verbatim>\<open>await\<close>: it runs \<^verbatim>\<open>loadAndRender\<close> up to the first suspension and
  returns; the rest of the load runs after the calling handler has finished.
\<close>

definition gridLoaderCaller_begin :: "config \<Rightarrow> app_state \<Rightarrow> app_state" where
  "gridLoaderCaller_begin cfg st =
     fst (loadAndRender_begin Rev_update (js_Number (JNum (CUSTOMER_ID cfg))) st)"

section \<open>The editable view's submit\<close>

text \<open>
  The writes of the success branch to the shown slot object:
  \<^verbatim>\<open>slotObj.Status = Number(statusVal); slotObj.Notes = notesVal;
  slotObj.Description_En = (statusVal === '2') ? 'Accepted' : (statusVal === '3') ?
  'Rejected' : 'Pending'; slotObj.Description_Ar = notesVal;\<close>
\<close>

definition status_label :: "string \<Rightarrow> string" where
  "status_label statusVal =
     (if statusVal = ''2'' then ''Accepted'' else if statusVal = ''3'' then ''Rejected''
      else ''Pending'')"

definition apply_update :: "string \<Rightarrow> string \<Rightarrow> slot \<Rightarrow> slot" where
  "apply_update statusVal notesVal s =
     s\<lparr> Status := js_Number (JStr statusVal), Notes := JStr notesVal,
        Description_En := JStr (status_label statusVal), Description_Ar := JStr notesVal \<rparr>"

text \<open>
  \<^verbatim>\<open>const resArr = slotsMap[String(slotObj.Resource_Id)] ||
  slotsMap[String(slotObj.ResourceId)] || []; const found = resArr.find(s =>
  String(s.Appoitment_Id) === String(slotObj.Appoitment_Id));\<close> A stored list is
  truthy also when it is empty; an inherited property is truthy and has no
  \<^verbatim>\<open>find\<close>, so the call raises a \<^verbatim>\<open>TypeError\<close>.
\<close>

definition repository_slot :: "app_state \<Rightarrow> slot \<Rightarrow> error + addr option" where
  "repository_slot st slotObj =
     (let same_id = (\<lambda>a. js_String (Appoitment_Id (heap st a))
                            = js_String (Appoitment_Id slotObj))
      in case repository_read st (js_String (Resource_Id slotObj)) of
           Listed l \<Rightarrow> Inr (find same_id l)
         | Inherited \<Rightarrow> Inl Type_Error
         | Nothing \<Rightarrow>
             (case repository_read st (js_String (ResourceId slotObj)) of
                Listed l \<Rightarrow> Inr (find same_id l)
              | Inherited \<Rightarrow> Inl Type_Error
              | Nothing \<Rightarrow> Inr None))"

text \<open>
  \<^verbatim>\<open>if (found) { found.Status = slotObj.Status; found.Description_En =
  slotObj.Description_En; found.Description_Ar = slotObj.Description_Ar; found.Notes =
  slotObj.Notes; }\<close>
\<close>

definition persist_update :: "addr \<Rightarrow> app_state \<Rightarrow> error + app_state" where
  "persist_update slotObj st =
     (let s = heap st slotObj in
      case repository_slot st s of
        Inl err \<Rightarrow> Inl err
      | Inr None \<Rightarrow> Inr st
      | Inr (Some found) \<Rightarrow>
          Inr (update_slot found
                 (\<lambda>f. f\<lparr> Status := Status s, Description_En := Description_En s,
                          Description_Ar := Description_Ar s, Notes := Notes s \<rparr>) st))"

text \<open>
  The success branch. It stands in the handler's \<^verbatim>\<open>try\<close> block: the error of
  the look-up ends in the \<^verbatim>\<open>catch\<close> block, after the shown slot object has been
  written.
\<close>

definition update_succeeded ::
  "config \<Rightarrow> addr \<Rightarrow> ctx option \<Rightarrow> string \<Rightarrow> string \<Rightarrow> app_state \<Rightarrow> app_state option" where
  "update_succeeded cfg slotObj onUpdated statusVal notesVal st =
     (let st1 = update_slot slotObj (apply_update statusVal notesVal) st
      in case persist_update slotObj st1 of
           Inl err \<Rightarrow>
             Some (alert ''Failed to send update. See console for details (CORS/SSL issues possible).''
                     (setStatus ''Update API error'' True st1))
         | Inr st2 \<Rightarrow>
             (let st3 = closeViewModal
                          (setStatus (''Update saved '' @ em_dash @ '' server responded success.'')
                             False st2)
              in case renderGrid_run cfg Rev_update (current_date st3) st3 of
                   None \<Rightarrow> None
                 | Some st4 \<Rightarrow>
                     (let st5 = gridLoaderCaller_begin cfg (alert ''Update successful.'' st4)
                      in case onUpdated of
                           None \<Rightarrow> Some st5
                         | Some c \<Rightarrow> onUpdated_callback cfg c slotObj st5)))"

text \<open>
  The click listener of the \<^verbatim>\<open>Update (send)\<close> button that
  \<^verbatim>\<open>openViewModal(slotObj, { editable: true, onUpdated })\<close> installs.
  \<open>statusVal\<close> and \<open>notesVal\<close> are the values of the two form fields, \<open>outcome\<close>
  is what the update request meets.
\<close>

definition updateBtn_click ::
  "config \<Rightarrow> addr \<Rightarrow> ctx option \<Rightarrow> string \<Rightarrow> string \<Rightarrow> unit fetch_outcome \<Rightarrow> app_state
     \<Rightarrow> app_state option" where
  "updateBtn_click cfg slotObj onUpdated statusVal notesVal outcome st =
     (let appId = Appoitment_Id (heap st slotObj) in
      if \<not> truthy appId
      then Some (alert (''Appointment_Id is missing '' @ em_dash @ '' cannot update.'') st)
      else
        (case updateAppointmentAPI appId (JStr statusVal) (JStr notesVal) outcome
                (setStatus ''Sending update to server...'' False st) of
           (st1, Inl err) \<Rightarrow>
             Some (alert ''Failed to send update. See console for details (CORS/SSL issues possible).''
                     (setStatus ''Update API error'' True st1))
         | (st1, Inr resp) \<Rightarrow>
             if payload_truthy resp \<and> toLowerCase (js_String (payload_result resp)) = ''success''
             then update_succeeded cfg slotObj onUpdated statusVal notesVal st1
             else
               (let msg = (if payload_truthy resp \<and> truthy (payload_msg_en resp)
                           then payload_msg_en resp
                           else JStr ''Unknown response from server'')
                in Some (alert (''Update failed: '' @ js_String msg)
                           (setStatus ''Update failed'' True st1)))))"

section \<open>A loaded grid to compute on\<close>

text \<open>
  The state after the fixture of customer 1 for 2025-11-03 has been loaded for the first
  two mock resources: four slot objects at the addresses 0 to 3, nothing registered.
\<close>

definition example_heap :: "addr \<Rightarrow> slot" where
  "example_heap a =
     (if a = 0 then mock_slot 7909 ''2025-11-03T09:00:00'' ''2025-11-03T09:30:00'' 1 JUndefined
      else if a = 1 then mock_slot 7910 ''2025-11-03T10:00:00'' ''2025-11-03T10:30:00'' 2 JUndefined
      else if a = 2 then mock_slot 7920 ''2025-11-03T09:00:00'' ''2025-11-03T09:30:00'' 1 JUndefined
      else if a = 3 then mock_slot 7921 ''2025-11-03T11:00:00'' ''2025-11-03T11:30:00'' 1 (JNum 1)
      else no_slot)"

definition example_state :: app_state where
  "example_state =
     (initial_state ''2025-11-03'')
       \<lparr> MODE := ''mock'', localStorage_mode := Some ''mock'',
         resources := take 2 MOCK_resources,
         slotsMap := [''1'' \<mapsto> [0, 1], ''2'' \<mapsto> [2, 3]],
         heap := example_heap, next_addr := 4 \<rparr>"

text \<open>The tracker's content for the slot at an address, as a registration of resource \<open>rid\<close>.\<close>

definition registration_of :: "app_state \<Rightarrow> addr \<Rightarrow> jsval \<Rightarrow> registration" where
  "registration_of st a rid =
     \<lparr> reg_Appoitment_Id = Appoitment_Id (heap st a), reg_Resource_Id = rid,
       reg_TimeFrom = TimeFrom (heap st a), reg_TimeTo = TimeTo (heap st a) \<rparr>"

text \<open>
  Two variants of the loaded grid in which the slot at address 1 (10:00, resource 1) is a
  booked one, and the tracker holds that slot's appointment id: the number 0 in the first,
  \<^verbatim>\<open>null\<close> in the second.
\<close>

definition booked_slot :: "jsval \<Rightarrow> slot" where
  "booked_slot appId =
     no_slot\<lparr> Appoitment_Id := appId, TimeFrom := JStr ''2025-11-03T10:00:00'',
              TimeTo := JStr ''2025-11-03T10:30:00'', Status := JNum 2,
              Description_En := JStr ''Booked'', Register_Id := JNum 7 \<rparr>"

definition falsy_id_state :: "jsval \<Rightarrow> app_state" where
  "falsy_id_state appId =
     (update_slot 1 (\<lambda>s. booked_slot appId) example_state)
       \<lparr>registeredSlot := Some
          \<lparr> reg_Appoitment_Id = appId, reg_Resource_Id = JStr ''1'',
            reg_TimeFrom = JStr ''2025-11-03T10:00:00'',
            reg_TimeTo = JStr ''2025-11-03T10:30:00'' \<rparr>\<rparr>"

text \<open>
  The loaded grid after the slot at address 0 has been registered in this session although
  the server names customer 99 as its owner.
\<close>

definition foreign_owner_state :: app_state where
  "foreign_owner_state =
     (update_slot 0 (\<lambda>s. s\<lparr>Register_Id := JNum 99\<rparr>) example_state)
       \<lparr>registeredSlot := Some (registration_of example_state 0 (JStr ''1''))\<rparr>"

text \<open>
  The loaded grid with the slot at address 0 registered to customer 1, and the \<open>ctx\<close>
  of the update dialog that a click on the slot at address 2 (resource 2) then opens.
\<close>

definition registered_state :: app_state where
  "registered_state =
     (update_slot 0 (\<lambda>s. s\<lparr>Register_Id := JNum 1\<rparr>) example_state)
       \<lparr>registeredSlot := Some (registration_of example_state 0 (JStr ''1''))\<rparr>"

definition move_ctx :: ctx where
  "move_ctx =
     \<lparr> ctx_old = Some (registration_of example_state 0 (JStr ''1'')), ctx_slot = 2,
       ctx_resource = MOCK_resources ! 1, ctx_customerId = JNum 1 \<rparr>"

text \<open>The \<open>ctx\<close> of the register dialog that a click on the slot at address 0 opens.\<close>

definition register_ctx :: ctx where
  "register_ctx =
     \<lparr> ctx_old = None, ctx_slot = 0, ctx_resource = MOCK_resources ! 0, ctx_customerId = JNum 1 \<rparr>"

text \<open>
  The same grid with one more slot object, at address 4, that the Slot Repository does
  not hold: the slot of appointment 7920 as an earlier load had copied it, with \<open>rid\<close>
  as its \<^verbatim>\<open>Resource_Id\<close>. The repository's own object for that appointment
  is the one at address 2. \<open>detached_ctx\<close> is the \<open>ctx\<close> of an update dialog that
  was opened on the earlier copy.
\<close>

definition detached_state :: "jsval \<Rightarrow> app_state" where
  "detached_state rid =
     registered_state
       \<lparr> heap := (heap registered_state)(4 := (heap registered_state 2)\<lparr>Resource_Id := rid\<rparr>),
         next_addr := 5 \<rparr>"

definition detached_ctx :: ctx where
  "detached_ctx = move_ctx\<lparr>ctx_slot := 4\<rparr>"

text \<open>The slot object at an address after a handler has run.\<close>

definition slot_after :: "app_state option \<Rightarrow> addr \<Rightarrow> slot option" where
  "slot_after run a = map_option (\<lambda>st. heap st a) run"

text \<open>
  The keys under which a successful submit reads the Slot Repository: in its own look-up,
  in the renderer (once for each resource) and in the callback of the update dialog.
\<close>

definition keys_read :: "app_state \<Rightarrow> addr \<Rightarrow> ctx option \<Rightarrow> string list" where
  "keys_read st slotObj onUpdated =
     [js_String (Resource_Id (heap st slotObj)), js_String (ResourceId (heap st slotObj))]
     @ map (\<lambda>r. js_String (ID r)) (resources st)
     @ (case onUpdated of
          None \<Rightarrow> []
        | Some c \<Rightarrow> (case ctx_old c of
                       None \<Rightarrow> []
                     | Some old \<Rightarrow> [js_String (reg_Resource_Id old)]))"

section \<open>What a load finds registered\<close>

text \<open>
  To say which slot a load seeds the tracker from: the answer that
  \<^verbatim>\<open>fetchSlotsForResource\<close> gives for one resource (\<open>sent\<close>: whether the
  request went out) and, in list order, the registrations of those of its slots whose
  \<^verbatim>\<open>Register_Id\<close> is truthy and \<^verbatim>\<open>Number(s.Register_Id) ===
  Number(customerId)\<close>.
\<close>

definition slots_reply ::
  "config \<Rightarrow> jsval \<Rightarrow> string \<Rightarrow> jsval \<Rightarrow> bool \<Rightarrow> slot fetch_outcome \<Rightarrow> slot payload" where
  "slots_reply cfg customerId dateStr resourceId sent outcome =
     (case fetchSlots_try sent outcome of
        Inr data \<Rightarrow> data
      | Inl err \<Rightarrow> Arr (mock_slots_or_empty cfg (mock_key customerId dateStr resourceId)))"

definition registration_from :: "resource \<Rightarrow> slot \<Rightarrow> registration" where
  "registration_from r s =
     \<lparr> reg_Appoitment_Id = Appoitment_Id s, reg_Resource_Id = ID r,
       reg_TimeFrom = TimeFrom s, reg_TimeTo = TimeTo s \<rparr>"

definition owned_in :: "resource \<Rightarrow> jsval \<Rightarrow> slot list \<Rightarrow> registration list" where
  "owned_in r customerId l =
     map (registration_from r) (filter (\<lambda>s. serverRegistered s (js_Number customerId)) l)"

definition owned_in_reply ::
  "config \<Rightarrow> jsval \<Rightarrow> string \<Rightarrow> resource \<Rightarrow> bool \<Rightarrow> slot fetch_outcome \<Rightarrow> registration list" where
  "owned_in_reply cfg customerId dateStr r sent outcome =
     (case slots_reply cfg customerId dateStr (ID r) sent outcome of
        Arr l \<Rightarrow> owned_in r customerId l
      | _ \<Rightarrow> [])"

text \<open>
  A server that names customer 1 as the owner of two slots of the one resource it lists
  (\<open>two_owned i\<close> is its answer to the slot request at position \<open>i\<close>), and the
  configuration with the trust flag switched on.
\<close>

definition trusting :: config where
  "trusting = CONFIG\<lparr>RESPECT_SERVER_REGISTERED := True\<rparr>"

definition one_resource :: "resource fetch_outcome" where
  "one_resource = Response 200 (Some (Arr [\<lparr> ID = JNum 1, Name_En = JStr ''Room'', Name = JUndefined \<rparr>]))"

definition two_owned :: "nat \<Rightarrow> slot fetch_outcome" where
  "two_owned i =
     Response 200 (Some (Arr
       [mock_slot 501 ''2025-11-03T09:00:00'' ''2025-11-03T09:30:00'' 2 (JNum 1),
        mock_slot 502 ''2025-11-03T10:00:00'' ''2025-11-03T10:30:00'' 2 (JNum 1)]))"

text \<open>The tracker after a scan: the last registration found, else what it was before.\<close>

definition tracker_after :: "registration option \<Rightarrow> registration list \<Rightarrow> registration option" where
  "tracker_after before found = (if found = [] then before else Some (last found))"

text \<open>
  Whether the slot requests of a load go out: always in \<^verbatim>\<open>part_000\<close>; in
  \<^verbatim>\<open>main.js\<close> only when the mode was not \<^verbatim>\<open>'mock'\<close> before the load
  and the resources request did not end in the fallback.
\<close>

definition slot_requests_sent :: "revision \<Rightarrow> app_state \<Rightarrow> resource fetch_outcome \<Rightarrow> bool" where
  "slot_requests_sent rv st res_outcome =
     (case rv of
        Rev_update \<Rightarrow> True
      | Rev_main \<Rightarrow>
          MODE st \<noteq> ''mock''
          \<and> (case read_response res_outcome of Inr data \<Rightarrow> True | Inl err \<Rightarrow> False))"

text \<open>
  A server that lists two resources and names customer 1 as the owner of one slot of each:
  appointment 601 for the first resource, 602 for the second.
\<close>

definition two_resources :: "resource fetch_outcome" where
  "two_resources =
     Response 200 (Some (Arr [\<lparr> ID = JNum 1, Name_En = JStr ''Room'', Name = JUndefined \<rparr>,
                              \<lparr> ID = JNum 2, Name_En = JStr ''Hall'', Name = JUndefined \<rparr>]))"

definition owned_by_one :: "nat \<Rightarrow> slot fetch_outcome" where
  "owned_by_one i =
     Response 200 (Some (Arr
       [mock_slot (601 + int i) ''2025-11-03T09:00:00'' ''2025-11-03T09:30:00'' 2 (JNum 1)]))"

text \<open>What a load leaves in the tracker, with how the load ended.\<close>

definition tracker_of_load ::
  "(app_state \<times> load_result) option \<Rightarrow> (registration option \<times> load_result) option" where
  "tracker_of_load run = map_option (\<lambda>(st, r). (registeredSlot st, r)) run"

section \<open>The time grid generator: termination and shape of the result\<close>

lemma minutes_loop_run:
  assumes "0 < step"
  shows "60 \<le> mins + int n * step \<Longrightarrow> (0 < n \<longrightarrow> mins + (int n - 1) * step < 60) \<Longrightarrow>
     minutes_loop mk step mins rows = Some (rows @ map (\<lambda>i. mk (mins + int i * step)) [0..<n])"
proof (induction n arbitrary: mins rows)
  case 0
  then show ?case by (simp add: minutes_loop.simps)
next
  case (Suc n)
  have "0 \<le> int n * step" using assms by simp
  with Suc.prems have lt: "mins < 60" by simp
  have a: "60 \<le> (mins + step) + int n * step" using Suc.prems(1) by (simp add: algebra_simps)
  have b: "0 < n \<longrightarrow> (mins + step) + (int n - 1) * step < 60" using Suc.prems(2) by (simp add: algebra_simps)
  have "minutes_loop mk step mins rows = minutes_loop mk step (mins + step) (rows @ [mk mins])"
    using lt by (subst minutes_loop.simps) simp
  also have "\<dots> = Some ((rows @ [mk mins]) @ map (\<lambda>i. mk ((mins + step) + int i * step)) [0..<n])"
    by (rule Suc.IH[OF a b])
  also have "(rows @ [mk mins]) @ map (\<lambda>i. mk ((mins + step) + int i * step)) [0..<n]
     = rows @ map (\<lambda>i. mk (mins + int i * step)) [0..<Suc n]"
    by (simp add: upt_conv_Cons map_Suc_upt[symmetric] algebra_simps del: upt_Suc)
  finally show ?case .
qed

lemma minutes_loop_hour:
  assumes "0 < step" "step dvd 60"
  shows "minutes_loop mk step 0 rows
           = Some (rows @ map (\<lambda>i. mk (int i * step)) [0..<nat (60 div step)])"
proof -
  have eq: "(60 div step) * step = 60" using assms by simp
  have pos: "0 \<le> 60 div step" using assms by (simp add: pos_imp_zdiv_nonneg_iff)
  have ne: "60 div step \<noteq> 0" using eq by auto
  have "minutes_loop mk step 0 rows
          = Some (rows @ map (\<lambda>i. mk (0 + int i * step)) [0..<nat (60 div step)])"
    by (rule minutes_loop_run[OF assms(1)]) (use pos ne eq assms(1) in \<open>simp_all add: left_diff_distrib\<close>)
  then show ?thesis by simp
qed

lemma hours_loop_run:
  assumes "0 < step" "step dvd 60"
  shows "h \<le> hmax + 1 \<Longrightarrow>
     hours_loop (\<lambda>h mins. Date_at (B + h * 60 + mins)) step hmax h rows
       = Some (rows @ map (\<lambda>k. Date_at (B + h * 60 + int k * step))
                        [0..<nat ((hmax + 1 - h) * (60 div step))])"
proof (induction "nat (hmax + 1 - h)" arbitrary: h rows)
  case 0
  then have "\<not> h \<le> hmax" "hmax + 1 - h = 0" by simp_all
  then show ?case by (subst hours_loop.simps) simp
next
  case (Suc x)
  define n where "n = nat (60 div step)"
  define m where "m = nat ((hmax + 1 - (h + 1)) * (60 div step))"
  let ?mk = "\<lambda>h mins. Date_at (B + h * 60 + mins)"
  have eq: "(60 div step) * step = 60" using assms by simp
  have pos: "0 \<le> 60 div step" using assms by (simp add: pos_imp_zdiv_nonneg_iff)
  have n: "int n * step = 60" using pos eq by (simp add: n_def)
  from Suc.hyps(2) have le: "h \<le> hmax" by simp
  have x: "x = nat (hmax + 1 - (h + 1))" using Suc.hyps(2) by simp
  have le': "h + 1 \<le> hmax + 1" using le by simp
  let ?rows' = "rows @ map (\<lambda>i. ?mk h (int i * step)) [0..<n]"
  have split: "nat ((hmax + 1 - h) * (60 div step)) = n + m"
  proof -
    have "(hmax + 1 - h) * (60 div step) = 60 div step + (hmax + 1 - (h + 1)) * (60 div step)"
      by (simp add: algebra_simps)
    moreover have "0 \<le> (hmax + 1 - (h + 1)) * (60 div step)" using le pos by simp
    ultimately show ?thesis using pos by (simp add: nat_add_distrib n_def m_def)
  qed
  have "hours_loop ?mk step hmax h rows = hours_loop ?mk step hmax (h + 1) ?rows'"
    using le by (subst hours_loop.simps) (simp add: minutes_loop_hour[OF assms] n_def)
  also have "\<dots> = Some (?rows' @ map (\<lambda>k. Date_at (B + (h + 1) * 60 + int k * step)) [0..<m])"
    unfolding m_def by (rule Suc.hyps(1)[OF x le'])
  also have "?rows' @ map (\<lambda>k. Date_at (B + (h + 1) * 60 + int k * step)) [0..<m]
     = rows @ map (\<lambda>k. Date_at (B + h * 60 + int k * step)) [0..<n + m]"
  proof -
    have "map (\<lambda>k. Date_at (B + h * 60 + int k * step)) [n..<n + m]
        = map (\<lambda>k. Date_at (B + h * 60 + int k * step)) (map (\<lambda>i. i + n) [0..<m])"
      by (simp only: map_add_upt add.commute)
    also have "\<dots> = map (\<lambda>k. Date_at (B + (h + 1) * 60 + int k * step)) [0..<m]"
      using n by (simp add: algebra_simps)
    finally have "map (\<lambda>k. Date_at (B + h * 60 + int k * step)) [n..<n + m]
        = map (\<lambda>k. Date_at (B + (h + 1) * 60 + int k * step)) [0..<m]" .
    then show ?thesis
      by (simp add: upt_add_eq_append[OF le0])
  qed
  finally show ?case unfolding split .
qed


lemma is_digit_not_special:
  assumes "is_digit c"
  shows "c \<noteq> CHR ''-''" "c \<noteq> CHR ''+''" "\<not> is_space c"
  using assms by (auto simp: is_digit_def is_space_def)

lemma parseInt_digits:
  assumes "list_all is_digit ds" "ds \<noteq> []"
  shows "parseInt ds = Some (digits_val ds)"
proof -
  from assms obtain c r where ds: "ds = c # r" by (cases ds) auto
  with assms have c: "is_digit c" by simp
  have tw: "takeWhile is_digit ds = ds"
    using assms(1) by (simp add: takeWhile_eq_all_conv list_all_iff)
  have "strip_sign (dropWhile is_space ds) = (False, ds)"
    using is_digit_not_special[OF c] by (simp add: ds strip_sign_def)
  then show ?thesis using assms(2) by (simp add: parseInt_def tw)
qed

lemma split_on_date:
  assumes "list_all is_digit [y1, y2, y3, y4, m1, m2, d1, d2]"
  shows "split_on CHR ''-'' [y1, y2, y3, y4, CHR ''-'', m1, m2, CHR ''-'', d1, d2]
           = [[y1, y2, y3, y4], [m1, m2], [d1, d2]]"
  using assms by (simp add: is_digit_not_special(1))

lemma progression_props:
  fixes B :: int
  assumes "0 < step" "0 < N" "rows = map (\<lambda>k. Date_at (B + int k * step)) [0..<N]"
  shows "length rows = N" "sorted_wrt date_less rows" "hd rows = Date_at B"
    "last rows = Date_at (B + (int N - 1) * step)"
proof -
  show "length rows = N" using assms(3) by simp
  have "sorted_wrt (<) [0..<N]" by simp
  then have "sorted_wrt (\<lambda>a b. date_less (Date_at (B + int a * step)) (Date_at (B + int b * step))) [0..<N]"
    by (rule sorted_wrt_mono_rel[rotated]) (use assms(1) in simp)
  then show "sorted_wrt date_less rows" by (simp add: assms(3) sorted_wrt_map)
  show "hd rows = Date_at B" using assms(2) by (simp add: assms(3) hd_map)
  have "[0..<N] \<noteq> []" using assms(2) by simp
  then show "last rows = Date_at (B + (int N - 1) * step)"
    using assms(2) by (simp add: assms(3) last_map of_nat_diff)
qed

text \<open>
  Claim C6. For a date string \<^verbatim>\<open>yyyy-mm-dd\<close> of digits, a positive step that
  divides 60 and a start hour not after the end hour, the row generator returns, and its
  result has \<open>((endHour - startHour) + 1) * (60 / stepMinutes)\<close> timestamps, strictly
  increasing, the first at \<open>startHour:00\<close> and the last at
  \<open>endHour:(60 - stepMinutes)\<close> of that date (the dates that
  \<^verbatim>\<open>new Date(y, m-1, d, startHour, 0, 0)\<close> and
  \<^verbatim>\<open>new Date(y, m-1, d, endHour, 60 - step, 0)\<close> denote). With the configured
  8, 17 and 30 that is 20 rows, as the witness computes.
\<close>

theorem generateRowTimes_rows:
  assumes digits: "list_all is_digit [y1, y2, y3, y4, m1, m2, d1, d2]"
    and step: "0 < SLOT_DURATION_MIN cfg" "SLOT_DURATION_MIN cfg dvd 60"
    and hours: "SLOT_MIN_TIME cfg \<le> SLOT_MAX_TIME cfg"
  shows "\<exists>rows.
     generateRowTimes cfg [y1, y2, y3, y4, CHR ''-'', m1, m2, CHR ''-'', d1, d2] = Some rows
     \<and> int (length rows)
         = ((SLOT_MAX_TIME cfg - SLOT_MIN_TIME cfg) + 1) * (60 div SLOT_DURATION_MIN cfg)
     \<and> sorted_wrt date_less rows
     \<and> hd rows = new_Date (Some (digits_val [y1, y2, y3, y4])) (Some (digits_val [m1, m2] - 1))
                    (Some (digits_val [d1, d2])) (SLOT_MIN_TIME cfg) 0
     \<and> last rows = new_Date (Some (digits_val [y1, y2, y3, y4])) (Some (digits_val [m1, m2] - 1))
                    (Some (digits_val [d1, d2])) (SLOT_MAX_TIME cfg) (60 - SLOT_DURATION_MIN cfg)"
proof -
  define st where "st = SLOT_DURATION_MIN cfg"
  define h0 where "h0 = SLOT_MIN_TIME cfg"
  define h1 where "h1 = SLOT_MAX_TIME cfg"
  define Y where "Y = digits_val [y1, y2, y3, y4]"
  define M where "M = digits_val [m1, m2]"
  define D where "D = digits_val [d1, d2]"
  define B where "B = MakeDay (if 0 \<le> Y \<and> Y \<le> 99 then 1900 + Y else Y) (M - 1) D * 1440"
  define N where "N = nat ((h1 + 1 - h0) * (60 div st))"
  define rows where "rows = map (\<lambda>k. Date_at ((B + h0 * 60) + int k * st)) [0..<N]"
  have st: "0 < st" "st dvd 60" using step by (simp_all add: st_def)
  have eq: "(60 div st) * st = 60" using st by simp
  have "0 \<le> 60 div st" using st by (simp add: pos_imp_zdiv_nonneg_iff)
  moreover have "60 div st \<noteq> 0" using eq by auto
  ultimately have pos: "0 < 60 div st" by simp
  have le: "h0 \<le> h1" using hours by (simp add: h0_def h1_def)
  have Npos: "0 < (h1 + 1 - h0) * (60 div st)" using le pos by simp
  then have N: "int N = (h1 + 1 - h0) * (60 div st)" "0 < N" by (simp_all add: N_def)
  have parts: "map parseInt (split_on CHR ''-'' [y1, y2, y3, y4, CHR ''-'', m1, m2, CHR ''-'', d1, d2])
                 = [Some Y, Some M, Some D]"
  proof -
    have d: "list_all is_digit [y1, y2, y3, y4]" "list_all is_digit [m1, m2]"
      "list_all is_digit [d1, d2]"
      using digits by simp_all
    show ?thesis
      unfolding split_on_date[OF digits]
      by (simp add: parseInt_digits[OF d(1)] parseInt_digits[OF d(2)] parseInt_digits[OF d(3)]
            Y_def M_def D_def)
  qed
  have mk: "(\<lambda>h mins. new_Date (Some Y) (Some (M - 1)) (Some D) h mins)
              = (\<lambda>h mins. Date_at (B + h * 60 + mins))"
    by (simp add: new_Date_def B_def)
  have run: "generateRowTimes cfg [y1, y2, y3, y4, CHR ''-'', m1, m2, CHR ''-'', d1, d2] = Some rows"
    unfolding generateRowTimes_def parts
    using hours_loop_run[OF st, of h0 h1 B "[]"] le
    by (simp add: part_at_def mk st_def[symmetric] h0_def[symmetric] h1_def[symmetric]
          rows_def N_def)
  note pp = progression_props[OF st(1) N(2) rows_def]
  have last_eq: "(B + h0 * 60) + (int N - 1) * st = B + h1 * 60 + (60 - st)"
  proof -
    have "int N * st = (h1 + 1 - h0) * 60" using N(1) eq by (simp add: mult.assoc)
    then show ?thesis by (simp add: algebra_simps)
  qed
  have "int (length rows) = ((h1 - h0) + 1) * (60 div st)" using pp(1) N(1) by (simp add: algebra_simps)
  moreover have "hd rows = new_Date (Some Y) (Some (M - 1)) (Some D) h0 0"
    using pp(3) by (simp add: new_Date_def B_def)
  moreover have "last rows = new_Date (Some Y) (Some (M - 1)) (Some D) h1 (60 - st)"
    using pp(4) last_eq by (simp add: new_Date_def B_def)
  ultimately show ?thesis using run pp(2)
    unfolding st_def h0_def h1_def Y_def M_def D_def by blast
qed

theorem generateRowTimes_rows_witness:
  "\<exists>rows. generateRowTimes CONFIG ''2025-11-03'' = Some rows
     \<and> length rows = 20 \<and> sorted_wrt date_less rows
     \<and> hd rows = new_Date (Some 2025) (Some 10) (Some 3) 8 0
     \<and> last rows = new_Date (Some 2025) (Some 10) (Some 3) 17 30"
  using generateRowTimes_rows[of "CHR ''2''" "CHR ''0''" "CHR ''2''" "CHR ''5''" "CHR ''1''" "CHR ''1''"
      "CHR ''0''" "CHR ''3''" CONFIG]
  by (simp add: CONFIG_def is_digit_def digits_val_def digit_val_def)

section \<open>Rendering returns when the step is positive\<close>

lemma minutes_loop_terminates:
  assumes "0 < step"
  shows "\<exists>rows'. minutes_loop mk step mins rows = Some rows'"
proof (induction "nat (60 - mins)" arbitrary: mins rows rule: less_induct)
  case less
  show ?case
  proof (cases "mins < 60")
    case True
    then have "nat (60 - (mins + step)) < nat (60 - mins)" using assms by simp
    from less[OF this] obtain rows' where
      "minutes_loop mk step (mins + step) (rows @ [mk mins]) = Some rows'" by blast
    then show ?thesis using True by (subst minutes_loop.simps) simp
  next
    case False
    then show ?thesis by (subst minutes_loop.simps) simp
  qed
qed

lemma hours_loop_terminates:
  assumes "0 < step"
  shows "\<exists>rows'. hours_loop mk step hmax h rows = Some rows'"
proof (induction "nat (hmax + 1 - h)" arbitrary: h rows)
  case 0
  then have "\<not> h \<le> hmax" by simp
  then show ?case by (subst hours_loop.simps) simp
next
  case (Suc x)
  then have le: "h \<le> hmax" and x: "x = nat (hmax + 1 - (h + 1))" by simp_all
  obtain r1 where r1: "minutes_loop (mk h) step 0 rows = Some r1"
    using minutes_loop_terminates[OF assms] by blast
  from Suc.hyps(1)[OF x] obtain r2 where "hours_loop mk step hmax (h + 1) r1 = Some r2" by blast
  then show ?case using le r1 by (subst hours_loop.simps) simp
qed

lemma generateRowTimes_terminates:
  assumes "0 < SLOT_DURATION_MIN cfg"
  shows "\<exists>rows. generateRowTimes cfg dateStr = Some rows"
  unfolding generateRowTimes_def Let_def using hours_loop_terminates[OF assms] by blast

lemma renderGrid_terminates:
  assumes "0 < SLOT_DURATION_MIN cfg"
  shows "\<exists>g. renderGrid cfg rv st dateStr = Some g"
  using generateRowTimes_terminates[OF assms, of dateStr] by (auto simp: renderGrid_def)

text \<open>A call of the renderer changes nothing but what is shown.\<close>

lemma renderGrid_run_eq:
  assumes "0 < SLOT_DURATION_MIN cfg"
  shows "renderGrid_run cfg rv dateStr st
           = Some (st\<lparr>trace := trace st @ [Render_Grid dateStr, grid_status st]\<rparr>)"
proof -
  obtain g where "renderGrid cfg rv st dateStr = Some g"
    using renderGrid_terminates[OF assms] by blast
  then show ?thesis
    by (simp add: renderGrid_run_def emit_def grid_status_def)
qed

section \<open>Evaluating the fixture\<close>

lemma string_of_int_examples:
  "string_of_int 1 = ''1''" "string_of_int 7909 = ''7909''" "string_of_int 7910 = ''7910''"
  "string_of_int 7920 = ''7920''" "string_of_int 7921 = ''7921''"
  by (simp_all add: string_of_int_def string_of_nat.simps digit_char_def)

lemma mock_key_example:
  "mock_key (JNum 1) ''2025-11-03'' (JStr r) = ''1|2025-11-03|'' @ r"
  by (simp add: mock_key_def string_of_int_examples)


section \<open>The remote gateway\<close>

lemma apiGet_send_frame:
  assumes "apiGet_send rv path st = (st1, sent)"
  shows "localStorage_mode st1 = localStorage_mode st" "resources st1 = resources st"
    "slotsMap st1 = slotsMap st" "registeredSlot st1 = registeredSlot st" "heap st1 = heap st"
    "next_addr st1 = next_addr st"
  using assms by (auto simp: apiGet_send_def emit_def split: revision.splits if_splits)

lemma fetchSlotsForResource_total:
  "\<exists>st' data. fetchSlotsForResource cfg rv customerId dateStr resourceId outcome st
                  = (st', Inr data)"
  by (cases "apiGet_send rv (slots_path customerId dateStr resourceId) st")
     (auto simp: fetchSlotsForResource_def fetchSlots_receive_def split: sum.splits)

text \<open>
  Claim C8. \<^verbatim>\<open>fetchSlotsForResource\<close> never hands an error to its caller; and
  when the request meets a transport failure, a status outside 2xx or a body that does not
  parse, or the parsed body has \<^verbatim>\<open>result === 'failed'\<close>, the mode flag is
  switched to \<^verbatim>\<open>'mock'\<close> and stored, and the result is the fixture list under the
  key \<^verbatim>\<open>customerId|date|resourceId\<close>, or the empty list when the fixture has no
  such key.
\<close>

theorem fetchSlotsForResource_falls_back:
  "(\<exists>st' data. fetchSlotsForResource cfg rv customerId dateStr resourceId outcome st
                  = (st', Inr data))
   \<and> ((outcome = Network_Error
        \<or> (\<exists>status body. outcome = Response status body \<and> \<not> ok status)
        \<or> (\<exists>status. outcome = Response status None)
        \<or> (\<exists>status msg. outcome = Response status (Some (Obj (JStr ''failed'') msg))))
       \<longrightarrow> (\<exists>st'. fetchSlotsForResource cfg rv customerId dateStr resourceId outcome st
                    = (st', Inr (Arr (case MOCK_slots cfg
                                       (js_String customerId @ ''|'' @ dateStr @ ''|''
                                          @ js_String resourceId) of
                                  Some fixture \<Rightarrow> fixture
                                | None \<Rightarrow> [])))
                  \<and> MODE st' = ''mock'' \<and> localStorage_mode st' = Some ''mock''))"
proof -
  obtain st1 sent where s: "apiGet_send rv (slots_path customerId dateStr resourceId) st = (st1, sent)"
    by (cases "apiGet_send rv (slots_path customerId dateStr resourceId) st")
  have run: "fetchSlotsForResource cfg rv customerId dateStr resourceId outcome st
               = fetchSlots_receive cfg customerId dateStr resourceId sent outcome st1"
    by (simp add: fetchSlotsForResource_def s)
  have always: "\<exists>st' data. fetchSlots_receive cfg customerId dateStr resourceId sent outcome st1
                  = (st', Inr data)"
    by (auto simp: fetchSlots_receive_def split: sum.splits)
  have failed: "fetchSlots_try sent outcome = Inl e \<Longrightarrow>
      fetchSlots_receive cfg customerId dateStr resourceId sent outcome st1
        = (fall_back_to_mock st1,
           Inr (Arr (case MOCK_slots cfg
                       (js_String customerId @ ''|'' @ dateStr @ ''|'' @ js_String resourceId) of
                  Some fixture \<Rightarrow> fixture | None \<Rightarrow> [])))" for e
    by (simp add: fetchSlots_receive_def mock_slots_or_empty_def mock_key_def)
  have fb: "MODE (fall_back_to_mock st1) = ''mock''"
    "localStorage_mode (fall_back_to_mock st1) = Some ''mock''"
    by (simp_all add: fall_back_to_mock_def)
  have try_fails: "\<exists>e. fetchSlots_try sent outcome = Inl e"
    if "outcome = Network_Error
        \<or> (\<exists>status body. outcome = Response status body \<and> \<not> ok status)
        \<or> (\<exists>status. outcome = Response status None)
        \<or> (\<exists>status msg. outcome = Response status (Some (Obj (JStr ''failed'') msg)))"
    using that
    by (auto simp: fetchSlots_try_def apiGet_receive_def read_response_def strict_eq_def
             split: option.splits)
  show ?thesis
    unfolding run using always failed fb try_fails by metis
qed

theorem fetchSlotsForResource_falls_back_witness:
  "\<exists>st'. fetchSlotsForResource CONFIG Rev_main (JNum 1) ''2025-11-03'' (JStr ''1'')
            (Response 200 (Some (Obj (JStr ''failed'') (JStr ''no data'')))) (initial_state ''2025-11-03'')
          = (st', Inr (Arr [mock_slot 7909 ''2025-11-03T09:00:00'' ''2025-11-03T09:30:00'' 1 JUndefined,
                            mock_slot 7910 ''2025-11-03T10:00:00'' ''2025-11-03T10:30:00'' 2 JUndefined]))
        \<and> MODE st' = ''mock'' \<and> localStorage_mode st' = Some ''mock''"
proof -
  have key: "js_String (JNum 1) @ ''|'' @ ''2025-11-03'' @ ''|'' @ js_String (JStr ''1'')
               = ''1|2025-11-03|1''"
    by (simp add: string_of_int_def string_of_nat.simps digit_char_def)
  show ?thesis
    using fetchSlotsForResource_falls_back[of CONFIG Rev_main "JNum 1" "''2025-11-03''" "JStr ''1''"
        "Response 200 (Some (Obj (JStr ''failed'') (JStr ''no data'')))" "initial_state ''2025-11-03''"]
    unfolding key by (simp add: MOCK_slots_def)
qed

text \<open>
  Claim C7. \<^verbatim>\<open>updateAppointmentAPI\<close> with a falsy appointment id (among them
  \<^verbatim>\<open>null\<close>, \<^verbatim>\<open>undefined\<close> and the empty string) throws before anything
  is sent and changes nothing. With any other id exactly one POST to the update endpoint
  is issued; there is no fallback to mock data (the mode flag is \<^verbatim>\<open>'live'\<close>
  afterwards and nothing is stored), a transport failure and a status outside 2xx are
  raised, and a 2xx body is returned as parsed. The submit handler of the editable view has
  the same guard: with a falsy id it only alerts.
\<close>

theorem updateAppointmentAPI_contract:
  "(\<not> truthy appointmentId \<longrightarrow>
      updateAppointmentAPI appointmentId statusValue notesValue outcome st
        = (st, Inl Missing_Appointment_Id))
   \<and> \<not> truthy JNull \<and> \<not> truthy JUndefined \<and> \<not> truthy (JStr '''')
   \<and> (truthy appointmentId \<longrightarrow>
        (\<exists>st' res. updateAppointmentAPI appointmentId statusValue notesValue outcome st = (st', res)
           \<and> trace st' = trace st @
                [Http_Post UPDATE_ENDPOINT
                   \<lparr> body_Appointment_Id = js_String appointmentId,
                     body_Notes = js_nullish notesValue (JStr ''''),
                     body_Status = js_String (js_nullish statusValue (JStr '''')) \<rparr>]
           \<and> MODE st' = ''live'' \<and> localStorage_mode st' = localStorage_mode st
           \<and> (outcome = Network_Error \<longrightarrow> res = Inl Network_Failure)
           \<and> (\<forall>status body. outcome = Response status body \<and> \<not> ok status
                 \<longrightarrow> res = Inl (Http_Error status))
           \<and> (\<forall>status. outcome = Response status None \<and> ok status
                 \<longrightarrow> res = Inl Json_Syntax_Error)
           \<and> (\<forall>status data. outcome = Response status (Some data) \<and> ok status
                 \<longrightarrow> res = Inr data)))
   \<and> (\<not> truthy (Appoitment_Id (heap st slotObj)) \<longrightarrow>
        updateBtn_click cfg slotObj onUpdated statusVal notesVal outcome' st
          = Some (st\<lparr>trace := trace st @
                     [Alert (''Appointment_Id is missing '' @ em_dash @ '' cannot update.'')]\<rparr>))"
  by (auto simp: updateAppointmentAPI_def apiPostJson_def read_response_def emit_def
        updateBtn_click_def alert_def)

theorem updateAppointmentAPI_contract_witness:
  "updateAppointmentAPI JNull (JStr ''2'') (JStr ''ok'') (Response 200 (Some (Obj (JStr ''success'') JUndefined)))
       (initial_state ''2025-11-03'')
     = (initial_state ''2025-11-03'', Inl Missing_Appointment_Id :: error + unit payload)
   \<and> snd (updateAppointmentAPI (JNum 7909) (JStr ''2'') (JStr ''ok'') (Response 500 None)
            (initial_state ''2025-11-03''))
     = (Inl (Http_Error 500) :: error + unit payload)
   \<and> snd (updateAppointmentAPI (JNum 7909) (JStr ''2'') (JStr ''ok'') Network_Error
            (initial_state ''2025-11-03''))
     = (Inl Network_Failure :: error + unit payload)"
  using updateAppointmentAPI_contract[of JNull "JStr ''2''" "JStr ''ok''"
      "Response 200 (Some (Obj (JStr ''success'') JUndefined)) :: unit fetch_outcome"
      "initial_state ''2025-11-03''" 0 CONFIG None "''2''" "''ok''" Network_Error]
    updateAppointmentAPI_contract[of "JNum 7909" "JStr ''2''" "JStr ''ok''"
      "Response 500 None :: unit fetch_outcome"
      "initial_state ''2025-11-03''" 0 CONFIG None "''2''" "''ok''" Network_Error]
    updateAppointmentAPI_contract[of "JNum 7909" "JStr ''2''" "JStr ''ok''"
      "Network_Error :: unit fetch_outcome"
      "initial_state ''2025-11-03''" 0 CONFIG None "''2''" "''ok''" Network_Error]
  by (auto simp: ok_def)

section \<open>Slot click\<close>

text \<open>
  Claim C3. On a slot click: when the tracker holds a registration whose appointment id is
  strictly equal to the clicked slot's, or the trust flag is on and the slot's
  \<^verbatim>\<open>Register_Id\<close> is the session customer's, the only effect is the "already
  registered" alert (no dialog context is set). Otherwise, with an empty tracker the
  register dialog is opened on the clicked slot and its resource, and with a registration
  in the tracker the update dialog is opened on that registration and the clicked slot.
\<close>

theorem onSlotClick_transitions:
  fixes cfg rv st slotObj res
  defines "custId \<equiv> cust_id cfg rv st"
    and "s \<equiv> heap st slotObj"
  defines "ownedByMe \<equiv>
      (\<exists>reg. registeredSlot st = Some reg \<and> strict_eq (reg_Appoitment_Id reg) (Appoitment_Id s))
      \<or> (RESPECT_SERVER_REGISTERED cfg \<and> truthy (Register_Id s)
          \<and> strict_eq (js_Number (Register_Id s)) custId)"
  shows "(ownedByMe \<longrightarrow>
            onSlotClick cfg rv slotObj res st
              = st\<lparr>trace := trace st @ [Alert ''This slot is already registered for you.'']\<rparr>)
       \<and> (\<not> ownedByMe \<and> registeredSlot st = None \<longrightarrow>
            onSlotClick cfg rv slotObj res st
              = st\<lparr>modalContext := Some (Register,
                      \<lparr> ctx_old = None, ctx_slot = slotObj, ctx_resource = res,
                        ctx_customerId = custId \<rparr>)\<rparr>)
       \<and> (\<forall>reg. \<not> ownedByMe \<and> registeredSlot st = Some reg \<longrightarrow>
            onSlotClick cfg rv slotObj res st
              = st\<lparr>modalContext := Some (Update,
                      \<lparr> ctx_old = Some reg, ctx_slot = slotObj, ctx_resource = res,
                        ctx_customerId = custId \<rparr>)\<rparr>)"
  unfolding ownedByMe_def custId_def s_def
  by (auto simp: onSlotClick_def click_isRegistered_def serverRegistered_def alert_def emit_def
        openModal_def Let_def split: option.splits)

theorem onSlotClick_transitions_witness:
  "onSlotClick CONFIG Rev_main 0 (MOCK_resources ! 0)
       (example_state\<lparr>registeredSlot := Some (registration_of example_state 0 (JStr ''1''))\<rparr>)
     = (example_state\<lparr>registeredSlot := Some (registration_of example_state 0 (JStr ''1''))\<rparr>)
         \<lparr>trace := [Alert ''This slot is already registered for you.'']\<rparr>
   \<and> onSlotClick CONFIG Rev_main 0 (MOCK_resources ! 0) example_state
     = example_state\<lparr>modalContext := Some (Register,
          \<lparr> ctx_old = None, ctx_slot = 0, ctx_resource = MOCK_resources ! 0,
            ctx_customerId = JNum 1 \<rparr>)\<rparr>
   \<and> onSlotClick CONFIG Rev_main 2 (MOCK_resources ! 1)
       (example_state\<lparr>registeredSlot := Some (registration_of example_state 0 (JStr ''1''))\<rparr>)
     = (example_state\<lparr>registeredSlot := Some (registration_of example_state 0 (JStr ''1''))\<rparr>)
         \<lparr>modalContext := Some (Update,
          \<lparr> ctx_old = Some (registration_of example_state 0 (JStr ''1'')), ctx_slot = 2,
            ctx_resource = MOCK_resources ! 1, ctx_customerId = JNum 1 \<rparr>)\<rparr>"
proof -
  have cust: "customerInput st = ''1'' \<Longrightarrow> cust_id CONFIG Rev_main st = JNum 1" for st
    by (simp add: cust_id_def js_or_def Number_of_string_def trim_def is_space_def strip_sign_def
          is_digit_def digits_val_def digit_val_def)
  have cfg: "RESPECT_SERVER_REGISTERED CONFIG = False" by (simp add: CONFIG_def)
  have h: "heap example_state = example_heap" "registeredSlot example_state = None"
    "trace example_state = []" "customerInput example_state = ''1''"
    by (simp_all add: example_state_def initial_state_def)
  let ?st = "example_state\<lparr>registeredSlot := Some (registration_of example_state 0 (JStr ''1''))\<rparr>"
  show ?thesis
    using onSlotClick_transitions[of ?st 0 CONFIG Rev_main "MOCK_resources ! 0"]
      onSlotClick_transitions[of example_state 0 CONFIG Rev_main "MOCK_resources ! 0"]
      onSlotClick_transitions[of ?st 2 CONFIG Rev_main "MOCK_resources ! 1"]
    by (simp add: cust cfg h registration_of_def example_heap_def mock_slot_def
          no_slot_def strict_eq_def)
qed

section \<open>The renderer's classes\<close>

text \<open>
  Claim C4, as the code has it. Every slot the renderer matches to a grid cell gets exactly
  one class: \<open>Registered\<close> when the tracker holds a truthy appointment id strictly equal
  to the slot's, or the trust flag is on and the slot's \<^verbatim>\<open>Register_Id\<close> is the
  customer's; else \<open>Available\<close> when \<^verbatim>\<open>Status === 1\<close> or
  \<^verbatim>\<open>Description_En\<close> contains "available" in any letter case; else
  \<open>Booked\<close>. In particular a tracker match gives \<open>Registered\<close> whatever the slot's
  \<^verbatim>\<open>Register_Id\<close> is.
\<close>

theorem render_cell_class:
  fixes cfg rv st dt r matched c
  defines "s \<equiv> heap st matched"
  defines "trackerMatches \<equiv>
      (\<exists>reg. registeredSlot st = Some reg \<and> truthy (reg_Appoitment_Id reg)
             \<and> strict_eq (reg_Appoitment_Id reg) (Appoitment_Id s))"
    and "serverMatches \<equiv>
      (RESPECT_SERVER_REGISTERED cfg \<and> truthy (Register_Id s)
       \<and> strict_eq (js_Number (Register_Id s)) (cust_id cfg rv st))"
    and "looksAvailable \<equiv>
      (strict_eq (Status s) (JNum 1)
       \<or> contains ''available'' (toLowerCase (js_String (js_or (Description_En s) (JStr '''')))))"
  assumes "render_cell cfg rv st dt r = Some (matched, c)"
  shows "c = (if trackerMatches \<or> serverMatches then Registered
              else if looksAvailable then Available else Booked)
         \<and> (trackerMatches \<longrightarrow> c = Registered)"
proof -
  from assms(5) have c: "c = slot_className cfg st (heap st matched) (cust_id cfg rv st)"
    by (auto simp: render_cell_def split: option.splits)
  have "render_isRegistered cfg st s (cust_id cfg rv st) = (trackerMatches \<or> serverMatches)"
    unfolding render_isRegistered_def trackerMatches_def serverMatches_def serverRegistered_def
    by (auto split: option.splits)
  then show ?thesis
    unfolding c s_def[symmetric] slot_className_def looksAvailable_def by simp
qed

theorem render_cell_class_witness:
  "render_cell CONFIG Rev_main foreign_owner_state (new_Date (Some 2025) (Some 10) (Some 3) 9 0)
       (MOCK_resources ! 0) = Some (0, Registered)
   \<and> Register_Id (heap foreign_owner_state 0) = JNum 99
   \<and> cust_id CONFIG Rev_main foreign_owner_state = JNum 1
   \<and> (\<exists>reg. registeredSlot foreign_owner_state = Some reg \<and> truthy (reg_Appoitment_Id reg)
          \<and> strict_eq (reg_Appoitment_Id reg) (Appoitment_Id (heap foreign_owner_state 0)))"
proof -
  have cell: "render_cell CONFIG Rev_main foreign_owner_state
                (new_Date (Some 2025) (Some 10) (Some 3) 9 0) (MOCK_resources ! 0)
              = Some (0, Registered)"
    by code_simp
  have rest: "Register_Id (heap foreign_owner_state 0) = JNum 99"
    "cust_id CONFIG Rev_main foreign_owner_state = JNum 1"
    by code_simp+
  have reg: "registeredSlot foreign_owner_state = Some (registration_of example_state 0 (JStr ''1''))"
    "truthy (reg_Appoitment_Id (registration_of example_state 0 (JStr ''1'')))"
    "strict_eq (reg_Appoitment_Id (registration_of example_state 0 (JStr ''1'')))
       (Appoitment_Id (heap foreign_owner_state 0))"
    by code_simp+
  then have m: "\<exists>reg. registeredSlot foreign_owner_state = Some reg \<and> truthy (reg_Appoitment_Id reg)
          \<and> strict_eq (reg_Appoitment_Id reg) (Appoitment_Id (heap foreign_owner_state 0))"
    by blast
  from render_cell_class[OF cell] cell rest m show ?thesis
    by simp
qed

text \<open>
  The claim as the spec words it (a tracker whose appointment id equals the slot's always
  gives \<open>Registered\<close>) fails on the renderer's guard
  \<^verbatim>\<open>registeredSlot.Appoitment_Id &&\<close>: with the id 0 (or \<^verbatim>\<open>null\<close>) in
  both the tracker and the slot, the ids are strictly equal and the booked slot is drawn
  \<open>Booked\<close>.
\<close>

theorem render_cell_class_counterexample:
  "\<not> (\<forall>st dt r matched c.
        render_cell CONFIG Rev_main st dt r = Some (matched, c)
        \<longrightarrow> (\<exists>reg. registeredSlot st = Some reg
                   \<and> strict_eq (reg_Appoitment_Id reg) (Appoitment_Id (heap st matched)))
        \<longrightarrow> c = Registered)"
proof
  assume a: "\<forall>st dt r matched c.
        render_cell CONFIG Rev_main st dt r = Some (matched, c)
        \<longrightarrow> (\<exists>reg. registeredSlot st = Some reg
                   \<and> strict_eq (reg_Appoitment_Id reg) (Appoitment_Id (heap st matched)))
        \<longrightarrow> c = Registered"
  have cell: "render_cell CONFIG Rev_main (falsy_id_state (JNum 0))
                (new_Date (Some 2025) (Some 10) (Some 3) 10 0) (MOCK_resources ! 0)
              = Some (1, Booked)"
    by code_simp
  have reg: "registeredSlot (falsy_id_state (JNum 0))
               = Some \<lparr> reg_Appoitment_Id = JNum 0, reg_Resource_Id = JStr ''1'',
                        reg_TimeFrom = JStr ''2025-11-03T10:00:00'',
                        reg_TimeTo = JStr ''2025-11-03T10:30:00'' \<rparr>"
    by (simp add: falsy_id_state_def)
  have eq: "strict_eq (JNum 0) (Appoitment_Id (heap (falsy_id_state (JNum 0)) 1))"
    by (simp add: falsy_id_state_def update_slot_def booked_slot_def strict_eq_def)
  from a cell reg eq have "Booked = Registered" by fastforce
  then show False by simp
qed

lemma render_cell_null_id:
  "render_cell CONFIG Rev_main (falsy_id_state JNull)
     (new_Date (Some 2025) (Some 10) (Some 3) 10 0) (MOCK_resources ! 0) = Some (1, Booked)"
  by code_simp

section \<open>Appointment details\<close>

text \<open>
  Claim C10, as the code has it. With a slot object passed in,
  \<^verbatim>\<open>fetchAppointmentDetails\<close> returns that object and touches nothing: no lookup,
  no request, whatever the other arguments are. Without one it first searches the list
  that the Slot Repository stores under \<^verbatim>\<open>String(resourceId)\<close> for the
  appointment id and on a hit returns the stored object without any request. Only on a
  miss does it call \<^verbatim>\<open>fetchSlotsForResource\<close>, which on a failed fetch answers
  with the fixture list of the key, and from there on it raises nothing: it returns
  \<^verbatim>\<open>null\<close> when the answer so obtained is falsy or an empty list, the slot with
  the requested id when the answer is a list that has one, and the first slot when the
  answer is a list that is not empty and no id is requested. The search itself is outside
  the \<^verbatim>\<open>try\<close> block; what it does under the name of an inherited property is
  not part of the statement, nor is what comes back for an answer that is no list.
\<close>

theorem fetchAppointmentDetails_paths:
  "fetchAppointmentDetails cfg rv customerId dateStr resourceId appId (Some obj) rd outcome st
     = (st, Inr (Some obj))
   \<and> (\<forall>l found.
         slotsMap st (js_String resourceId) = Some l
         \<and> find (\<lambda>a. truthy appId \<and> truthy (Appoitment_Id (heap st a))
                      \<and> js_String (Appoitment_Id (heap st a)) = js_String appId) l = Some found
         \<longrightarrow>
         fetchAppointmentDetails cfg rv customerId dateStr resourceId appId None rd outcome st
           = (st, Inr (Some (Held found))))
   \<and> (slotsMap st ''__proto__'' = None
       \<and> (slotsMap st (js_String resourceId) = None
            \<and> js_String resourceId \<notin> set Object_prototype_names
          \<or> (\<exists>l. slotsMap st (js_String resourceId) = Some l
                 \<and> find (\<lambda>a. truthy appId \<and> truthy (Appoitment_Id (heap st a))
                              \<and> js_String (Appoitment_Id (heap st a)) = js_String appId) l
                     = None))
       \<longrightarrow>
        (\<exists>st1 arr res.
           fetchSlotsForResource cfg rv customerId dateStr resourceId outcome st = (st1, Inr arr)
           \<and> fetchAppointmentDetails cfg rv customerId dateStr resourceId appId None rd outcome st
               = (st1, Inr res)
           \<and> ((arr = Falsy \<or> arr = Arr []) \<longrightarrow> res = None)
           \<and> (\<forall>l f. arr = Arr l \<and> truthy appId
                  \<and> find (\<lambda>s. js_String (Appoitment_Id s) = js_String appId) l = Some f
                  \<longrightarrow> res = Some (Fetched f))
           \<and> (\<forall>x xs. arr = Arr (x # xs) \<and> \<not> truthy appId \<longrightarrow> res = Some (Fetched x))))"
proof -
  obtain st1 arr where f:
    "fetchSlotsForResource cfg rv customerId dateStr resourceId outcome st = (st1, Inr arr)"
    using fetchSlotsForResource_total by blast
  have some: "fetchAppointmentDetails cfg rv customerId dateStr resourceId appId (Some obj) rd outcome st
     = (st, Inr (Some obj))"
    by (simp add: fetchAppointmentDetails_def)
  have hit: "fetchAppointmentDetails cfg rv customerId dateStr resourceId appId None rd outcome st
           = (st, Inr (Some (Held found)))"
    if "slotsMap st (js_String resourceId) = Some l
        \<and> find (\<lambda>a. truthy appId \<and> truthy (Appoitment_Id (heap st a))
                     \<and> js_String (Appoitment_Id (heap st a)) = js_String appId) l = Some found"
    for l found
  proof -
    from that have "repository_find st resourceId appId = Inr (Some found)"
      by (simp add: repository_find_def repository_read_def)
    then show ?thesis by (simp add: fetchAppointmentDetails_def)
  qed
  have miss: "fetchAppointmentDetails cfg rv customerId dateStr resourceId appId None rd outcome st
      = (st1, Inr (case detail_from_list appId arr rd of Inl err \<Rightarrow> None | Inr res \<Rightarrow> res))"
    if "slotsMap st (js_String resourceId) = None
            \<and> js_String resourceId \<notin> set Object_prototype_names
          \<or> (\<exists>l. slotsMap st (js_String resourceId) = Some l
                 \<and> find (\<lambda>a. truthy appId \<and> truthy (Appoitment_Id (heap st a))
                              \<and> js_String (Appoitment_Id (heap st a)) = js_String appId) l
                     = None)"
  proof -
    from that have "repository_find st resourceId appId = Inr None"
      by (auto simp: repository_find_def repository_read_def)
    then show ?thesis by (simp add: fetchAppointmentDetails_def f split: sum.splits)
  qed
  have d1: "(case detail_from_list appId arr rd of Inl err \<Rightarrow> None | Inr res \<Rightarrow> res) = None"
    if "arr = Falsy \<or> arr = Arr []"
    using that by (auto simp: detail_from_list_def)
  have d2: "(case detail_from_list appId arr rd of Inl err \<Rightarrow> None | Inr res \<Rightarrow> res)
              = Some (Fetched f)"
    if "arr = Arr l" "truthy appId"
      "find (\<lambda>s. js_String (Appoitment_Id s) = js_String appId) l = Some f" for l f
    using that by (cases l) (simp_all add: detail_from_list_def)
  have d3: "(case detail_from_list appId arr rd of Inl err \<Rightarrow> None | Inr res \<Rightarrow> res)
              = Some (Fetched x)"
    if "arr = Arr (x # xs)" "\<not> truthy appId" for x xs
    using that by (simp add: detail_from_list_def)
  have third: "\<exists>st1 arr res.
           fetchSlotsForResource cfg rv customerId dateStr resourceId outcome st = (st1, Inr arr)
           \<and> fetchAppointmentDetails cfg rv customerId dateStr resourceId appId None rd outcome st
               = (st1, Inr res)
           \<and> ((arr = Falsy \<or> arr = Arr []) \<longrightarrow> res = None)
           \<and> (\<forall>l f. arr = Arr l \<and> truthy appId
                  \<and> find (\<lambda>s. js_String (Appoitment_Id s) = js_String appId) l = Some f
                  \<longrightarrow> res = Some (Fetched f))
           \<and> (\<forall>x xs. arr = Arr (x # xs) \<and> \<not> truthy appId \<longrightarrow> res = Some (Fetched x))"
    if "slotsMap st (js_String resourceId) = None
            \<and> js_String resourceId \<notin> set Object_prototype_names
          \<or> (\<exists>l. slotsMap st (js_String resourceId) = Some l
                 \<and> find (\<lambda>a. truthy appId \<and> truthy (Appoitment_Id (heap st a))
                              \<and> js_String (Appoitment_Id (heap st a)) = js_String appId) l
                     = None)"
    using f miss[OF that] d1 d2 d3 by blast
  show ?thesis
    using some hit third by blast
qed

theorem fetchAppointmentDetails_paths_witness:
  "fetchAppointmentDetails CONFIG Rev_main (JNum 1) ''2025-11-03'' (JStr ''1'') (JNum 7910) None
       \<lparr> length_zero = False, first_element = None \<rparr> Network_Error example_state
     = (example_state, Inr (Some (Held 1)))
   \<and> snd (fetchAppointmentDetails CONFIG Rev_main (JNum 1) ''2025-11-03'' (JStr ''3'') (JNum 7910)
            None \<lparr> length_zero = False, first_element = None \<rparr> Network_Error example_state)
       = Inr None
   \<and> snd (fetchAppointmentDetails CONFIG Rev_main (JNum 1) ''2025-11-03'' (JStr ''2'') (JNum 502)
            None \<lparr> length_zero = False, first_element = None \<rparr> (two_owned 0)
            (initial_state ''2025-11-03''))
       = Inr (Some (Fetched
           (mock_slot 502 ''2025-11-03T10:00:00'' ''2025-11-03T10:30:00'' 2 (JNum 1))))"
proof -
  let ?rd = "\<lparr> length_zero = False, first_element = None \<rparr>"
  have hit: "slotsMap example_state (js_String (JStr ''1'')) = Some [0, 1]
     \<and> find (\<lambda>a. truthy (JNum 7910) \<and> truthy (Appoitment_Id (heap example_state a))
                  \<and> js_String (Appoitment_Id (heap example_state a)) = js_String (JNum 7910))
          [0, 1] = Some 1"
    by (simp add: example_state_def initial_state_def
          example_heap_def mock_slot_def no_slot_def string_of_int_examples)
  have miss: "slotsMap example_state (js_String (JStr ''3'')) = None
     \<and> js_String (JStr ''3'') \<notin> set Object_prototype_names"
    by (simp add: example_state_def initial_state_def Object_prototype_names_def)
  have proto: "slotsMap example_state ''__proto__'' = None"
    by (simp add: example_state_def initial_state_def)
  have empty: "snd (fetchSlotsForResource CONFIG Rev_main (JNum 1) ''2025-11-03'' (JStr ''3'')
                 Network_Error example_state) = Inr (Arr [])"
    by (simp add: fetchSlotsForResource_def fetchSlots_receive_def fetchSlots_try_def
          apiGet_send_def apiGet_receive_def example_state_def initial_state_def
          mock_key_example mock_slots_or_empty_def MOCK_slots_def)
  have miss2: "slotsMap (initial_state ''2025-11-03'') (js_String (JStr ''2'')) = None
     \<and> js_String (JStr ''2'') \<notin> set Object_prototype_names"
    by (simp add: initial_state_def Object_prototype_names_def)
  have proto2: "slotsMap (initial_state ''2025-11-03'') ''__proto__'' = None"
    by (simp add: initial_state_def)
  have live: "snd (fetchSlotsForResource CONFIG Rev_main (JNum 1) ''2025-11-03'' (JStr ''2'')
                 (two_owned 0) (initial_state ''2025-11-03''))
      = Inr (Arr [mock_slot 501 ''2025-11-03T09:00:00'' ''2025-11-03T09:30:00'' 2 (JNum 1),
                  mock_slot 502 ''2025-11-03T10:00:00'' ''2025-11-03T10:30:00'' 2 (JNum 1)])"
    by (simp add: fetchSlotsForResource_def fetchSlots_receive_def fetchSlots_try_def
          apiGet_send_def apiGet_receive_def read_response_def ok_def initial_state_def
          two_owned_def strict_eq_def emit_def)
  have idstr: "js_String (JNum 501) \<noteq> js_String (JNum 502)"
    by (simp add: string_of_int_def string_of_nat.simps digit_char_def)
  have found: "find (\<lambda>s. js_String (Appoitment_Id s) = js_String (JNum 502))
           [mock_slot 501 ''2025-11-03T09:00:00'' ''2025-11-03T09:30:00'' 2 (JNum 1),
            mock_slot 502 ''2025-11-03T10:00:00'' ''2025-11-03T10:30:00'' 2 (JNum 1)]
         = Some (mock_slot 502 ''2025-11-03T10:00:00'' ''2025-11-03T10:30:00'' 2 (JNum 1))"
    using idstr by (simp add: mock_slot_def)
  have a: "fetchAppointmentDetails CONFIG Rev_main (JNum 1) ''2025-11-03'' (JStr ''1'') (JNum 7910)
       None ?rd Network_Error example_state = (example_state, Inr (Some (Held 1)))"
    using fetchAppointmentDetails_paths[of CONFIG Rev_main "JNum 1" "''2025-11-03''" "JStr ''1''"
        "JNum 7910" "Held 0" ?rd Network_Error example_state] hit
    by blast
  have b: "snd (fetchAppointmentDetails CONFIG Rev_main (JNum 1) ''2025-11-03'' (JStr ''3'')
            (JNum 7910) None ?rd Network_Error example_state) = Inr None"
    using fetchAppointmentDetails_paths[of CONFIG Rev_main "JNum 1" "''2025-11-03''" "JStr ''3''"
        "JNum 7910" "Held 0" ?rd Network_Error example_state] miss proto empty
    by auto
  have c: "snd (fetchAppointmentDetails CONFIG Rev_main (JNum 1) ''2025-11-03'' (JStr ''2'')
            (JNum 502) None ?rd (two_owned 0) (initial_state ''2025-11-03''))
       = Inr (Some (Fetched
           (mock_slot 502 ''2025-11-03T10:00:00'' ''2025-11-03T10:30:00'' 2 (JNum 1))))"
    using fetchAppointmentDetails_paths[of CONFIG Rev_main "JNum 1" "''2025-11-03''" "JStr ''2''"
        "JNum 502" "Held 0" ?rd "two_owned 0" "initial_state ''2025-11-03''"] miss2 proto2 live
      found
    by auto
  show ?thesis using a b c by blast
qed

text \<open>
  The claim as the spec words it (\<^verbatim>\<open>null\<close> whenever the fetch fails) does not
  hold: a failed fetch is absorbed by \<^verbatim>\<open>fetchSlotsForResource\<close>, and for a key
  of the fixture a slot comes back.
\<close>

theorem fetchAppointmentDetails_counterexample:
  "snd (fetchAppointmentDetails CONFIG Rev_main (JNum 1) ''2025-11-03'' (JStr ''1'') (JNum 7910)
          None \<lparr> length_zero = False, first_element = None \<rparr> Network_Error
          (initial_state ''2025-11-03''))
     = Inr (Some (Fetched
         (mock_slot 7910 ''2025-11-03T10:00:00'' ''2025-11-03T10:30:00'' 2 JUndefined)))"
proof -
  have r: "repository_find (initial_state ''2025-11-03'') (JStr ''1'') (JNum 7910) = Inr None"
    by (simp add: repository_find_def repository_read_def initial_state_def
          Object_prototype_names_def)
  have "snd (fetchSlotsForResource CONFIG Rev_main (JNum 1) ''2025-11-03'' (JStr ''1'')
          Network_Error (initial_state ''2025-11-03''))
        = Inr (Arr (mock_slots_or_empty CONFIG ''1|2025-11-03|1''))"
    by (simp add: fetchSlotsForResource_def fetchSlots_receive_def fetchSlots_try_def
          apiGet_send_def apiGet_receive_def read_response_def initial_state_def
          mock_key_example emit_def)
  then obtain st1 where f: "fetchSlotsForResource CONFIG Rev_main (JNum 1) ''2025-11-03'' (JStr ''1'')
          Network_Error (initial_state ''2025-11-03'')
        = (st1, Inr (Arr (mock_slots_or_empty CONFIG ''1|2025-11-03|1'')))"
    by (metis prod.collapse)
  show ?thesis
    by (simp add: fetchAppointmentDetails_def r f detail_from_list_def mock_slots_or_empty_def
          MOCK_slots_def mock_slot_def no_slot_def string_of_int_examples)
qed

text \<open>
  Two things that the statement above leaves open. Under the name of an inherited property
  the search raises a \<^verbatim>\<open>TypeError\<close> that nothing catches. And of an answer that
  is no list (here a body with neither \<^verbatim>\<open>result\<close> nor \<^verbatim>\<open>msg_en\<close>, as a
  JSON string is) the element \<^verbatim>\<open>0\<close> is returned when no id is requested, and
  \<^verbatim>\<open>null\<close> when one is, the \<^verbatim>\<open>TypeError\<close> of \<^verbatim>\<open>find\<close> being
  caught, or when its \<^verbatim>\<open>length\<close> is 0.
\<close>

lemma fetchAppointmentDetails_inherited_key:
  "fetchAppointmentDetails cfg rv customerId dateStr (JStr ''constructor'') appId None rd outcome
     (initial_state date) = (initial_state date, Inl Type_Error)"
  by (simp add: fetchAppointmentDetails_def repository_find_def repository_read_def
        initial_state_def Object_prototype_names_def)

lemma fetchAppointmentDetails_no_list:
  "snd (fetchAppointmentDetails CONFIG Rev_main (JNum 1) ''2025-11-03'' (JStr ''1'') JNull None
          \<lparr> length_zero = False, first_element = Some x \<rparr>
          (Response 200 (Some (Obj JUndefined JUndefined))) (initial_state ''2025-11-03''))
     = Inr (Some (Fetched x))"
  "snd (fetchAppointmentDetails CONFIG Rev_main (JNum 1) ''2025-11-03'' (JStr ''1'') (JNum 7910) None
          \<lparr> length_zero = False, first_element = Some x \<rparr>
          (Response 200 (Some (Obj JUndefined JUndefined))) (initial_state ''2025-11-03''))
     = Inr None"
  "snd (fetchAppointmentDetails CONFIG Rev_main (JNum 1) ''2025-11-03'' (JStr ''1'') JNull None
          \<lparr> length_zero = True, first_element = Some x \<rparr>
          (Response 200 (Some (Obj JUndefined JUndefined))) (initial_state ''2025-11-03''))
     = Inr None"
proof -
  have r: "repository_find (initial_state ''2025-11-03'') (JStr ''1'') a = Inr None" for a
    by (simp add: repository_find_def repository_read_def initial_state_def
          Object_prototype_names_def)
  have "snd (fetchSlotsForResource CONFIG Rev_main (JNum 1) ''2025-11-03'' (JStr ''1'')
          (Response 200 (Some (Obj JUndefined JUndefined))) (initial_state ''2025-11-03''))
        = Inr (Obj JUndefined JUndefined)"
    by (simp add: fetchSlotsForResource_def fetchSlots_receive_def fetchSlots_try_def
          apiGet_send_def apiGet_receive_def read_response_def ok_def initial_state_def
          strict_eq_def emit_def)
  then obtain st1 where f: "fetchSlotsForResource CONFIG Rev_main (JNum 1) ''2025-11-03'' (JStr ''1'')
          (Response 200 (Some (Obj JUndefined JUndefined))) (initial_state ''2025-11-03'')
        = (st1, Inr (Obj JUndefined JUndefined))"
    by (metis prod.collapse)
  show "snd (fetchAppointmentDetails CONFIG Rev_main (JNum 1) ''2025-11-03'' (JStr ''1'') JNull None
          \<lparr> length_zero = False, first_element = Some x \<rparr>
          (Response 200 (Some (Obj JUndefined JUndefined))) (initial_state ''2025-11-03''))
     = Inr (Some (Fetched x))"
    by (simp add: fetchAppointmentDetails_def r f detail_from_list_def)
  show "snd (fetchAppointmentDetails CONFIG Rev_main (JNum 1) ''2025-11-03'' (JStr ''1'') (JNum 7910) None
          \<lparr> length_zero = False, first_element = Some x \<rparr>
          (Response 200 (Some (Obj JUndefined JUndefined))) (initial_state ''2025-11-03''))
     = Inr None"
    by (simp add: fetchAppointmentDetails_def r f detail_from_list_def)
  show "snd (fetchAppointmentDetails CONFIG Rev_main (JNum 1) ''2025-11-03'' (JStr ''1'') JNull None
          \<lparr> length_zero = True, first_element = Some x \<rparr>
          (Response 200 (Some (Obj JUndefined JUndefined))) (initial_state ''2025-11-03''))
     = Inr None"
    by (simp add: fetchAppointmentDetails_def r f detail_from_list_def)
qed

section \<open>The editable view's submit\<close>

text \<open>
  Claim C1. When the submit sends the mutation (the shown slot has an appointment id) and
  the answer is a parsed body that is falsy or whose \<^verbatim>\<open>result\<close> is not
  "success" in any letter case, or the call throws (transport failure, status outside 2xx,
  body that does not parse), then the Slot Repository, the Registration Tracker and every
  slot object are exactly as before, and the last thing the user gets is an alert: in the
  first case "Update failed: " with the server's \<^verbatim>\<open>msg_en\<close> when that is truthy
  and a generic text otherwise, in the second case a generic notice.
\<close>

theorem updateBtn_click_failure:
  assumes "truthy (Appoitment_Id (heap st slotObj))"
  shows "(\<forall>status resp.
            outcome = Response status (Some resp) \<and> ok status
            \<and> \<not> (payload_truthy resp \<and> toLowerCase (js_String (payload_result resp)) = ''success'')
            \<longrightarrow> (\<exists>st'. updateBtn_click cfg slotObj onUpdated statusVal notesVal outcome st = Some st'
                   \<and> slotsMap st' = slotsMap st \<and> registeredSlot st' = registeredSlot st
                   \<and> heap st' = heap st
                   \<and> last (trace st')
                       = Alert (''Update failed: ''
                                @ (if payload_truthy resp \<and> truthy (payload_msg_en resp)
                                   then js_String (payload_msg_en resp)
                                   else ''Unknown response from server''))))
       \<and> ((outcome = Network_Error
            \<or> (\<exists>status body. outcome = Response status body \<and> \<not> ok status)
            \<or> (\<exists>status. outcome = Response status None))
           \<longrightarrow> (\<exists>st'. updateBtn_click cfg slotObj onUpdated statusVal notesVal outcome st = Some st'
                   \<and> slotsMap st' = slotsMap st \<and> registeredSlot st' = registeredSlot st
                   \<and> heap st' = heap st
                   \<and> last (trace st')
                       = Alert ''Failed to send update. See console for details (CORS/SSL issues possible).''))"
  using assms
  by (auto simp: updateBtn_click_def updateAppointmentAPI_def apiPostJson_def read_response_def
        alert_def setStatus_def emit_def)

theorem updateBtn_click_failure_witness:
  "\<exists>st'. updateBtn_click CONFIG 2 None ''2'' ''confirmed''
            (Response 200 (Some (Obj (JStr ''failed'') (JStr ''slot taken'')))) example_state = Some st'
         \<and> slotsMap st' = slotsMap example_state
         \<and> registeredSlot st' = registeredSlot example_state
         \<and> heap st' = heap example_state
         \<and> last (trace st') = Alert ''Update failed: slot taken''"
proof -
  have id: "truthy (Appoitment_Id (heap example_state 2))"
    by (simp add: example_state_def example_heap_def mock_slot_def)
  have lower: "toLowerCase ''failed'' \<noteq> ''success''"
    by (simp add: toLowerCase_def lower_char_def)
  show ?thesis
    using updateBtn_click_failure[OF id, of "Response 200 (Some (Obj (JStr ''failed'') (JStr ''slot taken'')))"
        CONFIG None "''2''" "''confirmed''"] lower
    by (simp add: ok_def)
qed

text \<open>
  The two searches by appointment id read nothing of the state but \<^verbatim>\<open>slotsMap\<close>
  and the ids of the stored slots.
\<close>

lemma previous_slot_cong:
  assumes "slotsMap st' = slotsMap st"
    and "\<And>a. Appoitment_Id (heap st' a) = Appoitment_Id (heap st a)"
  shows "previous_slot st' old = previous_slot st old"
  using assms by (simp add: previous_slot_def slots_of_def cong: find_cong split: option.splits)

lemma repository_slot_cong:
  assumes "slotsMap st' = slotsMap st"
    and "\<And>a. Appoitment_Id (heap st' a) = Appoitment_Id (heap st a)"
    and "Appoitment_Id s' = Appoitment_Id s" "Resource_Id s' = Resource_Id s"
      "ResourceId s' = ResourceId s"
  shows "repository_slot st' s' = repository_slot st s"
  using assms
  by (simp add: repository_slot_def repository_read_def Let_def cong: find_cong
        split: option.splits)

text \<open>Under keys that are no inherited names the look-up of the submit raises nothing.\<close>

lemma repository_slot_plain:
  assumes "js_String (Resource_Id s) \<notin> set Object_prototype_names"
    and "js_String (ResourceId s) \<notin> set Object_prototype_names"
  shows "repository_slot st s
           = Inr (find (\<lambda>a. js_String (Appoitment_Id (heap st a)) = js_String (Appoitment_Id s))
                    (case slotsMap st (js_String (Resource_Id s)) of
                       Some l \<Rightarrow> l
                     | None \<Rightarrow> (case slotsMap st (js_String (ResourceId s)) of
                                  Some l \<Rightarrow> l | None \<Rightarrow> [])))"
  using assms by (simp add: repository_slot_def repository_read_def Let_def split: option.splits)

lemma previous_slot_id:
  assumes "previous_slot st (Some old) = Some prev"
  shows "strict_eq (Appoitment_Id (heap st prev)) (reg_Appoitment_Id old)"
  using assms by (auto simp: previous_slot_def find_Some_iff split: if_splits)

lemma apply_update_fields:
  "Appoitment_Id (apply_update sv nv s) = Appoitment_Id s"
  "Resource_Id (apply_update sv nv s) = Resource_Id s"
  "ResourceId (apply_update sv nv s) = ResourceId s"
  "TimeFrom (apply_update sv nv s) = TimeFrom s"
  "TimeTo (apply_update sv nv s) = TimeTo s"
  "Status (apply_update sv nv s) = js_Number (JStr sv)"
  "Description_En (apply_update sv nv s) = JStr (status_label sv)"
  "Notes (apply_update sv nv s) = JStr nv"
  "Description_Ar (apply_update sv nv s) = JStr nv"
  "Register_Id (apply_update sv nv s) = Register_Id s"
  by (simp_all add: apply_update_def)

lemma persist_update_frame:
  assumes "persist_update a st = Inr t"
  shows "slotsMap t = slotsMap st" "registeredSlot t = registeredSlot st"
    "datePicker t = datePicker st" "today t = today st" "trace t = trace st"
    "resources t = resources st"
  using assms
  by (auto simp: persist_update_def update_slot_def Let_def split: sum.splits option.splits)

lemma persist_update_heap:
  assumes "persist_update slotObj st = Inr t"
  shows "heap t a
     = (if repository_slot st (heap st slotObj) = Inr (Some a)
        then (heap st a)\<lparr> Status := Status (heap st slotObj),
                           Description_En := Description_En (heap st slotObj),
                           Description_Ar := Description_Ar (heap st slotObj),
                           Notes := Notes (heap st slotObj) \<rparr>
        else heap st a)"
  using assms
  by (auto simp: persist_update_def update_slot_def Let_def split: sum.splits option.splits)

lemma persist_update_plain:
  assumes "js_String (Resource_Id (heap st slotObj)) \<notin> set Object_prototype_names"
    and "js_String (ResourceId (heap st slotObj)) \<notin> set Object_prototype_names"
  shows "\<exists>t. persist_update slotObj st = Inr t"
  by (simp add: persist_update_def Let_def repository_slot_plain[OF assms] split: option.splits)

text \<open>The success branch up to the callback, as one state.\<close>

lemma update_succeeded_no_callback:
  assumes "0 < SLOT_DURATION_MIN cfg"
    and "persist_update slotObj (update_slot slotObj (apply_update sv nv) st) = Inr t2"
  shows "\<exists>st'. update_succeeded cfg slotObj None sv nv st = Some st'
     \<and> slotsMap st' = slotsMap st \<and> registeredSlot st' = registeredSlot st
     \<and> datePicker st' = datePicker st \<and> today st' = today st
     \<and> resources st' = resources st
     \<and> heap st' = heap t2
     \<and> trace st' = trace st @
          [Set_Status (''Update saved '' @ em_dash @ '' server responded success.'') False,
           Render_Grid (current_date st), grid_status st, Alert ''Update successful.'',
           Set_Status ''Loading resources...'' False,
           Http_Get (resources_path (js_Number (JNum (CUSTOMER_ID cfg))))]"
proof -
  define t1 where "t1 = update_slot slotObj (apply_update sv nv) st"
  define t3 where "t3 = closeViewModal
      (setStatus (''Update saved '' @ em_dash @ '' server responded success.'') False t2)"
  have p: "persist_update slotObj t1 = Inr t2" using assms(2) by (simp add: t1_def)
  have t1: "slotsMap t1 = slotsMap st" "registeredSlot t1 = registeredSlot st"
    "datePicker t1 = datePicker st" "today t1 = today st" "trace t1 = trace st"
    "resources t1 = resources st"
    by (simp_all add: t1_def update_slot_def)
  have t2: "slotsMap t2 = slotsMap st" "registeredSlot t2 = registeredSlot st"
    "datePicker t2 = datePicker st" "today t2 = today st" "trace t2 = trace st"
    "resources t2 = resources st"
    using persist_update_frame[OF p] by (simp_all add: t1)
  have t3: "slotsMap t3 = slotsMap st" "registeredSlot t3 = registeredSlot st"
    "datePicker t3 = datePicker st" "today t3 = today st" "heap t3 = heap t2"
    "resources t3 = resources st"
    "trace t3 = trace st @ [Set_Status (''Update saved '' @ em_dash @ '' server responded success.'') False]"
    by (simp_all add: t3_def closeViewModal_def setStatus_def emit_def t2)
  have cd: "current_date t3 = current_date st" by (simp add: current_date_def t3)
  have gs: "grid_status t3 = grid_status st" by (simp add: grid_status_def t3)
  show ?thesis
    unfolding update_succeeded_def Let_def t1_def[symmetric] p sum.case t3_def[symmetric]
      renderGrid_run_eq[OF assms(1)] cd gs
    by (simp add: gridLoaderCaller_begin_def loadAndRender_begin_def apiGet_send_def
          alert_def setStatus_def emit_def t3)
qed

lemma update_succeeded_callback:
  "update_succeeded cfg slotObj (Some c) sv nv st
     = (case persist_update slotObj (update_slot slotObj (apply_update sv nv) st) of
          Inl err \<Rightarrow> update_succeeded cfg slotObj None sv nv st
        | Inr t2 \<Rightarrow>
            (case update_succeeded cfg slotObj None sv nv st of
               None \<Rightarrow> None
             | Some st5 \<Rightarrow> onUpdated_callback cfg c slotObj st5))"
  by (simp add: update_succeeded_def Let_def split: option.splits sum.splits)

lemma unregister_previous_frame:
  "slotsMap (unregister_previous old st) = slotsMap st"
  "registeredSlot (unregister_previous old st) = registeredSlot st"
  "datePicker (unregister_previous old st) = datePicker st"
  "today (unregister_previous old st) = today st"
  "resources (unregister_previous old st) = resources st"
  "trace (unregister_previous old st) = trace st"
  by (simp_all add: unregister_previous_def update_slot_def split: option.splits)

lemma unregister_previous_heap:
  "heap (unregister_previous old st) a
     = (if previous_slot st old = Some a then (heap st a)\<lparr>Register_Id := JUndefined\<rparr>
        else heap st a)"
  by (simp add: unregister_previous_def update_slot_def split: option.splits)

lemma onUpdated_callback_eq:
  assumes "0 < SLOT_DURATION_MIN cfg"
  shows "\<exists>st'. onUpdated_callback cfg c u st = Some st'
     \<and> slotsMap st' = slotsMap st
     \<and> heap st' = (heap (unregister_previous (ctx_old c) st))
                     (u := (heap (unregister_previous (ctx_old c) st) u)
                             \<lparr>Register_Id := ctx_customerId c\<rparr>)
     \<and> registeredSlot st' = Some
          \<lparr> reg_Appoitment_Id = Appoitment_Id (heap (unregister_previous (ctx_old c) st) u),
            reg_Resource_Id = ID (ctx_resource c),
            reg_TimeFrom = TimeFrom (heap (unregister_previous (ctx_old c) st) u),
            reg_TimeTo = TimeTo (heap (unregister_previous (ctx_old c) st) u) \<rparr>
     \<and> trace st' = trace st @ [Render_Grid (current_date st), grid_status st]"
  unfolding onUpdated_callback_def Let_def renderGrid_run_eq[OF assms]
  by (simp add: update_slot_def unregister_previous_frame current_date_def grid_status_def)

text \<open>The slot objects after the two writes of the success branch.\<close>

lemma updated_heap:
  assumes "persist_update slotObj (update_slot slotObj (apply_update sv nv) st) = Inr t2"
  shows "Appoitment_Id (heap t2 a) = Appoitment_Id (heap st a)"
    and "TimeFrom (heap t2 a) = TimeFrom (heap st a)"
    and "TimeTo (heap t2 a) = TimeTo (heap st a)"
    and "Register_Id (heap t2 a) = Register_Id (heap st a)"
    and "Status (heap t2 slotObj) = js_Number (JStr sv)"
    and "Description_En (heap t2 slotObj) = JStr (status_label sv)"
    and "Notes (heap t2 slotObj) = JStr nv"
    and "repository_slot st (heap st slotObj) = Inr (Some a) \<Longrightarrow>
           Status (heap t2 a) = js_Number (JStr sv)
           \<and> Description_En (heap t2 a) = JStr (status_label sv)
           \<and> Notes (heap t2 a) = JStr nv"
    and "repository_slot st (heap st slotObj) \<noteq> Inr (Some a) \<Longrightarrow> a \<noteq> slotObj \<Longrightarrow>
           heap t2 a = heap st a"
    and "slotsMap t2 = slotsMap st"
proof -
  define t1 where "t1 = update_slot slotObj (apply_update sv nv) st"
  have t1: "heap t1 = (heap st)(slotObj := apply_update sv nv (heap st slotObj))"
    "slotsMap t1 = slotsMap st"
    by (simp_all add: t1_def update_slot_def)
  have rs: "repository_slot t1 (heap t1 slotObj) = repository_slot st (heap st slotObj)"
    by (rule repository_slot_cong) (simp_all add: t1 apply_update_fields)
  then have rs': "repository_slot t1 (apply_update sv nv (heap st slotObj))
                    = repository_slot st (heap st slotObj)"
    by (simp add: t1)
  have p: "persist_update slotObj t1 = Inr t2" using assms by (simp add: t1_def)
  note h = persist_update_heap[OF p, unfolded rs]
  show "Appoitment_Id (heap t2 a) = Appoitment_Id (heap st a)"
    and "TimeFrom (heap t2 a) = TimeFrom (heap st a)"
    and "TimeTo (heap t2 a) = TimeTo (heap st a)"
    and "Register_Id (heap t2 a) = Register_Id (heap st a)"
    and "Status (heap t2 slotObj) = js_Number (JStr sv)"
    and "Description_En (heap t2 slotObj) = JStr (status_label sv)"
    and "Notes (heap t2 slotObj) = JStr nv"
    and "repository_slot st (heap st slotObj) = Inr (Some a) \<Longrightarrow>
           Status (heap t2 a) = js_Number (JStr sv)
           \<and> Description_En (heap t2 a) = JStr (status_label sv)
           \<and> Notes (heap t2 a) = JStr nv"
    and "repository_slot st (heap st slotObj) \<noteq> Inr (Some a) \<Longrightarrow> a \<noteq> slotObj \<Longrightarrow>
           heap t2 a = heap st a"
    and "slotsMap t2 = slotsMap st"
    using persist_update_frame(1)[OF p]
    by (simp_all add: h t1 apply_update_fields apply_update_def)
qed

text \<open>
  Claim C2, as the code has it. When the submit's answer is a truthy body whose
  \<^verbatim>\<open>result\<close> is "success" in any letter case, the handler returns (the step of
  the grid being positive) and afterwards the shown slot object has the submitted status
  (\<^verbatim>\<open>Number(statusVal)\<close>), the label Pending/Accepted/Rejected that belongs to it,
  and the submitted notes. So has the slot that the handler finds in the Slot Repository:
  the first one with the same appointment id (compared as strings) in the list stored
  under the shown slot's \<^verbatim>\<open>Resource_Id\<close>, or under its
  \<^verbatim>\<open>ResourceId\<close> when nothing is stored under the former. No other slot
  object gets new values of these three properties, whatever its appointment id. A grid
  render is among the handler's effects. If the view came from the update dialog (the
  callback of that dialog's \<open>ctx\<close> is installed, and the dialog was opened on a slot
  other than the registered one, as \<^verbatim>\<open>onSlotClick\<close> ensures), then moreover the
  previous registration's slot has no \<^verbatim>\<open>Register_Id\<close>, the tracker holds the
  new slot's appointment id and times with the clicked resource's id, the new slot names
  the customer, and the last effect of the handler is a render of the grid. The keys under
  which the repository is read are supposed not to be names of inherited properties, and
  no list to be stored under \<^verbatim>\<open>__proto__\<close>.
\<close>

theorem updateBtn_click_success:
  assumes id: "truthy (Appoitment_Id (heap st slotObj))"
    and resp: "outcome = Response status (Some resp)" "ok status" "payload_truthy resp"
      "toLowerCase (js_String (payload_result resp)) = ''success''"
    and step: "0 < SLOT_DURATION_MIN cfg"
    and flow: "\<forall>c old. onUpdated = Some c \<and> ctx_old c = Some old
                 \<longrightarrow> \<not> strict_eq (reg_Appoitment_Id old) (Appoitment_Id (heap st slotObj))"
    and proto: "slotsMap st ''__proto__'' = None"
    and keys: "\<forall>k \<in> set (keys_read st slotObj onUpdated). k \<notin> set Object_prototype_names"
  shows "\<exists>st'. updateBtn_click cfg slotObj onUpdated statusVal notesVal outcome st = Some st'
     \<and> (\<forall>a. a = slotObj
             \<or> (\<exists>l. (slotsMap st (js_String (Resource_Id (heap st slotObj))) = Some l
                      \<or> slotsMap st (js_String (Resource_Id (heap st slotObj))) = None
                        \<and> slotsMap st (js_String (ResourceId (heap st slotObj))) = Some l)
                    \<and> find (\<lambda>b. js_String (Appoitment_Id (heap st b))
                                    = js_String (Appoitment_Id (heap st slotObj))) l = Some a)
          \<longrightarrow>
            Status (heap st' a) = js_Number (JStr statusVal)
          \<and> Description_En (heap st' a)
              = JStr (if statusVal = ''2'' then ''Accepted''
                      else if statusVal = ''3'' then ''Rejected'' else ''Pending'')
          \<and> Notes (heap st' a) = JStr notesVal)
     \<and> (\<forall>a. a \<noteq> slotObj
             \<and> \<not> (\<exists>l. (slotsMap st (js_String (Resource_Id (heap st slotObj))) = Some l
                        \<or> slotsMap st (js_String (Resource_Id (heap st slotObj))) = None
                          \<and> slotsMap st (js_String (ResourceId (heap st slotObj))) = Some l)
                      \<and> find (\<lambda>b. js_String (Appoitment_Id (heap st b))
                                      = js_String (Appoitment_Id (heap st slotObj))) l = Some a)
          \<longrightarrow>
            Status (heap st' a) = Status (heap st a)
          \<and> Description_En (heap st' a) = Description_En (heap st a)
          \<and> Notes (heap st' a) = Notes (heap st a))
     \<and> slotsMap st' = slotsMap st
     \<and> (\<exists>before. trace st' = trace st @ before \<and> Render_Grid (current_date st) \<in> set before)
     \<and> (onUpdated = None \<longrightarrow> registeredSlot st' = registeredSlot st)
     \<and> (\<forall>c. onUpdated = Some c \<longrightarrow>
          (\<forall>old l prev. ctx_old c = Some old \<and> truthy (reg_Appoitment_Id old)
                    \<and> slotsMap st (js_String (reg_Resource_Id old)) = Some l
                    \<and> find (\<lambda>b. strict_eq (Appoitment_Id (heap st b)) (reg_Appoitment_Id old)) l
                        = Some prev
                    \<longrightarrow> Register_Id (heap st' prev) = JUndefined)
          \<and> registeredSlot st' = Some
               \<lparr> reg_Appoitment_Id = Appoitment_Id (heap st slotObj),
                 reg_Resource_Id = ID (ctx_resource c),
                 reg_TimeFrom = TimeFrom (heap st slotObj),
                 reg_TimeTo = TimeTo (heap st slotObj) \<rparr>
          \<and> Register_Id (heap st' slotObj) = ctx_customerId c
          \<and> (\<exists>before. trace st' = trace st @ before
                           @ [Render_Grid (current_date st), grid_status st']))"
proof -
  define post where "post = Http_Post UPDATE_ENDPOINT
      \<lparr> body_Appointment_Id = js_String (Appoitment_Id (heap st slotObj)),
        body_Notes = js_nullish (JStr notesVal) (JStr ''''),
        body_Status = js_String (js_nullish (JStr statusVal) (JStr '''')) \<rparr>"
  define s1 where "s1 = emit post ((setStatus ''Sending update to server...'' False st)\<lparr>MODE := ''live''\<rparr>)"
  have s1: "heap s1 = heap st" "slotsMap s1 = slotsMap st" "registeredSlot s1 = registeredSlot st"
    "datePicker s1 = datePicker st" "today s1 = today st" "resources s1 = resources st"
    "trace s1 = trace st @ [Set_Status ''Sending update to server...'' False, post]"
    by (simp_all add: s1_def emit_def setStatus_def)
  have cd1: "current_date s1 = current_date st" by (simp add: current_date_def s1)
  have gs1: "grid_status s1 = grid_status st" by (simp add: grid_status_def s1)
  have rs1: "repository_slot s1 s = repository_slot st s" for s
    by (rule repository_slot_cong) (simp_all add: s1)
  have k: "js_String (Resource_Id (heap st slotObj)) \<notin> set Object_prototype_names"
    "js_String (ResourceId (heap st slotObj)) \<notin> set Object_prototype_names"
    using keys by (simp_all add: keys_read_def)
  have found: "repository_slot st (heap st slotObj) = Inr (Some a)"
    if "(slotsMap st (js_String (Resource_Id (heap st slotObj))) = Some l
         \<or> slotsMap st (js_String (Resource_Id (heap st slotObj))) = None
           \<and> slotsMap st (js_String (ResourceId (heap st slotObj))) = Some l)
        \<and> find (\<lambda>b. js_String (Appoitment_Id (heap st b))
                        = js_String (Appoitment_Id (heap st slotObj))) l = Some a" for l a
    using that by (auto simp: repository_slot_plain[OF k])
  have missed: "repository_slot st (heap st slotObj) \<noteq> Inr (Some a)"
    if "\<not> (\<exists>l. (slotsMap st (js_String (Resource_Id (heap st slotObj))) = Some l
                  \<or> slotsMap st (js_String (Resource_Id (heap st slotObj))) = None
                    \<and> slotsMap st (js_String (ResourceId (heap st slotObj))) = Some l)
                \<and> find (\<lambda>b. js_String (Appoitment_Id (heap st b))
                                = js_String (Appoitment_Id (heap st slotObj))) l = Some a)" for a
    using that by (auto simp: repository_slot_plain[OF k] split: option.splits)
  have run: "updateBtn_click cfg slotObj onUpdated statusVal notesVal outcome st
               = update_succeeded cfg slotObj onUpdated statusVal notesVal s1"
    using id resp
    by (simp add: updateBtn_click_def updateAppointmentAPI_def apiPostJson_def read_response_def
          s1_def post_def)
  have "\<exists>t. persist_update slotObj (update_slot slotObj (apply_update statusVal notesVal) s1) = Inr t"
    by (rule persist_update_plain) (simp_all add: update_slot_def s1 apply_update_fields k)
  then obtain t2 where
    p: "persist_update slotObj (update_slot slotObj (apply_update statusVal notesVal) s1) = Inr t2"
    by blast
  from update_succeeded_no_callback[OF step p]
  obtain t5 where t5: "update_succeeded cfg slotObj None statusVal notesVal s1 = Some t5"
    "slotsMap t5 = slotsMap st" "registeredSlot t5 = registeredSlot st"
    "datePicker t5 = datePicker st" "today t5 = today st" "resources t5 = resources st"
    "heap t5 = heap t2"
    "trace t5 = trace st @
          [Set_Status ''Sending update to server...'' False, post,
           Set_Status (''Update saved '' @ em_dash @ '' server responded success.'') False,
           Render_Grid (current_date st), grid_status st, Alert ''Update successful.'',
           Set_Status ''Loading resources...'' False,
           Http_Get (resources_path (js_Number (JNum (CUSTOMER_ID cfg))))]"
    by (auto simp: s1 cd1 gs1)
  note uh = updated_heap[OF p, unfolded s1 rs1]
  have fields5: "Status (heap t5 a) = js_Number (JStr statusVal)
          \<and> Description_En (heap t5 a) = JStr (status_label statusVal)
          \<and> Notes (heap t5 a) = JStr notesVal"
    if "a = slotObj \<or> repository_slot st (heap st slotObj) = Inr (Some a)" for a
    using that uh(5,6,7,8) by (auto simp: t5(7))
  have frame5: "heap t5 a = heap st a"
    if "a \<noteq> slotObj"
      "\<not> (\<exists>l. (slotsMap st (js_String (Resource_Id (heap st slotObj))) = Some l
                  \<or> slotsMap st (js_String (Resource_Id (heap st slotObj))) = None
                    \<and> slotsMap st (js_String (ResourceId (heap st slotObj))) = Some l)
                \<and> find (\<lambda>b. js_String (Appoitment_Id (heap st b))
                                = js_String (Appoitment_Id (heap st slotObj))) l = Some a)" for a
    using uh(9)[OF missed[OF that(2)] that(1)] by (simp add: t5(7))
  have ids5: "Appoitment_Id (heap t5 a) = Appoitment_Id (heap st a)"
    "TimeFrom (heap t5 a) = TimeFrom (heap st a)" "TimeTo (heap t5 a) = TimeTo (heap st a)" for a
    using uh(1,2,3) by (simp_all add: t5(7))
  have cd5: "current_date t5 = current_date st" by (simp add: current_date_def t5)
  have gs5: "grid_status t5 = grid_status st" by (simp add: grid_status_def t5)
  show ?thesis
  proof (cases onUpdated)
    case None
    have "Render_Grid (current_date st) \<in> set
          [Set_Status ''Sending update to server...'' False, post,
           Set_Status (''Update saved '' @ em_dash @ '' server responded success.'') False,
           Render_Grid (current_date st), grid_status st, Alert ''Update successful.'',
           Set_Status ''Loading resources...'' False,
           Http_Get (resources_path (js_Number (JNum (CUSTOMER_ID cfg))))]"
      by simp
    with t5(8) have tr: "\<exists>before. trace t5 = trace st @ before \<and> Render_Grid (current_date st) \<in> set before"
      by blast
    have result: "updateBtn_click cfg slotObj onUpdated statusVal notesVal outcome st = Some t5"
      using run by (simp add: None t5(1))
    have f: "Status (heap t5 a) = js_Number (JStr statusVal)
          \<and> Description_En (heap t5 a)
              = JStr (if statusVal = ''2'' then ''Accepted''
                      else if statusVal = ''3'' then ''Rejected'' else ''Pending'')
          \<and> Notes (heap t5 a) = JStr notesVal"
      if "a = slotObj
             \<or> (\<exists>l. (slotsMap st (js_String (Resource_Id (heap st slotObj))) = Some l
                      \<or> slotsMap st (js_String (Resource_Id (heap st slotObj))) = None
                        \<and> slotsMap st (js_String (ResourceId (heap st slotObj))) = Some l)
                    \<and> find (\<lambda>b. js_String (Appoitment_Id (heap st b))
                                    = js_String (Appoitment_Id (heap st slotObj))) l = Some a)" for a
    proof -
      from that have "a = slotObj \<or> repository_slot st (heap st slotObj) = Inr (Some a)"
        using found by blast
      from fields5[OF this] show ?thesis by (simp add: status_label_def)
    qed
    have fr: "\<forall>a. a \<noteq> slotObj
             \<and> \<not> (\<exists>l. (slotsMap st (js_String (Resource_Id (heap st slotObj))) = Some l
                        \<or> slotsMap st (js_String (Resource_Id (heap st slotObj))) = None
                          \<and> slotsMap st (js_String (ResourceId (heap st slotObj))) = Some l)
                      \<and> find (\<lambda>b. js_String (Appoitment_Id (heap st b))
                                      = js_String (Appoitment_Id (heap st slotObj))) l = Some a)
          \<longrightarrow>
            Status (heap t5 a) = Status (heap st a)
          \<and> Description_En (heap t5 a) = Description_En (heap st a)
          \<and> Notes (heap t5 a) = Notes (heap st a)"
      using frame5 by simp
    have nn: "onUpdated = None \<longrightarrow> registeredSlot t5 = registeredSlot st"
      by (simp add: t5(3))
    have cb: "\<forall>c. onUpdated = Some c \<longrightarrow>
          (\<forall>old l prev. ctx_old c = Some old \<and> truthy (reg_Appoitment_Id old)
                    \<and> slotsMap st (js_String (reg_Resource_Id old)) = Some l
                    \<and> find (\<lambda>b. strict_eq (Appoitment_Id (heap st b)) (reg_Appoitment_Id old)) l
                        = Some prev
                    \<longrightarrow> Register_Id (heap t5 prev) = JUndefined)
          \<and> registeredSlot t5 = Some
               \<lparr> reg_Appoitment_Id = Appoitment_Id (heap st slotObj),
                 reg_Resource_Id = ID (ctx_resource c),
                 reg_TimeFrom = TimeFrom (heap st slotObj),
                 reg_TimeTo = TimeTo (heap st slotObj) \<rparr>
          \<and> Register_Id (heap t5 slotObj) = ctx_customerId c
          \<and> (\<exists>before. trace t5 = trace st @ before
                           @ [Render_Grid (current_date st), grid_status t5])"
      by (simp add: None)
    show ?thesis
      using result f fr t5(2) tr nn cb by blast
  next
    case (Some c)
    let ?u1 = "unregister_previous (ctx_old c) t5"
    from onUpdated_callback_eq[OF step, of c slotObj t5]
    obtain st' where st': "onUpdated_callback cfg c slotObj t5 = Some st'"
      "slotsMap st' = slotsMap t5"
      "heap st' = (heap ?u1)(slotObj := (heap ?u1 slotObj)\<lparr>Register_Id := ctx_customerId c\<rparr>)"
      "registeredSlot st' = Some
          \<lparr> reg_Appoitment_Id = Appoitment_Id (heap ?u1 slotObj),
            reg_Resource_Id = ID (ctx_resource c),
            reg_TimeFrom = TimeFrom (heap ?u1 slotObj),
            reg_TimeTo = TimeTo (heap ?u1 slotObj) \<rparr>"
      "trace st' = trace t5 @ [Render_Grid (current_date t5), grid_status t5]"
      by blast
    have res': "resources st' = resources st"
      using st'(1) step
      by (auto simp: onUpdated_callback_def Let_def renderGrid_run_eq update_slot_def
            unregister_previous_frame t5(6))
    have gs': "grid_status st' = grid_status st" by (simp add: grid_status_def res')
    have result: "updateBtn_click cfg slotObj onUpdated statusVal notesVal outcome st = Some st'"
      using run by (simp add: Some update_succeeded_callback p t5(1) st'(1))
    have prev_eq: "previous_slot t5 (ctx_old c) = previous_slot st (ctx_old c)"
      by (rule previous_slot_cong) (simp_all add: t5(2) ids5)
    have prev_ne: "prev \<noteq> slotObj" if "previous_slot st (ctx_old c) = Some prev" for prev
    proof
      assume e: "prev = slotObj"
      from that obtain old where old: "ctx_old c = Some old"
        by (cases "ctx_old c") (simp_all add: previous_slot_def)
      from that prev_eq have "previous_slot t5 (Some old) = Some prev" by (simp add: old)
      from previous_slot_id[OF this]
      have "strict_eq (Appoitment_Id (heap st slotObj)) (reg_Appoitment_Id old)"
        by (simp add: e ids5)
      then have "strict_eq (reg_Appoitment_Id old) (Appoitment_Id (heap st slotObj))"
        by (auto simp: strict_eq_def)
      with flow Some old show False by blast
    qed
    have u1: "heap ?u1 a = (if previous_slot st (ctx_old c) = Some a
                            then (heap t5 a)\<lparr>Register_Id := JUndefined\<rparr> else heap t5 a)" for a
      by (simp add: unregister_previous_heap prev_eq)
    have fields': "Status (heap st' a) = js_Number (JStr statusVal)
          \<and> Description_En (heap st' a)
              = JStr (if statusVal = ''2'' then ''Accepted''
                      else if statusVal = ''3'' then ''Rejected'' else ''Pending'')
          \<and> Notes (heap st' a) = JStr notesVal"
      if "a = slotObj
             \<or> (\<exists>l. (slotsMap st (js_String (Resource_Id (heap st slotObj))) = Some l
                      \<or> slotsMap st (js_String (Resource_Id (heap st slotObj))) = None
                        \<and> slotsMap st (js_String (ResourceId (heap st slotObj))) = Some l)
                    \<and> find (\<lambda>b. js_String (Appoitment_Id (heap st b))
                                    = js_String (Appoitment_Id (heap st slotObj))) l = Some a)" for a
    proof -
      from that have "a = slotObj \<or> repository_slot st (heap st slotObj) = Inr (Some a)"
        using found by blast
      from fields5[OF this] fields5[of slotObj] show ?thesis
        by (simp add: st'(3) u1 status_label_def)
    qed
    have unreg: "Register_Id (heap st' prev) = JUndefined"
      if "ctx_old c = Some old \<and> truthy (reg_Appoitment_Id old)
            \<and> slotsMap st (js_String (reg_Resource_Id old)) = Some l
            \<and> find (\<lambda>b. strict_eq (Appoitment_Id (heap st b)) (reg_Appoitment_Id old)) l = Some prev"
      for old l prev
    proof -
      from that have ps: "previous_slot st (ctx_old c) = Some prev"
        by (simp add: previous_slot_def slots_of_def)
      from prev_ne[OF ps] ps show ?thesis by (simp add: st'(3) u1)
    qed
    have reg: "registeredSlot st' = Some
               \<lparr> reg_Appoitment_Id = Appoitment_Id (heap st slotObj),
                 reg_Resource_Id = ID (ctx_resource c),
                 reg_TimeFrom = TimeFrom (heap st slotObj),
                 reg_TimeTo = TimeTo (heap st slotObj) \<rparr>"
      by (simp add: st'(4) u1 ids5)
    have owner: "Register_Id (heap st' slotObj) = ctx_customerId c"
      by (simp add: st'(3))
    define before where "before =
          [Set_Status ''Sending update to server...'' False, post,
           Set_Status (''Update saved '' @ em_dash @ '' server responded success.'') False,
           Render_Grid (current_date st), grid_status st, Alert ''Update successful.'',
           Set_Status ''Loading resources...'' False,
           Http_Get (resources_path (js_Number (JNum (CUSTOMER_ID cfg))))]"
    have tr2: "trace st' = trace st @ before @ [Render_Grid (current_date st), grid_status st']"
      by (simp add: st'(5) t5(8) cd5 gs5 gs' before_def)
    then have tr1: "\<exists>b. trace st' = trace st @ b \<and> Render_Grid (current_date st) \<in> set b"
      by (intro exI[of _ "before @ [Render_Grid (current_date st), grid_status st']"]) simp
    have tr3: "\<exists>b. trace st' = trace st @ b @ [Render_Grid (current_date st), grid_status st']"
      using tr2 by blast
    have sm: "slotsMap st' = slotsMap st" by (simp add: st'(2) t5(2))
    have cb: "\<forall>c'. onUpdated = Some c' \<longrightarrow>
          (\<forall>old l prev. ctx_old c' = Some old \<and> truthy (reg_Appoitment_Id old)
                    \<and> slotsMap st (js_String (reg_Resource_Id old)) = Some l
                    \<and> find (\<lambda>b. strict_eq (Appoitment_Id (heap st b)) (reg_Appoitment_Id old)) l
                        = Some prev
                    \<longrightarrow> Register_Id (heap st' prev) = JUndefined)
          \<and> registeredSlot st' = Some
               \<lparr> reg_Appoitment_Id = Appoitment_Id (heap st slotObj),
                 reg_Resource_Id = ID (ctx_resource c'),
                 reg_TimeFrom = TimeFrom (heap st slotObj),
                 reg_TimeTo = TimeTo (heap st slotObj) \<rparr>
          \<and> Register_Id (heap st' slotObj) = ctx_customerId c'
          \<and> (\<exists>before. trace st' = trace st @ before
                           @ [Render_Grid (current_date st), grid_status st'])"
      using unreg reg owner tr3 by (simp add: Some) blast
    have nn: "onUpdated = None \<longrightarrow> registeredSlot st' = registeredSlot st"
      by (simp add: Some)
    have fr: "\<forall>a. a \<noteq> slotObj
             \<and> \<not> (\<exists>l. (slotsMap st (js_String (Resource_Id (heap st slotObj))) = Some l
                        \<or> slotsMap st (js_String (Resource_Id (heap st slotObj))) = None
                          \<and> slotsMap st (js_String (ResourceId (heap st slotObj))) = Some l)
                      \<and> find (\<lambda>b. js_String (Appoitment_Id (heap st b))
                                      = js_String (Appoitment_Id (heap st slotObj))) l = Some a)
          \<longrightarrow>
            Status (heap st' a) = Status (heap st a)
          \<and> Description_En (heap st' a) = Description_En (heap st a)
          \<and> Notes (heap st' a) = Notes (heap st a)"
      using frame5 by (simp add: st'(3) u1)
    show ?thesis
      using result fields' fr sm tr1 nn cb by blast
  qed
qed

lemma number_of_digit:
  "Number_of_string ''2'' = JNum 2" "Number_of_string ''3'' = JNum 3"
  by (simp_all add: Number_of_string_def trim_def is_space_def strip_sign_def is_digit_def
        digits_val_def digit_val_def)

lemma registered_state_simps:
  "heap registered_state 0
     = (mock_slot 7909 ''2025-11-03T09:00:00'' ''2025-11-03T09:30:00'' 1 JUndefined)
         \<lparr>Register_Id := JNum 1\<rparr>"
  "heap registered_state 2
     = mock_slot 7920 ''2025-11-03T09:00:00'' ''2025-11-03T09:30:00'' 1 JUndefined"
  "heap registered_state 3
     = mock_slot 7921 ''2025-11-03T11:00:00'' ''2025-11-03T11:30:00'' 1 (JNum 1)"
  "slotsMap registered_state = [''1'' \<mapsto> [0, 1], ''2'' \<mapsto> [2, 3]]"
  "resources registered_state = take 2 MOCK_resources"
  "registeredSlot registered_state = Some (registration_of example_state 0 (JStr ''1''))"
  "heap example_state 0 = mock_slot 7909 ''2025-11-03T09:00:00'' ''2025-11-03T09:30:00'' 1 JUndefined"
  by (simp_all add: registered_state_def update_slot_def example_state_def initial_state_def
        example_heap_def)

lemma detached_state_simps:
  "heap (detached_state rid) 0 = heap registered_state 0"
  "heap (detached_state rid) 2 = heap registered_state 2"
  "heap (detached_state rid) 3 = heap registered_state 3"
  "heap (detached_state rid) 4 = (heap registered_state 2)\<lparr>Resource_Id := rid\<rparr>"
  "slotsMap (detached_state rid) = slotsMap registered_state"
  "resources (detached_state rid) = resources registered_state"
  "registeredSlot (detached_state rid) = registeredSlot registered_state"
  by (simp_all add: detached_state_def)

theorem updateBtn_click_success_witness:
  "onSlotClick CONFIG Rev_update 2 (MOCK_resources ! 1) registered_state
     = registered_state\<lparr>modalContext := Some (Update, move_ctx)\<rparr>
   \<and> (\<exists>st'. updateBtn_click CONFIG 2 (Some move_ctx) ''2'' ''confirmed''
               (Response 200 (Some (Obj (JStr ''success'') JUndefined))) registered_state = Some st'
          \<and> Status (heap st' 2) = JNum 2
          \<and> Description_En (heap st' 2) = JStr ''Accepted''
          \<and> Notes (heap st' 2) = JStr ''confirmed''
          \<and> Register_Id (heap st' 0) = JUndefined
          \<and> Register_Id (heap st' 2) = JNum 1
          \<and> registeredSlot st' = Some
               \<lparr> reg_Appoitment_Id = JNum 7920, reg_Resource_Id = JStr ''2'',
                 reg_TimeFrom = JStr ''2025-11-03T09:00:00'',
                 reg_TimeTo = JStr ''2025-11-03T09:30:00'' \<rparr>)
   \<and> (\<exists>st'. updateBtn_click CONFIG 4 (Some detached_ctx) ''3'' ''declined''
               (Response 200 (Some (Obj (JStr ''Success'') JUndefined)))
               (detached_state (JStr ''2'')) = Some st'
          \<and> Status (heap st' 4) = JNum 3
          \<and> Status (heap st' 2) = JNum 3
          \<and> Description_En (heap st' 2) = JStr ''Rejected''
          \<and> Notes (heap st' 2) = JStr ''declined''
          \<and> Status (heap st' 3) = JNum 1
          \<and> Notes (heap st' 3) = JUndefined
          \<and> Register_Id (heap st' 0) = JUndefined
          \<and> Register_Id (heap st' 4) = JNum 1)"
proof -
  note h = registered_state_simps
  have click: "onSlotClick CONFIG Rev_update 2 (MOCK_resources ! 1) registered_state
     = registered_state\<lparr>modalContext := Some (Update, move_ctx)\<rparr>"
    by (simp add: onSlotClick_def click_isRegistered_def serverRegistered_def h cust_id_def
          registration_of_def mock_slot_def no_slot_def strict_eq_def CONFIG_def openModal_def
          move_ctx_def)
  have step: "0 < SLOT_DURATION_MIN CONFIG" by (simp add: CONFIG_def)
  have lower: "toLowerCase (js_String (payload_result (Obj (JStr ''success'') JUndefined :: unit payload)))
                 = ''success''"
    "toLowerCase (js_String (payload_result (Obj (JStr ''Success'') JUndefined :: unit payload)))
                 = ''success''"
    by code_simp+
  have res: "ID (ctx_resource move_ctx) = JStr ''2''" "ID (ctx_resource detached_ctx) = JStr ''2''"
    by (simp_all add: detached_ctx_def move_ctx_def MOCK_resources_def)
  have cust: "ctx_customerId move_ctx = JNum 1" "ctx_customerId detached_ctx = JNum 1"
    by (simp_all add: detached_ctx_def move_ctx_def)
  have old: "ctx_old move_ctx = Some (registration_of example_state 0 (JStr ''1''))"
    "ctx_old detached_ctx = Some (registration_of example_state 0 (JStr ''1''))"
    by (simp_all add: detached_ctx_def move_ctx_def)
  have oldreg: "reg_Appoitment_Id (registration_of example_state 0 (JStr ''1'')) = JNum 7909"
    "reg_Resource_Id (registration_of example_state 0 (JStr ''1'')) = JStr ''1''"
    by (simp_all add: registration_of_def h mock_slot_def)

  have id1: "truthy (Appoitment_Id (heap registered_state 2))"
    by (simp add: h mock_slot_def)
  have flow1: "\<forall>c old. Some move_ctx = Some c \<and> ctx_old c = Some old
                \<longrightarrow> \<not> strict_eq (reg_Appoitment_Id old) (Appoitment_Id (heap registered_state 2))"
    by (simp add: old oldreg h mock_slot_def strict_eq_def)
  have proto1: "slotsMap registered_state ''__proto__'' = None" by (simp add: h)
  have keys1: "\<forall>k \<in> set (keys_read registered_state 2 (Some move_ctx)).
                 k \<notin> set Object_prototype_names"
    by (simp add: keys_read_def h old oldreg mock_slot_def no_slot_def MOCK_resources_def
          Object_prototype_names_def)
  from updateBtn_click_success[OF id1 refl _ _ lower(1) step flow1 proto1 keys1,
      of 200 "''2''" "''confirmed''"]
  obtain st1 where st1:
    "updateBtn_click CONFIG 2 (Some move_ctx) ''2'' ''confirmed''
       (Response 200 (Some (Obj (JStr ''success'') JUndefined))) registered_state = Some st1"
    "Status (heap st1 2) = js_Number (JStr ''2'')
          \<and> Description_En (heap st1 2)
              = JStr (if ''2'' = ''2'' then ''Accepted''
                      else if ''2'' = ''3'' then ''Rejected'' else ''Pending'')
          \<and> Notes (heap st1 2) = JStr ''confirmed''"
    "\<forall>old l prev. ctx_old move_ctx = Some old \<and> truthy (reg_Appoitment_Id old)
                    \<and> slotsMap registered_state (js_String (reg_Resource_Id old)) = Some l
                    \<and> find (\<lambda>b. strict_eq (Appoitment_Id (heap registered_state b))
                                    (reg_Appoitment_Id old)) l = Some prev
                    \<longrightarrow> Register_Id (heap st1 prev) = JUndefined"
    "registeredSlot st1 = Some
               \<lparr> reg_Appoitment_Id = Appoitment_Id (heap registered_state 2),
                 reg_Resource_Id = ID (ctx_resource move_ctx),
                 reg_TimeFrom = TimeFrom (heap registered_state 2),
                 reg_TimeTo = TimeTo (heap registered_state 2) \<rparr>"
    "Register_Id (heap st1 2) = ctx_customerId move_ctx"
    by (auto simp: ok_def)
  from st1(2) have a1: "Status (heap st1 2) = JNum 2" "Description_En (heap st1 2) = JStr ''Accepted''"
    "Notes (heap st1 2) = JStr ''confirmed''"
    by (simp_all add: number_of_digit)
  have "ctx_old move_ctx = Some (registration_of example_state 0 (JStr ''1''))
        \<and> truthy (reg_Appoitment_Id (registration_of example_state 0 (JStr ''1'')))
        \<and> slotsMap registered_state
             (js_String (reg_Resource_Id (registration_of example_state 0 (JStr ''1'')))) = Some [0, 1]
        \<and> find (\<lambda>b. strict_eq (Appoitment_Id (heap registered_state b))
                        (reg_Appoitment_Id (registration_of example_state 0 (JStr ''1'')))) [0, 1]
            = Some 0"
    by (simp add: old oldreg h mock_slot_def strict_eq_def)
  from st1(3)[rule_format, OF this]
  have b1: "Register_Id (heap st1 0) = JUndefined" .
  have c1: "Register_Id (heap st1 2) = JNum 1"
    "registeredSlot st1 = Some
               \<lparr> reg_Appoitment_Id = JNum 7920, reg_Resource_Id = JStr ''2'',
                 reg_TimeFrom = JStr ''2025-11-03T09:00:00'',
                 reg_TimeTo = JStr ''2025-11-03T09:30:00'' \<rparr>"
    using st1(4,5) by (simp_all add: res cust h mock_slot_def no_slot_def)

  let ?d = "detached_state (JStr ''2'')"
  note d = detached_state_simps[of "JStr ''2''"]
  have id2: "truthy (Appoitment_Id (heap ?d 4))"
    by (simp add: d h mock_slot_def)
  have flow2: "\<forall>c old. Some detached_ctx = Some c \<and> ctx_old c = Some old
                \<longrightarrow> \<not> strict_eq (reg_Appoitment_Id old) (Appoitment_Id (heap ?d 4))"
    by (simp add: old oldreg d h mock_slot_def strict_eq_def)
  have proto2: "slotsMap ?d ''__proto__'' = None" by (simp add: d h)
  have keys2: "\<forall>k \<in> set (keys_read ?d 4 (Some detached_ctx)). k \<notin> set Object_prototype_names"
    by (simp add: keys_read_def d h old oldreg mock_slot_def no_slot_def MOCK_resources_def
          Object_prototype_names_def)
  have key2: "slotsMap ?d (js_String (Resource_Id (heap ?d 4))) = Some [2, 3]"
    by (simp add: d h)
  have find2: "find (\<lambda>b. js_String (Appoitment_Id (heap ?d b))
                               = js_String (Appoitment_Id (heap ?d 4))) [2, 3] = Some 2"
    by (simp add: d h mock_slot_def string_of_int_examples)
  have nofind3: "\<not> (\<exists>l. (slotsMap ?d (js_String (Resource_Id (heap ?d 4))) = Some l
                        \<or> slotsMap ?d (js_String (Resource_Id (heap ?d 4))) = None
                          \<and> slotsMap ?d (js_String (ResourceId (heap ?d 4))) = Some l)
                      \<and> find (\<lambda>b. js_String (Appoitment_Id (heap ?d b))
                                      = js_String (Appoitment_Id (heap ?d 4))) l = Some 3)"
    using find2 by (simp add: key2)
  from updateBtn_click_success[OF id2 refl _ _ lower(2) step flow2 proto2 keys2,
      of 200 "''3''" "''declined''"]
  obtain st2 where st2:
    "updateBtn_click CONFIG 4 (Some detached_ctx) ''3'' ''declined''
       (Response 200 (Some (Obj (JStr ''Success'') JUndefined))) ?d = Some st2"
    "\<forall>a. a = 4
             \<or> (\<exists>l. (slotsMap ?d (js_String (Resource_Id (heap ?d 4))) = Some l
                      \<or> slotsMap ?d (js_String (Resource_Id (heap ?d 4))) = None
                        \<and> slotsMap ?d (js_String (ResourceId (heap ?d 4))) = Some l)
                    \<and> find (\<lambda>b. js_String (Appoitment_Id (heap ?d b))
                                    = js_String (Appoitment_Id (heap ?d 4))) l = Some a)
          \<longrightarrow>
            Status (heap st2 a) = js_Number (JStr ''3'')
          \<and> Description_En (heap st2 a)
              = JStr (if ''3'' = ''2'' then ''Accepted''
                      else if ''3'' = ''3'' then ''Rejected'' else ''Pending'')
          \<and> Notes (heap st2 a) = JStr ''declined''"
    "\<forall>a. a \<noteq> 4
             \<and> \<not> (\<exists>l. (slotsMap ?d (js_String (Resource_Id (heap ?d 4))) = Some l
                        \<or> slotsMap ?d (js_String (Resource_Id (heap ?d 4))) = None
                          \<and> slotsMap ?d (js_String (ResourceId (heap ?d 4))) = Some l)
                      \<and> find (\<lambda>b. js_String (Appoitment_Id (heap ?d b))
                                      = js_String (Appoitment_Id (heap ?d 4))) l = Some a)
          \<longrightarrow>
            Status (heap st2 a) = Status (heap ?d a)
          \<and> Description_En (heap st2 a) = Description_En (heap ?d a)
          \<and> Notes (heap st2 a) = Notes (heap ?d a)"
    "\<forall>old l prev. ctx_old detached_ctx = Some old \<and> truthy (reg_Appoitment_Id old)
                    \<and> slotsMap ?d (js_String (reg_Resource_Id old)) = Some l
                    \<and> find (\<lambda>b. strict_eq (Appoitment_Id (heap ?d b))
                                    (reg_Appoitment_Id old)) l = Some prev
                    \<longrightarrow> Register_Id (heap st2 prev) = JUndefined"
    "Register_Id (heap st2 4) = ctx_customerId detached_ctx"
    by (auto simp: ok_def)
  from st2(2)[rule_format, of 4] have a2: "Status (heap st2 4) = JNum 3"
    by (simp add: number_of_digit)
  have "\<exists>l. (slotsMap ?d (js_String (Resource_Id (heap ?d 4))) = Some l
                      \<or> slotsMap ?d (js_String (Resource_Id (heap ?d 4))) = None
                        \<and> slotsMap ?d (js_String (ResourceId (heap ?d 4))) = Some l)
                    \<and> find (\<lambda>b. js_String (Appoitment_Id (heap ?d b))
                                    = js_String (Appoitment_Id (heap ?d 4))) l = Some 2"
    using key2 find2 by blast
  with st2(2)[rule_format, of 2]
  have b2: "Status (heap st2 2) = JNum 3" "Description_En (heap st2 2) = JStr ''Rejected''"
    "Notes (heap st2 2) = JStr ''declined''"
    by (simp_all add: number_of_digit)
  from st2(3)[rule_format, of 3] nofind3
  have c2: "Status (heap st2 3) = JNum 1" "Notes (heap st2 3) = JUndefined"
    by (simp_all add: d h mock_slot_def no_slot_def)
  have "ctx_old detached_ctx = Some (registration_of example_state 0 (JStr ''1''))
        \<and> truthy (reg_Appoitment_Id (registration_of example_state 0 (JStr ''1'')))
        \<and> slotsMap ?d
             (js_String (reg_Resource_Id (registration_of example_state 0 (JStr ''1'')))) = Some [0, 1]
        \<and> find (\<lambda>b. strict_eq (Appoitment_Id (heap ?d b))
                        (reg_Appoitment_Id (registration_of example_state 0 (JStr ''1'')))) [0, 1]
            = Some 0"
    by (simp add: old oldreg d h mock_slot_def strict_eq_def)
  from st2(4)[rule_format, OF this]
  have e2: "Register_Id (heap st2 0) = JUndefined" .
  have f2: "Register_Id (heap st2 4) = JNum 1" using st2(5) by (simp add: cust)
  show ?thesis using click st1(1) a1 b1 c1 st2(1) a2 b2 c2 e2 f2 by blast
qed

text \<open>
  Against the claim as the spec words it: the shown slot object is one that the Slot
  Repository no longer holds, and the server gave it no \<^verbatim>\<open>Resource_Id\<close>. The
  look-up reads \<^verbatim>\<open>slotsMap['undefined']\<close> and finds nothing, so the
  repository's slot with the same appointment id (address 2, under resource 2) keeps its
  status and notes although the submit of status 2 with notes "confirmed" succeeded.
\<close>

theorem updateBtn_click_success_counterexample:
  "slotsMap (detached_state JUndefined) ''2'' = Some [2, 3]
   \<and> Appoitment_Id (heap (detached_state JUndefined) 2) = JNum 7920
   \<and> Appoitment_Id (heap (detached_state JUndefined) 4) = JNum 7920
   \<and> map_option Status
        (slot_after
           (updateBtn_click CONFIG 4 (Some detached_ctx) ''2'' ''confirmed''
              (Response 200 (Some (Obj (JStr ''success'') JUndefined)))
              (detached_state JUndefined)) 2) = Some (JNum 1)
   \<and> map_option Notes
        (slot_after
           (updateBtn_click CONFIG 4 (Some detached_ctx) ''2'' ''confirmed''
              (Response 200 (Some (Obj (JStr ''success'') JUndefined)))
              (detached_state JUndefined)) 2) = Some JUndefined
   \<and> map_option Status
        (slot_after
           (updateBtn_click CONFIG 4 (Some detached_ctx) ''2'' ''confirmed''
              (Response 200 (Some (Obj (JStr ''success'') JUndefined)))
              (detached_state JUndefined)) 4) = Some (JNum 2)"
proof -
  let ?d = "detached_state JUndefined"
  note d = detached_state_simps[of JUndefined] registered_state_simps
  have step: "0 < SLOT_DURATION_MIN CONFIG" by (simp add: CONFIG_def)
  have lower: "toLowerCase ''success'' = ''success''"
    by (simp add: toLowerCase_def lower_char_def)
  define s1 where "s1 = emit (Http_Post UPDATE_ENDPOINT
      \<lparr> body_Appointment_Id = js_String (Appoitment_Id (heap ?d 4)),
        body_Notes = js_nullish (JStr ''confirmed'') (JStr ''''),
        body_Status = js_String (js_nullish (JStr ''2'') (JStr '''')) \<rparr>)
      ((setStatus ''Sending update to server...'' False ?d)\<lparr>MODE := ''live''\<rparr>)"
  have s1: "heap s1 = heap ?d" "slotsMap s1 = slotsMap ?d"
    by (simp_all add: s1_def emit_def setStatus_def)
  have run: "updateBtn_click CONFIG 4 (Some detached_ctx) ''2'' ''confirmed''
              (Response 200 (Some (Obj (JStr ''success'') JUndefined))) ?d
               = update_succeeded CONFIG 4 (Some detached_ctx) ''2'' ''confirmed'' s1"
    by (simp add: updateBtn_click_def updateAppointmentAPI_def apiPostJson_def read_response_def
          ok_def lower s1_def d mock_slot_def)
  have miss: "repository_slot s1 (heap s1 4) = Inr None"
    by (simp add: repository_slot_def repository_read_def Let_def s1 d mock_slot_def no_slot_def
          Object_prototype_names_def)
  define t1 where "t1 = update_slot 4 (apply_update ''2'' ''confirmed'') s1"
  have "repository_slot t1 (heap t1 4) = repository_slot s1 (heap s1 4)"
    by (rule repository_slot_cong) (simp_all add: t1_def update_slot_def apply_update_fields)
  then have p: "persist_update 4 (update_slot 4 (apply_update ''2'' ''confirmed'') s1) = Inr t1"
    by (simp add: persist_update_def Let_def miss t1_def)
  from update_succeeded_no_callback[OF step p]
  obtain t5 where t5: "update_succeeded CONFIG 4 None ''2'' ''confirmed'' s1 = Some t5"
    "slotsMap t5 = slotsMap s1" "heap t5 = heap t1"
    by blast
  from onUpdated_callback_eq[OF step, of detached_ctx 4 t5]
  obtain st' where st': "onUpdated_callback CONFIG detached_ctx 4 t5 = Some st'"
    "heap st' = (heap (unregister_previous (ctx_old detached_ctx) t5))
                     (4 := (heap (unregister_previous (ctx_old detached_ctx) t5) 4)
                             \<lparr>Register_Id := ctx_customerId detached_ctx\<rparr>)"
    by blast
  have result: "updateBtn_click CONFIG 4 (Some detached_ctx) ''2'' ''confirmed''
              (Response 200 (Some (Obj (JStr ''success'') JUndefined))) ?d = Some st'"
    by (simp add: run update_succeeded_callback p t5(1) st'(1))
  have h1: "heap t1 2 = heap ?d 2" "heap t1 0 = heap ?d 0" "heap t1 1 = heap ?d 1"
    "heap t1 4 = apply_update ''2'' ''confirmed'' (heap ?d 4)"
    by (simp_all add: t1_def update_slot_def s1)
  have prev: "previous_slot t5 (ctx_old detached_ctx) = Some 0"
    by (simp add: previous_slot_def slots_of_def detached_ctx_def move_ctx_def registration_of_def
          t5 s1 h1 d mock_slot_def strict_eq_def)
  have h2: "heap st' 2 = heap ?d 2"
    by (simp add: st'(2) unregister_previous_heap prev t5(3) h1)
  have h4: "Status (heap st' 4) = JNum 2"
    by (simp add: st'(2) unregister_previous_heap prev t5(3) h1 apply_update_fields number_of_digit)
  show ?thesis
    by (simp add: result slot_after_def h2 h4 d mock_slot_def no_slot_def)
qed

text \<open>
  The look-up under the name of an inherited property: the shown slot object has been
  written, the \<^verbatim>\<open>TypeError\<close> is caught, and the handler ends with the notice of
  a failed update; the tracker is not touched and nothing is drawn.
\<close>

lemma updateBtn_click_inherited_key:
  "\<exists>st'. updateBtn_click CONFIG 4 (Some detached_ctx) ''2'' ''confirmed''
            (Response 200 (Some (Obj (JStr ''success'') JUndefined)))
            (detached_state (JStr ''constructor'')) = Some st'
         \<and> Status (heap st' 4) = JNum 2
         \<and> Status (heap st' 2) = JNum 1
         \<and> registeredSlot st' = registeredSlot (detached_state (JStr ''constructor''))
         \<and> last (trace st')
             = Alert ''Failed to send update. See console for details (CORS/SSL issues possible).''"
proof -
  let ?d = "detached_state (JStr ''constructor'')"
  note d = detached_state_simps[of "JStr ''constructor''"] registered_state_simps
  have lower: "toLowerCase ''success'' = ''success''"
    by (simp add: toLowerCase_def lower_char_def)
  define s1 where "s1 = emit (Http_Post UPDATE_ENDPOINT
      \<lparr> body_Appointment_Id = js_String (Appoitment_Id (heap ?d 4)),
        body_Notes = js_nullish (JStr ''confirmed'') (JStr ''''),
        body_Status = js_String (js_nullish (JStr ''2'') (JStr '''')) \<rparr>)
      ((setStatus ''Sending update to server...'' False ?d)\<lparr>MODE := ''live''\<rparr>)"
  have s1: "heap s1 = heap ?d" "slotsMap s1 = slotsMap ?d" "registeredSlot s1 = registeredSlot ?d"
    by (simp_all add: s1_def emit_def setStatus_def)
  have run: "updateBtn_click CONFIG 4 (Some detached_ctx) ''2'' ''confirmed''
              (Response 200 (Some (Obj (JStr ''success'') JUndefined))) ?d
               = update_succeeded CONFIG 4 (Some detached_ctx) ''2'' ''confirmed'' s1"
    by (simp add: updateBtn_click_def updateAppointmentAPI_def apiPostJson_def read_response_def
          ok_def lower s1_def d mock_slot_def)
  have raise: "repository_slot s1 (heap s1 4) = Inl Type_Error"
    by (simp add: repository_slot_def repository_read_def Let_def s1 d mock_slot_def no_slot_def
          Object_prototype_names_def)
  define t1 where "t1 = update_slot 4 (apply_update ''2'' ''confirmed'') s1"
  have "repository_slot t1 (heap t1 4) = repository_slot s1 (heap s1 4)"
    by (rule repository_slot_cong) (simp_all add: t1_def update_slot_def apply_update_fields)
  then have p: "persist_update 4 t1 = Inl Type_Error"
    by (simp add: persist_update_def Let_def raise)
  have h1: "heap t1 2 = heap ?d 2" "heap t1 4 = apply_update ''2'' ''confirmed'' (heap ?d 4)"
    "registeredSlot t1 = registeredSlot ?d"
    by (simp_all add: t1_def update_slot_def s1)
  show ?thesis
    by (simp add: run update_succeeded_def Let_def t1_def[symmetric] p alert_def setStatus_def
          emit_def h1 apply_update_fields number_of_digit d mock_slot_def no_slot_def)
qed

section \<open>Loading\<close>

lemma apiGet_send_tracker:
  "registeredSlot (fst (apiGet_send rv path st)) = registeredSlot st"
  "resources (fst (apiGet_send rv path st)) = resources st"
  "customerInput (fst (apiGet_send rv path st)) = customerInput st"
  by (simp_all add: apiGet_send_def emit_def split: revision.splits)

lemma send_all_frame:
  "registeredSlot (snd (send_all rv customerId dateStr rs st)) = registeredSlot st
   \<and> resources (snd (send_all rv customerId dateStr rs st)) = resources st
   \<and> customerInput (snd (send_all rv customerId dateStr rs st)) = customerInput st"
proof (induction rs arbitrary: st)
  case Nil
  then show ?case by simp
next
  case (Cons r rs)
  obtain st1 sent where s: "apiGet_send rv (slots_path customerId dateStr (ID r)) st = (st1, sent)"
    by (cases "apiGet_send rv (slots_path customerId dateStr (ID r)) st")
  have f: "registeredSlot st1 = registeredSlot st" "resources st1 = resources st"
    "customerInput st1 = customerInput st"
    using apiGet_send_tracker[of rv "slots_path customerId dateStr (ID r)" st] by (simp_all add: s)
  show ?case using Cons.IH[of st1] f by (simp add: s case_prod_beta)
qed

lemma alloc_all_frame:
  "registeredSlot (snd (alloc_all l st)) = registeredSlot st
   \<and> resources (snd (alloc_all l st)) = resources st
   \<and> slotsMap (snd (alloc_all l st)) = slotsMap st
   \<and> customerInput (snd (alloc_all l st)) = customerInput st"
proof (induction l arbitrary: st)
  case Nil
  then show ?case by simp
next
  case (Cons s ss)
  show ?case
    using Cons.IH[of "st\<lparr>heap := (heap st)(next_addr st := s), next_addr := Suc (next_addr st)\<rparr>"]
    by (simp add: Let_def case_prod_beta)
qed

text \<open>The copies are stored at fresh addresses, in list order.\<close>

lemma alloc_all_heap:
  "map (heap (snd (alloc_all l st))) (fst (alloc_all l st)) = l
   \<and> (\<forall>b < next_addr st. heap (snd (alloc_all l st)) b = heap st b)
   \<and> (\<forall>a \<in> set (fst (alloc_all l st)). next_addr st \<le> a)"
proof (induction l arbitrary: st)
  case Nil
  then show ?case by simp
next
  case (Cons s ss)
  let ?st1 = "st\<lparr>heap := (heap st)(next_addr st := s), next_addr := Suc (next_addr st)\<rparr>"
  obtain as st' where r: "alloc_all ss ?st1 = (as, st')" by (cases "alloc_all ss ?st1")
  from Cons.IH[of ?st1] have ih: "map (heap st') as = ss"
    "\<forall>b < Suc (next_addr st). heap st' b = heap ?st1 b" "\<forall>a \<in> set as. Suc (next_addr st) \<le> a"
    by (simp_all add: r)
  have "heap st' (next_addr st) = s" using ih(2) by simp
  moreover have "\<forall>b < next_addr st. heap st' b = heap st b" using ih(2) by simp
  moreover have "\<forall>a \<in> set as. next_addr st \<le> a" using ih(3) by auto
  ultimately show ?case using ih(1) by (simp add: Let_def r)
qed

lemma tracker_after_append:
  "tracker_after (tracker_after before xs) ys = tracker_after before (xs @ ys)"
  by (simp add: tracker_after_def)

lemma seed_registered_tracker:
  "registeredSlot (seed_registered r customerId as st)
     = tracker_after (registeredSlot st) (owned_in r customerId (map (heap st) as))
   \<and> heap (seed_registered r customerId as st) = heap st
   \<and> resources (seed_registered r customerId as st) = resources st
   \<and> customerInput (seed_registered r customerId as st) = customerInput st"
proof (induction as arbitrary: st)
  case Nil
  then show ?case by (simp add: seed_registered_def owned_in_def tracker_after_def)
next
  case (Cons a as)
  have step: "heap (seed_step r customerId a st) = heap st"
    "resources (seed_step r customerId a st) = resources st"
    "customerInput (seed_step r customerId a st) = customerInput st"
    "registeredSlot (seed_step r customerId a st)
       = tracker_after (registeredSlot st) (owned_in r customerId [heap st a])"
    by (simp_all add: seed_step_def Let_def registration_from_def owned_in_def tracker_after_def)
  have unfold: "seed_registered r customerId (a # as) st
                  = seed_registered r customerId as (seed_step r customerId a st)"
    by (simp add: seed_registered_def)
  have app: "owned_in r customerId (map (heap st) (a # as))
               = owned_in r customerId [heap st a] @ owned_in r customerId (map (heap st) as)"
    by (simp add: owned_in_def)
  show ?case
    unfolding unfold app tracker_after_append[symmetric]
    using Cons.IH[of "seed_step r customerId a st"] by (simp add: step)
qed

lemma copy_slot_fields:
  "Register_Id (copy_slot rv r s) = Register_Id s"
  "Appoitment_Id (copy_slot rv r s) = Appoitment_Id s"
  "TimeFrom (copy_slot rv r s) = TimeFrom s"
  "TimeTo (copy_slot rv r s) = TimeTo s"
  by (simp_all add: copy_slot_def split: revision.splits)

lemma owned_in_copies:
  "owned_in r customerId (map (copy_slot rv r) l) = owned_in r customerId l"
  by (induction l)
     (simp_all add: owned_in_def serverRegistered_def registration_from_def copy_slot_fields)

lemma store_slots_tracker:
  "registeredSlot (store_slots cfg rv customerId r l st)
     = (if RESPECT_SERVER_REGISTERED cfg
        then tracker_after (registeredSlot st) (owned_in r customerId l)
        else registeredSlot st)
   \<and> resources (store_slots cfg rv customerId r l st) = resources st
   \<and> customerInput (store_slots cfg rv customerId r l st) = customerInput st"
proof -
  obtain as st1 where a: "alloc_all (map (copy_slot rv r) l) st = (as, st1)"
    by (cases "alloc_all (map (copy_slot rv r) l) st")
  from alloc_all_frame[of "map (copy_slot rv r) l" st] alloc_all_heap[of "map (copy_slot rv r) l" st]
  have f: "registeredSlot st1 = registeredSlot st" "resources st1 = resources st"
    "customerInput st1 = customerInput st" "map (heap st1) as = map (copy_slot rv r) l"
    by (simp_all add: a)
  define st2 where "st2 = st1\<lparr>slotsMap := (slotsMap st1)(js_String (ID r) \<mapsto> as)\<rparr>"
  have g: "map (heap st2) as = map (copy_slot rv r) l" "registeredSlot st2 = registeredSlot st"
    "resources st2 = resources st" "customerInput st2 = customerInput st"
    using f by (simp_all add: st2_def)
  have run: "store_slots cfg rv customerId r l st
               = (if RESPECT_SERVER_REGISTERED cfg then seed_registered r customerId as st2 else st2)"
    by (simp add: store_slots_def a st2_def)
  show ?thesis
    unfolding run using seed_registered_tracker[of r customerId as st2]
    by (simp add: g owned_in_copies)
qed

lemma fetchSlots_receive_reply:
  "snd (fetchSlots_receive cfg customerId dateStr resourceId sent outcome st)
     = Inr (slots_reply cfg customerId dateStr resourceId sent outcome)
   \<and> registeredSlot (fst (fetchSlots_receive cfg customerId dateStr resourceId sent outcome st))
       = registeredSlot st
   \<and> resources (fst (fetchSlots_receive cfg customerId dateStr resourceId sent outcome st))
       = resources st
   \<and> customerInput (fst (fetchSlots_receive cfg customerId dateStr resourceId sent outcome st))
       = customerInput st"
  by (simp add: fetchSlots_receive_def slots_reply_def fall_back_to_mock_def split: sum.splits)

lemma slots_arrived_tracker:
  "registeredSlot (fst (slots_arrived cfg rv customerId dateStr r sent outcome st))
     = (if RESPECT_SERVER_REGISTERED cfg
        then tracker_after (registeredSlot st) (owned_in_reply cfg customerId dateStr r sent outcome)
        else registeredSlot st)
   \<and> resources (fst (slots_arrived cfg rv customerId dateStr r sent outcome st)) = resources st
   \<and> customerInput (fst (slots_arrived cfg rv customerId dateStr r sent outcome st))
       = customerInput st"
proof -
  obtain st1 where f: "fetchSlots_receive cfg customerId dateStr (ID r) sent outcome st
      = (st1, Inr (slots_reply cfg customerId dateStr (ID r) sent outcome))"
    "registeredSlot st1 = registeredSlot st" "resources st1 = resources st"
    "customerInput st1 = customerInput st"
    using fetchSlots_receive_reply[of cfg customerId dateStr "ID r" sent outcome st]
    by (cases "fetchSlots_receive cfg customerId dateStr (ID r) sent outcome st") simp
  show ?thesis
  proof (cases "slots_reply cfg customerId dateStr (ID r) sent outcome")
    case (Arr l)
    then show ?thesis
      using store_slots_tracker[of cfg rv customerId r l st1]
      by (simp add: slots_arrived_def f owned_in_reply_def)
  next
    case Falsy
    then show ?thesis
      using store_slots_tracker[of cfg rv customerId r "[]" st1]
      by (simp add: slots_arrived_def f owned_in_reply_def owned_in_def tracker_after_def)
  next
    case (Obj x y)
    then show ?thesis
      by (simp add: slots_arrived_def f owned_in_reply_def tracker_after_def)
  qed
qed

lemma receive_all_tracker:
  "registeredSlot (fst (receive_all cfg rv customerId dateStr rs flags outcome_for is st))
     = (if RESPECT_SERVER_REGISTERED cfg
        then tracker_after (registeredSlot st)
               (concat (map (\<lambda>i. owned_in_reply cfg customerId dateStr (rs ! i) (flags ! i)
                                     (outcome_for i)) is))
        else registeredSlot st)
   \<and> resources (fst (receive_all cfg rv customerId dateStr rs flags outcome_for is st)) = resources st
   \<and> customerInput (fst (receive_all cfg rv customerId dateStr rs flags outcome_for is st))
       = customerInput st"
proof (induction "is" arbitrary: st)
  case Nil
  then show ?case by (simp add: tracker_after_def)
next
  case (Cons i "is")
  obtain st1 k where a: "slots_arrived cfg rv customerId dateStr (rs ! i) (flags ! i) (outcome_for i) st
      = (st1, k)"
    by (cases "slots_arrived cfg rv customerId dateStr (rs ! i) (flags ! i) (outcome_for i) st")
  from slots_arrived_tracker[of cfg rv customerId dateStr "rs ! i" "flags ! i" "outcome_for i" st]
  have f: "registeredSlot st1
     = (if RESPECT_SERVER_REGISTERED cfg
        then tracker_after (registeredSlot st)
               (owned_in_reply cfg customerId dateStr (rs ! i) (flags ! i) (outcome_for i))
        else registeredSlot st)"
    "resources st1 = resources st" "customerInput st1 = customerInput st"
    by (simp_all add: a)
  have run: "fst (receive_all cfg rv customerId dateStr rs flags outcome_for (i # is) st)
               = fst (receive_all cfg rv customerId dateStr rs flags outcome_for is st1)"
    by (simp add: a case_prod_beta)
  show ?case
    unfolding run using Cons.IH[of st1]
    by (simp add: f tracker_after_append)
qed

lemma renderGrid_run_Some:
  assumes "renderGrid_run cfg rv dateStr st = Some st'"
  shows "st' = st\<lparr>trace := trace st @ [Render_Grid dateStr, grid_status st]\<rparr>"
  using assms by (auto simp: renderGrid_run_def emit_def split: option.splits)

lemma send_all_flags:
  "fst (send_all rv customerId dateStr rs st)
     = replicate (length rs) (rv = Rev_update \<or> MODE st \<noteq> ''mock'')"
proof (induction rs arbitrary: st)
  case Nil
  then show ?case by simp
next
  case (Cons r rs)
  obtain st1 sent where s: "apiGet_send rv (slots_path customerId dateStr (ID r)) st = (st1, sent)"
    by (cases "apiGet_send rv (slots_path customerId dateStr (ID r)) st")
  then have f: "sent = (rv = Rev_update \<or> MODE st \<noteq> ''mock'')"
    "(rv = Rev_update \<or> MODE st1 \<noteq> ''mock'') = (rv = Rev_update \<or> MODE st \<noteq> ''mock'')"
    by (auto simp: apiGet_send_def emit_def split: revision.splits if_splits)
  show ?case using Cons.IH[of st1] by (simp add: s case_prod_beta f)
qed

lemma settle_order_bound: "i \<in> set (settle_order n order) \<Longrightarrow> i < n"
  by (simp add: settle_order_def)

text \<open>
  The tracker after a load that got as far as drawing the grid: empty with the trust flag
  off; with the flag on, the last registration found when the answers are scanned in the
  order of their arrival.
\<close>

lemma loadAndRender_tracker:
  assumes "loadAndRender cfg rv dateStr customerId res_outcome outcome_for order st
             = Some (st', Rendered)"
  shows "registeredSlot st'
           = (if RESPECT_SERVER_REGISTERED cfg
              then tracker_after None
                     (concat (map (\<lambda>i. owned_in_reply cfg customerId dateStr (resources st' ! i)
                                           (slot_requests_sent rv st res_outcome) (outcome_for i))
                                (settle_order (length (resources st')) order)))
              else None)"
    and "customerInput st' = customerInput st"
proof -
  obtain s1 sent0 where b: "loadAndRender_begin rv customerId st = (s1, sent0)"
    by (cases "loadAndRender_begin rv customerId st")
  have s1: "customerInput s1 = customerInput st"
    using b apiGet_send_tracker(3)[of rv "resources_path customerId"
        "setStatus ''Loading resources...'' False st"]
    by (simp add: loadAndRender_begin_def setStatus_def emit_def)
  have m1: "rv = Rev_main \<Longrightarrow> MODE s1 = MODE st \<and> sent0 = (MODE st \<noteq> ''mock'')"
    using b
    by (auto simp: loadAndRender_begin_def apiGet_send_def setStatus_def emit_def split: if_splits)
  obtain s2 r2 where fr: "fetchResources_receive sent0 res_outcome s1 = (s2, r2)"
    by (cases "fetchResources_receive sent0 res_outcome s1")
  have s2: "customerInput s2 = customerInput s1"
    using fr by (auto simp: fetchResources_receive_def fall_back_to_mock_def split: sum.splits)
  have m2: "MODE s2 = (case apiGet_receive sent0 res_outcome of Inr data \<Rightarrow> MODE s1 | Inl err \<Rightarrow> ''mock'')"
    using fr by (auto simp: fetchResources_receive_def fall_back_to_mock_def split: sum.splits)
  from assms have resume:
    "loadAndRender_resume cfg rv dateStr customerId sent0 res_outcome outcome_for order s1
       = Some (st', Rendered)"
    by (simp add: loadAndRender_def b)
  then obtain data where r2: "r2 = Inr data" "\<forall>x y. data \<noteq> Obj x y"
    by (cases r2; cases "projr r2")
       (auto simp: loadAndRender_resume_def fr Let_def split: if_splits prod.splits)
  define rs where "rs = normalize_resources (case data of Arr l \<Rightarrow> l | _ \<Rightarrow> [])"
  define s5 where "s5 = (setStatus ''Loading slots for all resources...'' False
                            (s2\<lparr>resources := rs, registeredSlot := None\<rparr>))\<lparr>slotsMap := Map.empty\<rparr>"
  have s5: "registeredSlot s5 = None" "resources s5 = rs" "customerInput s5 = customerInput s2"
    "MODE s5 = MODE s2"
    by (simp_all add: s5_def setStatus_def emit_def)
  define s6 where "s6 = snd (send_all rv customerId dateStr rs s5)"
  define flags where "flags = fst (send_all rv customerId dateStr rs s5)"
  define settled where "settled = settle_order (length rs) order"
  define s7 where "s7 = fst (receive_all cfg rv customerId dateStr rs flags outcome_for settled s6)"
  define sent where "sent = (rv = Rev_update \<or> MODE s5 \<noteq> ''mock'')"
  have sent: "sent = slot_requests_sent rv st res_outcome"
  proof (cases rv)
    case Rev_update
    then show ?thesis by (simp add: sent_def slot_requests_sent_def)
  next
    case Rev_main
    with m1 m2 show ?thesis
      by (auto simp: sent_def slot_requests_sent_def s5 apiGet_receive_def split: sum.splits)
  qed
  have s6: "registeredSlot s6 = None" "resources s6 = rs" "customerInput s6 = customerInput s2"
    using send_all_frame[of rv customerId dateStr rs s5] by (simp_all add: s6_def s5)
  have fl: "flags ! i = sent" if "i \<in> set settled" for i
    using settle_order_bound[of i "length rs" order] that
    by (simp add: flags_def send_all_flags sent_def settled_def)
  have s7: "registeredSlot s7
      = (if RESPECT_SERVER_REGISTERED cfg
         then tracker_after None
                (concat (map (\<lambda>i. owned_in_reply cfg customerId dateStr (rs ! i) sent (outcome_for i))
                           settled))
         else None)"
    "resources s7 = rs" "customerInput s7 = customerInput s2"
  proof -
    have meq: "map (\<lambda>i. owned_in_reply cfg customerId dateStr (rs ! i) (flags ! i) (outcome_for i)) settled
        = map (\<lambda>i. owned_in_reply cfg customerId dateStr (rs ! i) sent (outcome_for i)) settled"
      by (rule map_cong) (simp_all add: fl)
    show "registeredSlot s7
      = (if RESPECT_SERVER_REGISTERED cfg
         then tracker_after None
                (concat (map (\<lambda>i. owned_in_reply cfg customerId dateStr (rs ! i) sent (outcome_for i))
                           settled))
         else None)"
      using receive_all_tracker[of cfg rv customerId dateStr rs flags outcome_for settled s6]
      unfolding meq by (simp add: s7_def s6)
    show "resources s7 = rs" "customerInput s7 = customerInput s2"
      using receive_all_tracker[of cfg rv customerId dateStr rs flags outcome_for settled s6]
      by (simp_all add: s7_def s6)
  qed
  have final: "renderGrid_run cfg rv dateStr s7 = Some st'"
    using resume r2
    by (cases data)
       (auto simp: loadAndRender_resume_def fr Let_def rs_def s5_def s6_def flags_def settled_def
              s7_def case_prod_beta split: if_splits)
  from renderGrid_run_Some[OF final]
  have st': "registeredSlot st' = registeredSlot s7" "resources st' = rs"
    "customerInput st' = customerInput s7"
    by (simp_all add: s7)
  show "registeredSlot st'
           = (if RESPECT_SERVER_REGISTERED cfg
              then tracker_after None
                     (concat (map (\<lambda>i. owned_in_reply cfg customerId dateStr (resources st' ! i)
                                           (slot_requests_sent rv st res_outcome) (outcome_for i))
                                (settle_order (length (resources st')) order)))
              else None)"
    using s7(1) by (simp add: st' settled_def sent)
  show "customerInput st' = customerInput st"
    by (simp add: st' s7 s2 s1)
qed

text \<open>
  Claim C9. Round trip. After a register confirmation (the id synthesized by
  \<^verbatim>\<open>Date.now()\<close>, which is not 0, and the grid's step positive so that the
  handler's render returns), the tracker holds the new id, the slot object carries it and
  the customer, the tracker's id is strictly equal to the slot's, and the renderer gives
  that slot the class \<open>Registered\<close> wherever it draws it. After a load from there that
  gets as far as drawing the grid, with the trust flag off, the tracker is empty and every
  slot drawn is \<open>Available\<close> or \<open>Booked\<close>.
\<close>

theorem register_then_reload:
  assumes step: "0 < SLOT_DURATION_MIN cfg" and now: "now \<noteq> 0"
  shows "\<exists>st1. handleModalConfirm cfg rv Register c now st = Some st1
     \<and> registeredSlot st1 = Some
          \<lparr> reg_Appoitment_Id = JNum now, reg_Resource_Id = ID (ctx_resource c),
            reg_TimeFrom = TimeFrom (heap st (ctx_slot c)),
            reg_TimeTo = TimeTo (heap st (ctx_slot c)) \<rparr>
     \<and> heap st1 = (heap st)(ctx_slot c :=
                      (heap st (ctx_slot c))\<lparr>Register_Id := ctx_customerId c,
                                               Appoitment_Id := JNum now\<rparr>)
     \<and> slotsMap st1 = slotsMap st
     \<and> (\<exists>reg. registeredSlot st1 = Some reg
            \<and> strict_eq (reg_Appoitment_Id reg) (Appoitment_Id (heap st1 (ctx_slot c))))
     \<and> (\<forall>custId. slot_className cfg st1 (heap st1 (ctx_slot c)) custId = Registered)
     \<and> (\<forall>dt r cls. render_cell cfg rv st1 dt r = Some (ctx_slot c, cls) \<longrightarrow> cls = Registered)
     \<and> (\<exists>before. trace st1 = trace st @ before \<and> Render_Grid (current_date st) \<in> set before)
     \<and> (\<not> RESPECT_SERVER_REGISTERED cfg \<longrightarrow>
          (\<forall>st2. loadAndRender cfg rv dateStr customerId res_outcome outcome_for order st1
                    = Some (st2, Rendered)
                 \<longrightarrow> registeredSlot st2 = None
                     \<and> (\<forall>dt r a cls. render_cell cfg rv st2 dt r = Some (a, cls)
                                       \<longrightarrow> cls = Available \<or> cls = Booked)))"
proof -
  define reg where "reg = \<lparr> reg_Appoitment_Id = JNum now, reg_Resource_Id = ID (ctx_resource c),
            reg_TimeFrom = TimeFrom (heap st (ctx_slot c)),
            reg_TimeTo = TimeTo (heap st (ctx_slot c)) \<rparr>"
  define st3 where "st3 = closeModal
      (setStatus ''Registered (mock): slot marked as dark green'' False
         (update_slot (ctx_slot c)
            (\<lambda>s. s\<lparr>Register_Id := ctx_customerId c, Appoitment_Id := JNum now\<rparr>)
            (st\<lparr>registeredSlot := Some reg\<rparr>)))"
  define st1 where "st1 = alert ''Appointment registered (mock).''
      (st3\<lparr>trace := trace st3 @ [Render_Grid (current_date st3), grid_status st3]\<rparr>)"
  have run: "handleModalConfirm cfg rv Register c now st = Some st1"
    by (simp add: handleModalConfirm_def Let_def renderGrid_run_eq[OF step] st1_def st3_def reg_def)
  have cd: "current_date st3 = current_date st"
    by (simp add: st3_def current_date_def closeModal_def setStatus_def emit_def update_slot_def)
  have f: "registeredSlot st1 = Some reg"
    "heap st1 = (heap st)(ctx_slot c :=
                      (heap st (ctx_slot c))\<lparr>Register_Id := ctx_customerId c,
                                               Appoitment_Id := JNum now\<rparr>)"
    "slotsMap st1 = slotsMap st"
    "trace st1 = trace st @ [Set_Status ''Registered (mock): slot marked as dark green'' False,
                             Render_Grid (if datePicker st \<noteq> [] then datePicker st else today st),
                             grid_status st3,
                             Alert ''Appointment registered (mock).'']"
    by (simp_all add: st1_def st3_def alert_def emit_def closeModal_def setStatus_def update_slot_def
          current_date_def)
  have id: "Appoitment_Id (heap st1 (ctx_slot c)) = JNum now" by (simp add: f)
  have eq: "strict_eq (reg_Appoitment_Id reg) (Appoitment_Id (heap st1 (ctx_slot c)))"
    by (simp add: id reg_def strict_eq_def)
  have cls: "slot_className cfg st1 (heap st1 (ctx_slot c)) custId = Registered" for custId
    using now eq by (simp add: slot_className_def render_isRegistered_def f(1) reg_def id)
  have cell: "cls = Registered" if "render_cell cfg rv st1 dt r = Some (ctx_slot c, cls)" for dt r cls
    using that cls by (auto simp: render_cell_def split: option.splits)
  have tr: "\<exists>before. trace st1 = trace st @ before \<and> Render_Grid (current_date st) \<in> set before"
    by (rule exI[of _ "[Set_Status ''Registered (mock): slot marked as dark green'' False,
                        Render_Grid (current_date st), grid_status st3,
                        Alert ''Appointment registered (mock).'']"])
       (simp add: f(4) current_date_def)
  have load: "registeredSlot st2 = None
      \<and> (\<forall>dt r a cls. render_cell cfg rv st2 dt r = Some (a, cls) \<longrightarrow> cls = Available \<or> cls = Booked)"
    if off: "\<not> RESPECT_SERVER_REGISTERED cfg"
      and l: "loadAndRender cfg rv dateStr customerId res_outcome outcome_for order st1
                = Some (st2, Rendered)" for st2
  proof -
    from loadAndRender_tracker(1)[OF l] off have none: "registeredSlot st2 = None" by simp
    have "slot_className cfg st2 s custId \<noteq> Registered" for s custId
      using off by (simp add: slot_className_def render_isRegistered_def none)
    then have "cls = Available \<or> cls = Booked"
      if "render_cell cfg rv st2 dt r = Some (a, cls)" for dt r a cls
      using that by (cases cls) (auto simp: render_cell_def split: option.splits)
    with none show ?thesis by blast
  qed
  show ?thesis
    using run f(1,2,3) eq cls cell tr load unfolding reg_def by blast
qed

lemma same_minute_refl: "same_minute (Date_at t) (Date_at t)"
  by (simp add: same_minute_def strict_eq_def)

lemma mock_dates:
  "Date_parse (JStr ''2025-11-03T09:00:00'') = Date_at 29369340"
  "Date_parse (JStr ''2025-11-03T10:00:00'') = Date_at 29369400"
  "Date_parse (JStr ''2025-11-03T11:00:00'') = Date_at 29369460"
  "new_Date (Some 2025) (Some 10) (Some 3) 9 0 = Date_at 29369340"
  "new_Date (Some 2025) (Some 10) (Some 3) 10 0 = Date_at 29369400"
  by code_simp+

lemma settle4:
  "settle_order 4 [0, 1, 2, 3] = [0, 1, 2, 3]"
  "settle_order 4 [0, Suc 0, 2, 3] = [0, Suc 0, 2, 3]"
  by (simp_all add: settle_order_def)

text \<open>With the network down, a load of customer 1 for 2025-11-03 draws the fixture.\<close>

lemma mock_load:
  "\<exists>st'. loadAndRender CONFIG Rev_main ''2025-11-03'' (JNum 1) Network_Error (\<lambda>i. Network_Error)
            [0, 1, 2, 3] st = Some (st', Rendered)"
proof -
  have step: "0 < SLOT_DURATION_MIN CONFIG" by (simp add: CONFIG_def)
  have n: "normalize_resources MOCK_resources = MOCK_resources"
    by (simp add: normalize_resources_def MOCK_resources_def)
  have len: "length MOCK_resources = 4" "MOCK_resources \<noteq> []" by (simp_all add: MOCK_resources_def)
  have res: "snd (fetchResources_receive sent Network_Error s) = Inr (Arr MOCK_resources)" for sent s
    by (simp add: fetchResources_receive_def apiGet_receive_def read_response_def)
  have arrived: "snd (slots_arrived CONFIG Rev_main (JNum 1) ''2025-11-03'' r sent Network_Error s)" for r sent s
    by (simp add: slots_arrived_def fetchSlots_receive_def fetchSlots_try_def apiGet_receive_def
          read_response_def)
  have recv: "snd (receive_all CONFIG Rev_main (JNum 1) ''2025-11-03'' rs flags (\<lambda>i. Network_Error) is s)"
    for rs flags "is" s
    by (induction "is" arbitrary: s) (simp_all add: case_prod_beta arrived)
  obtain s1 sent0 where b: "loadAndRender_begin Rev_main (JNum 1) st = (s1, sent0)"
    by (cases "loadAndRender_begin Rev_main (JNum 1) st")
  obtain s2 where fr: "fetchResources_receive sent0 Network_Error s1 = (s2, Inr (Arr MOCK_resources))"
    using res[of sent0 s1] by (cases "fetchResources_receive sent0 Network_Error s1") simp
  show ?thesis
    unfolding loadAndRender_def b
    by (simp add: loadAndRender_resume_def fr n len Let_def case_prod_beta recv settle4
          renderGrid_run_eq[OF step])
qed

theorem register_then_reload_witness:
  "\<exists>st1. handleModalConfirm CONFIG Rev_main Register register_ctx 1762160400000 example_state = Some st1
     \<and> registeredSlot st1 = Some
          \<lparr> reg_Appoitment_Id = JNum 1762160400000, reg_Resource_Id = JStr ''1'',
            reg_TimeFrom = JStr ''2025-11-03T09:00:00'',
            reg_TimeTo = JStr ''2025-11-03T09:30:00'' \<rparr>
     \<and> render_cell CONFIG Rev_main st1 (new_Date (Some 2025) (Some 10) (Some 3) 9 0)
           (MOCK_resources ! 0) = Some (0, Registered)
     \<and> (\<exists>st2. loadAndRender CONFIG Rev_main ''2025-11-03'' (JNum 1) Network_Error
                  (\<lambda>i. Network_Error) [0, 1, 2, 3] st1 = Some (st2, Rendered)
              \<and> registeredSlot st2 = None)"
proof -
  have step: "0 < SLOT_DURATION_MIN CONFIG" by (simp add: CONFIG_def)
  have off: "\<not> RESPECT_SERVER_REGISTERED CONFIG" by (simp add: CONFIG_def)
  from register_then_reload[OF step, of 1762160400000 Rev_main register_ctx example_state
      "''2025-11-03''" "JNum 1" Network_Error "\<lambda>i. Network_Error" "[0, 1, 2, 3]"]
  obtain st1 where st1:
    "handleModalConfirm CONFIG Rev_main Register register_ctx 1762160400000 example_state = Some st1"
    "registeredSlot st1 = Some
          \<lparr> reg_Appoitment_Id = JNum 1762160400000, reg_Resource_Id = ID (ctx_resource register_ctx),
            reg_TimeFrom = TimeFrom (heap example_state (ctx_slot register_ctx)),
            reg_TimeTo = TimeTo (heap example_state (ctx_slot register_ctx)) \<rparr>"
    "heap st1 = (heap example_state)(ctx_slot register_ctx :=
                      (heap example_state (ctx_slot register_ctx))
                        \<lparr>Register_Id := ctx_customerId register_ctx,
                         Appoitment_Id := JNum 1762160400000\<rparr>)"
    "slotsMap st1 = slotsMap example_state"
    "\<forall>custId. slot_className CONFIG st1 (heap st1 (ctx_slot register_ctx)) custId = Registered"
    "\<forall>st2. loadAndRender CONFIG Rev_main ''2025-11-03'' (JNum 1) Network_Error
             (\<lambda>i. Network_Error) [0, 1, 2, 3] st1 = Some (st2, Rendered)
           \<longrightarrow> registeredSlot st2 = None"
    using off by auto
  have ex: "heap example_state 0
              = mock_slot 7909 ''2025-11-03T09:00:00'' ''2025-11-03T09:30:00'' 1 JUndefined"
    "slotsMap example_state = [''1'' \<mapsto> [0, 1], ''2'' \<mapsto> [2, 3]]"
    by (simp_all add: example_state_def initial_state_def example_heap_def)
  have c: "ctx_slot register_ctx = 0" "ID (ctx_resource register_ctx) = JStr ''1''"
    "ID (MOCK_resources ! 0) = JStr ''1''"
    by (simp_all add: register_ctx_def MOCK_resources_def)
  have reg: "registeredSlot st1 = Some
          \<lparr> reg_Appoitment_Id = JNum 1762160400000, reg_Resource_Id = JStr ''1'',
            reg_TimeFrom = JStr ''2025-11-03T09:00:00'',
            reg_TimeTo = JStr ''2025-11-03T09:30:00'' \<rparr>"
    by (simp add: st1(2) c ex mock_slot_def no_slot_def)
  have cell: "render_cell CONFIG Rev_main st1 (new_Date (Some 2025) (Some 10) (Some 3) 9 0)
           (MOCK_resources ! 0) = Some (0, Registered)"
    using st1(5)
    by (simp add: render_cell_def slots_of_def st1(3,4) c ex mock_slot_def no_slot_def mock_dates
          same_minute_refl)
  from mock_load[of st1] st1(6) have load:
    "\<exists>st2. loadAndRender CONFIG Rev_main ''2025-11-03'' (JNum 1) Network_Error
                  (\<lambda>i. Network_Error) [0, 1, 2, 3] st1 = Some (st2, Rendered)
              \<and> registeredSlot st2 = None"
    by blast
  show ?thesis using st1(1) reg cell load by blast
qed

section \<open>Seeding the tracker from the server's answer\<close>

lemma string_of_int_two: "string_of_int 2 = ''2''"
  by (simp add: string_of_int_def string_of_nat.simps digit_char_def)

lemma trusting_step: "0 < SLOT_DURATION_MIN trusting" "RESPECT_SERVER_REGISTERED trusting"
  by (simp_all add: trusting_def CONFIG_def)

lemma two_owned_load:
  "\<exists>st'. loadAndRender trusting Rev_update ''2025-11-03'' (JNum 1) one_resource two_owned [0]
            (initial_state ''2025-11-03'') = Some (st', Rendered)
         \<and> resources st' = [\<lparr> ID = JStr ''1'', Name_En = JStr ''Room'', Name = JUndefined \<rparr>]"
  by (simp add: loadAndRender_def loadAndRender_begin_def loadAndRender_resume_def apiGet_send_def
        setStatus_def emit_def fetchResources_receive_def apiGet_receive_def read_response_def
        ok_def one_resource_def two_owned_def normalize_resources_def string_of_int_examples
        settle_order_def slots_arrived_def fetchSlots_receive_def fetchSlots_try_def
        strict_eq_def
        store_slots_def Let_def case_prod_beta renderGrid_run_eq[OF trusting_step(1)]
        trusting_step(2) seed_registered_tracker
        initial_state_def)

lemma two_resources_load:
  "\<exists>st'. loadAndRender trusting Rev_update ''2025-11-03'' (JNum 1) two_resources owned_by_one [1, 0]
            (initial_state ''2025-11-03'') = Some (st', Rendered)
         \<and> resources st' = [\<lparr> ID = JStr ''1'', Name_En = JStr ''Room'', Name = JUndefined \<rparr>,
                             \<lparr> ID = JStr ''2'', Name_En = JStr ''Hall'', Name = JUndefined \<rparr>]"
  by (simp add: loadAndRender_def loadAndRender_begin_def loadAndRender_resume_def apiGet_send_def
        setStatus_def emit_def fetchResources_receive_def apiGet_receive_def read_response_def
        ok_def two_resources_def owned_by_one_def normalize_resources_def string_of_int_examples
        string_of_int_two
        settle_order_def slots_arrived_def fetchSlots_receive_def fetchSlots_try_def
        strict_eq_def
        store_slots_def Let_def case_prod_beta renderGrid_run_eq[OF trusting_step(1)]
        trusting_step(2) seed_registered_tracker
        initial_state_def)

text \<open>
  Claim C5, as the code has it. The callback of \<^verbatim>\<open>forEach\<close> assigns the tracker at
  every slot whose \<^verbatim>\<open>Register_Id\<close> is truthy and, as a number, equals the
  customer id, so a later match overwrites an earlier one; and the slot lists are scanned
  as their answers arrive. With the trust flag on, a load that draws the grid leaves the
  tracker at the last such slot, in the order in which the answers arrive and then in the
  order of each list, and leaves it empty when there is none.
\<close>

theorem loadAndRender_seeds_tracker:
  assumes "RESPECT_SERVER_REGISTERED cfg"
    and "loadAndRender cfg rv dateStr customerId res_outcome outcome_for order st = Some (st', Rendered)"
  shows "registeredSlot st'
           = (let found = concat (map (\<lambda>i. owned_in_reply cfg customerId dateStr (resources st' ! i)
                                              (slot_requests_sent rv st res_outcome) (outcome_for i))
                                   (settle_order (length (resources st')) order))
              in if found = [] then None else Some (last found))"
  using loadAndRender_tracker(1)[OF assms(2)] assms(1) by (simp add: tracker_after_def Let_def)

text \<open>
  Two resources, one slot of the customer in each; the answer for the second resource
  arrives first. The tracker ends at the slot of the first resource, whose answer came last.
\<close>

theorem loadAndRender_seeds_tracker_witness:
  "\<exists>st'. loadAndRender trusting Rev_update ''2025-11-03'' (JNum 1) two_resources owned_by_one [1, 0]
            (initial_state ''2025-11-03'') = Some (st', Rendered)
         \<and> registeredSlot st' = Some
              \<lparr> reg_Appoitment_Id = JNum 601, reg_Resource_Id = JStr ''1'',
                reg_TimeFrom = JStr ''2025-11-03T09:00:00'',
                reg_TimeTo = JStr ''2025-11-03T09:30:00'' \<rparr>"
proof -
  obtain st' where run:
    "loadAndRender trusting Rev_update ''2025-11-03'' (JNum 1) two_resources owned_by_one [1, 0]
       (initial_state ''2025-11-03'') = Some (st', Rendered)"
    and res: "resources st' = [\<lparr> ID = JStr ''1'', Name_En = JStr ''Room'', Name = JUndefined \<rparr>,
                               \<lparr> ID = JStr ''2'', Name_En = JStr ''Hall'', Name = JUndefined \<rparr>]"
    using two_resources_load by blast
  have "registeredSlot st' = Some
              \<lparr> reg_Appoitment_Id = JNum 601, reg_Resource_Id = JStr ''1'',
                reg_TimeFrom = JStr ''2025-11-03T09:00:00'',
                reg_TimeTo = JStr ''2025-11-03T09:30:00'' \<rparr>"
    using loadAndRender_seeds_tracker[OF trusting_step(2) run]
    by (simp add: res settle_order_def slot_requests_sent_def owned_in_reply_def slots_reply_def
          fetchSlots_try_def apiGet_receive_def read_response_def ok_def owned_by_one_def
          strict_eq_def
          owned_in_def serverRegistered_def registration_from_def mock_slot_def no_slot_def
          strict_eq_def Let_def)
  with run show ?thesis by blast
qed

text \<open>
  Against the first slot: the server names customer 1 as the owner of appointments 501 and
  502 of the one resource, in this order, and the tracker ends at 502.
\<close>

theorem loadAndRender_seeds_tracker_counterexample:
  "tracker_of_load
     (loadAndRender trusting Rev_update ''2025-11-03'' (JNum 1) one_resource two_owned [0]
        (initial_state ''2025-11-03''))
     = Some (Some \<lparr> reg_Appoitment_Id = JNum 502, reg_Resource_Id = JStr ''1'',
                      reg_TimeFrom = JStr ''2025-11-03T10:00:00'',
                      reg_TimeTo = JStr ''2025-11-03T10:30:00'' \<rparr>, Rendered)
   \<and> map reg_Appoitment_Id
         (owned_in_reply trusting (JNum 1) ''2025-11-03''
            \<lparr> ID = JStr ''1'', Name_En = JStr ''Room'', Name = JUndefined \<rparr> True (two_owned 0))
       = [JNum 501, JNum 502]"
proof -
  obtain st' where run:
    "loadAndRender trusting Rev_update ''2025-11-03'' (JNum 1) one_resource two_owned [0]
       (initial_state ''2025-11-03'') = Some (st', Rendered)"
    and res: "resources st' = [\<lparr> ID = JStr ''1'', Name_En = JStr ''Room'', Name = JUndefined \<rparr>]"
    using two_owned_load by blast
  have owned: "owned_in_reply trusting (JNum 1) ''2025-11-03''
         \<lparr> ID = JStr ''1'', Name_En = JStr ''Room'', Name = JUndefined \<rparr> True (two_owned 0)
      = [\<lparr> reg_Appoitment_Id = JNum 501, reg_Resource_Id = JStr ''1'',
                reg_TimeFrom = JStr ''2025-11-03T09:00:00'',
                reg_TimeTo = JStr ''2025-11-03T09:30:00'' \<rparr>,
         \<lparr> reg_Appoitment_Id = JNum 502, reg_Resource_Id = JStr ''1'',
                reg_TimeFrom = JStr ''2025-11-03T10:00:00'',
                reg_TimeTo = JStr ''2025-11-03T10:30:00'' \<rparr>]"
    by (simp add: owned_in_reply_def slots_reply_def
          fetchSlots_try_def apiGet_receive_def read_response_def ok_def two_owned_def
          owned_in_def serverRegistered_def registration_from_def mock_slot_def no_slot_def
          strict_eq_def Let_def)
  have "registeredSlot st' = Some
              \<lparr> reg_Appoitment_Id = JNum 502, reg_Resource_Id = JStr ''1'',
                reg_TimeFrom = JStr ''2025-11-03T10:00:00'',
                reg_TimeTo = JStr ''2025-11-03T10:30:00'' \<rparr>"
    using loadAndRender_tracker(1)[OF run] owned
    by (simp add: res trusting_step settle_order_def slot_requests_sent_def tracker_after_def)
  with run owned show ?thesis by (simp add: tracker_of_load_def)
qed

end
